(* ===== verification/Prelude.thy ===== *)
theory Prelude
  imports Complex_Main "HOL-Library.Sublist"
begin

text \<open>
  Shared vocabulary of the development: the Python exceptions that the
  modelled code can raise, the result type \<open>py_error + 'a\<close> in which a raise is
  \<open>Inl\<close>, a bind on that type that stops at the first exception as Python does,
  Python's non-negative list indexing (which raises \<open>IndexError\<close> out of range
  instead of returning an unspecified element), the file system as a map from
  paths to file contents, and the generic list lemmas the component theories
  share.  The collection \<open>py_simps\<close> gathers the evaluation equations of the
  Python primitives so that component proofs can say \<open>simp add: py_simps\<close>.
\<close>

named_theorems py_simps "evaluation equations of the modelled Python primitives"

section \<open>Python exceptions and results\<close>

datatype py_error =
    ValueError string
  | IndexError
  | TypeError string
  | FileNotFoundError string
  | AttributeError string
  | ZeroDivisionError string

type_synonym 'a py_result = "py_error + 'a"

definition res_bind :: "'a py_result \<Rightarrow> ('a \<Rightarrow> 'b py_result) \<Rightarrow> 'b py_result" where
  "res_bind m f = (case m of Inl e \<Rightarrow> Inl e | Inr x \<Rightarrow> f x)"

text \<open>
  Applying a raising function to each element in order and collecting the
  results, stopping at the first exception: the meaning of a Python loop that
  appends \<open>f(x)\<close> for each \<open>x\<close>.
\<close>

fun map_res :: "('a \<Rightarrow> 'b py_result) \<Rightarrow> 'a list \<Rightarrow> 'b list py_result" where
  "map_res f [] = Inr []"
| "map_res f (x # xs) =
     (case f x of
        Inl e \<Rightarrow> Inl e
      | Inr y \<Rightarrow> (case map_res f xs of Inl e \<Rightarrow> Inl e | Inr ys \<Rightarrow> Inr (y # ys)))"

section \<open>Python list indexing\<close>

text \<open>\<open>xs[i]\<close> for a non-negative index \<open>i\<close>, as the modelled code uses it.\<close>

definition py_index :: "'a list \<Rightarrow> nat \<Rightarrow> 'a py_result" where
  "py_index xs i = (if i < length xs then Inr (xs ! i) else Inl IndexError)"

section \<open>The file system\<close>

text \<open>
  The directory tree the scripts see, as a map from a path relative to the
  working directory (components separated by \<open>/\<close>) to the text of the file.
\<close>

type_synonym path = string

type_synonym filesystem = "path \<Rightarrow> string option"

section \<open>Lemmas on results, indexing and lists\<close>

lemma res_bind_Inl [simp, py_simps]: "res_bind (Inl e) f = Inl e"
  by (simp add: res_bind_def)

lemma res_bind_Inr [simp, py_simps]: "res_bind (Inr x) f = f x"
  by (simp add: res_bind_def)

lemma res_bind_eq_Inr:
  "res_bind m f = Inr y \<longleftrightarrow> (\<exists>x. m = Inr x \<and> f x = Inr y)"
  by (cases m) auto

lemma res_bind_eq_Inl:
  "res_bind m f = Inl e \<longleftrightarrow> m = Inl e \<or> (\<exists>x. m = Inr x \<and> f x = Inl e)"
  by (cases m) auto

lemma map_res_eq_Inr: "map_res f xs = Inr ys \<longleftrightarrow> list_all2 (\<lambda>x y. f x = Inr y) xs ys"
proof (induction xs arbitrary: ys)
  case Nil
  then show ?case by auto
next
  case (Cons x xs)
  then show ?case
    by (cases ys) (auto simp: Cons.IH [symmetric] split: sum.splits)
qed

lemma map_res_length: "map_res f xs = Inr ys \<Longrightarrow> length ys = length xs"
  by (simp add: map_res_eq_Inr list_all2_lengthD)

lemma map_res_map_Inr: "(\<And>x. x \<in> set xs \<Longrightarrow> f x = Inr (g x)) \<Longrightarrow> map_res f xs = Inr (map g xs)"
  by (induction xs) auto

lemma map_res_map_comp:
  "(\<And>x. x \<in> set xs \<Longrightarrow> f (h x) = Inr (g x)) \<Longrightarrow> map_res f (map h xs) = Inr (map g xs)"
  by (induction xs) auto

lemma map_res_cong: "(\<And>x. x \<in> set xs \<Longrightarrow> f x = g x) \<Longrightarrow> map_res f xs = map_res g xs"
  by (induction xs) (simp_all split: sum.splits)

lemma map_res_append:
  "map_res f (xs @ ys) =
     res_bind (map_res f xs) (\<lambda>as. res_bind (map_res f ys) (\<lambda>bs. Inr (as @ bs)))"
  by (induction xs) (auto simp: res_bind_def split: sum.splits)

lemma map_res_Inr_set: "map_res f xs = Inr ys \<Longrightarrow> y \<in> set ys \<Longrightarrow> \<exists>x\<in>set xs. f x = Inr y"
  by (induction xs arbitrary: ys) (auto split: sum.splits)

lemma upt_0_3: "[0..<3] = [0, 1, 2::nat]"
  by (simp add: upt_rec)

lemma map_res_Inl_set: "map_res f xs = Inl e \<Longrightarrow> \<exists>x\<in>set xs. f x = Inl e"
  by (induction xs) (auto split: sum.splits)

lemma map_res_Inl_if: "x \<in> set xs \<Longrightarrow> f x = Inl e \<Longrightarrow> \<exists>e'. map_res f xs = Inl e'"
  by (induction xs) (auto split: sum.splits)

lemma map_res_first_error:
  "list_all2 (\<lambda>x y. f x = Inr y) xs ys \<Longrightarrow> f z = Inl e \<Longrightarrow> map_res f (xs @ z # zs) = Inl e"
  by (induction xs ys rule: list_all2_induct) auto

lemma py_index_Cons_0 [simp, py_simps]: "py_index (x # xs) 0 = Inr x"
  by (simp add: py_index_def)

lemma py_index_Cons_Suc [simp, py_simps]: "py_index (x # xs) (Suc i) = py_index xs i"
  by (simp add: py_index_def)

lemma py_index_Cons_numeral [simp, py_simps]:
  "py_index (x # xs) (numeral n) = py_index xs (pred_numeral n)"
  by (simp add: py_index_def numeral_eq_Suc)

lemma py_index_Nil [simp, py_simps]: "py_index [] i = Inl IndexError"
  by (simp add: py_index_def)

lemma py_index_eq_Inr: "py_index xs i = Inr x \<longleftrightarrow> i < length xs \<and> x = xs ! i"
  by (auto simp: py_index_def)

lemma py_index_eq_Inl: "py_index xs i = Inl e \<longleftrightarrow> length xs \<le> i \<and> e = IndexError"
  by (auto simp: py_index_def)

text \<open>An index loop \<open>for i in range(len(a))\<close> over two lists of equal length is a \<open>map2\<close>.\<close>

lemma map_upt_nth2:
  "length xs = length ys \<Longrightarrow>
   map (\<lambda>i. f (xs ! i) (ys ! i)) [0..<length xs] = map2 f xs ys"
proof (induction xs ys rule: list_induct2)
  case Nil
  then show ?case by simp
next
  case (Cons x xs y ys)
  have "map (\<lambda>i. f ((x # xs) ! i) ((y # ys) ! i)) [0..<length (x # xs)] =
        f x y # map (\<lambda>i. f (xs ! i) (ys ! i)) [0..<length xs]"
    by (simp add: map_upt_Suc del: upt_Suc)
  with Cons.IH show ?case by simp
qed

end
