(* ===== verification/PyText.thy ===== *)
theory PyText
  imports Prelude
begin

text \<open>
  The Python text primitives that the VTK readers of
  \<open>src/integrated-tests/Test-scripts/test_fierro.py\<close> are built from, modelled
  from the Python language semantics (they are not code of this repository):
  \<^item> \<open>str.isspace\<close> on one character and \<open>str.strip()\<close>;
  \<^item> \<open>str.split()\<close> with no separator (split at runs of whitespace, no empty
    fields);
  \<^item> the substring test \<open>keyword in line\<close>;
  \<^item> iterating over a file opened with \<open>open(filename, 'r')\<close>: universal newline
    translation, then one line per \<open>\n\<close>, each line keeping its \<open>\n\<close>;
  \<^item> \<open>float(token)\<close> on finite decimal literals.
  Characters are the 8-bit \<open>char\<close> of HOL; whitespace is the ASCII part of
  Python's whitespace class.  \<open>float\<close> is modelled on the decimal literal
  grammar with exact rational values: rounding to the nearest double is not
  modelled, and the non-finite literals (\<open>inf\<close>, \<open>nan\<close>) and digit separators
  (\<open>1_0\<close>), which Python also accepts, are rejected by the model.
\<close>

section \<open>Whitespace, strip and split\<close>

definition py_isspace :: "char \<Rightarrow> bool" where
  "py_isspace c \<longleftrightarrow>
     (let n = (of_char c :: nat) in (9 \<le> n \<and> n \<le> 13) \<or> (28 \<le> n \<and> n \<le> 32))"

definition py_strip :: "string \<Rightarrow> string" where
  "py_strip s = rev (dropWhile py_isspace (rev (dropWhile py_isspace s)))"

function py_split :: "string \<Rightarrow> string list" where
  "py_split s =
     (let s' = dropWhile py_isspace s
      in if s' = [] then []
         else takeWhile (\<lambda>c. \<not> py_isspace c) s' # py_split (dropWhile (\<lambda>c. \<not> py_isspace c) s'))"
  by pat_completeness auto
termination
proof (relation "measure length")
  fix s s' :: string
  assume s': "s' = dropWhile py_isspace s" and ne: "s' \<noteq> []"
  then obtain c t where ct: "s' = c # t" and "\<not> py_isspace c"
    by (metis dropWhile_eq_Cons_conv list.exhaust)
  then have "length (dropWhile (\<lambda>c. \<not> py_isspace c) s') \<le> length t"
    by (simp add: length_dropWhile_le)
  moreover have "length s' \<le> length s"
    using s' by (simp add: length_dropWhile_le)
  ultimately show "(dropWhile (\<lambda>c. \<not> py_isspace c) s', s) \<in> measure length"
    using ct by simp
qed simp

declare py_split.simps [simp del]

section \<open>The substring test \<open>kw in line\<close>\<close>

fun py_in :: "string \<Rightarrow> string \<Rightarrow> bool" where
  "py_in kw [] = (kw = [])"
| "py_in kw (c # cs) = (prefix kw (c # cs) \<or> py_in kw cs)"

section \<open>Reading a text file line by line\<close>

abbreviation LF :: char where "LF \<equiv> CHR 0x0A"

abbreviation CR :: char where "CR \<equiv> CHR 0x0D"

text \<open>Universal newlines: \<open>\r\n\<close> and a lone \<open>\r\<close> are read as \<open>\n\<close>.\<close>

fun universal_newlines :: "string \<Rightarrow> string" where
  "universal_newlines [] = []"
| "universal_newlines [c] = [if c = CR then LF else c]"
| "universal_newlines (c # d # s) =
     (if c = CR \<and> d = LF then LF # universal_newlines s
      else (if c = CR then LF else c) # universal_newlines (d # s))"

text \<open>
  \<open>for line in file\<close>: the characters read since the last newline are
  accumulated in \<open>cur\<close>; a newline ends the line (and stays in it); a last
  line without a newline is yielded when it is not empty.
\<close>

fun lines_acc :: "string \<Rightarrow> string \<Rightarrow> string list" where
  "lines_acc cur [] = (if cur = [] then [] else [cur])"
| "lines_acc cur (c # s) =
     (if c = LF then (cur @ [c]) # lines_acc [] s else lines_acc (cur @ [c]) s)"

definition file_lines :: "string \<Rightarrow> string list" where
  "file_lines content = lines_acc [] (universal_newlines content)"

section \<open>\<open>float(token)\<close>\<close>

definition is_digit :: "char \<Rightarrow> bool" where
  "is_digit c \<longleftrightarrow> (let n = (of_char c :: nat) in 48 \<le> n \<and> n \<le> 57)"

definition digit_value :: "char \<Rightarrow> nat" where
  "digit_value c = of_char c - 48"

definition digits_nat :: "string \<Rightarrow> nat" where
  "digits_nat ds = foldl (\<lambda>n c. 10 * n + digit_value c) 0 ds"

definition take_sign :: "string \<Rightarrow> int \<times> string" where
  "take_sign s =
     (case s of
        [] \<Rightarrow> (1, [])
      | c # t \<Rightarrow> if c = CHR ''-'' then (-1, t) else if c = CHR ''+'' then (1, t) else (1, s))"

definition parse_exponent :: "string \<Rightarrow> int option" where
  "parse_exponent s =
     (case s of
        [] \<Rightarrow> Some 0
      | c # t \<Rightarrow>
          if c = CHR ''e'' \<or> c = CHR ''E'' then
            (case take_sign t of
               (sg, ds) \<Rightarrow> if ds \<noteq> [] \<and> list_all is_digit ds then Some (sg * int (digits_nat ds)) else None)
          else None)"

definition decimal_value :: "nat \<Rightarrow> int \<Rightarrow> real" where
  "decimal_value m e = (if 0 \<le> e then real m * 10 ^ nat e else real m / 10 ^ nat (- e))"

definition split_fraction :: "string \<Rightarrow> string \<times> string" where
  "split_fraction r =
     (case r of
        c # t \<Rightarrow> if c = CHR ''.'' then (takeWhile is_digit t, dropWhile is_digit t) else ([], r)
      | [] \<Rightarrow> ([], []))"

definition py_float :: "string \<Rightarrow> real option" where
  "py_float s =
     (case take_sign s of
        (sg, r0) \<Rightarrow>
          (let ip = takeWhile is_digit r0 in
           case split_fraction (dropWhile is_digit r0) of
             (fp, r2) \<Rightarrow>
               if ip = [] \<and> fp = [] then None
               else (case parse_exponent r2 of
                       None \<Rightarrow> None
                     | Some e \<Rightarrow>
                         Some (of_int sg * decimal_value (digits_nat (ip @ fp)) (e - int (length fp))))))"

text \<open>\<open>float(tok)\<close> raising \<open>ValueError\<close> with Python's message on a malformed token.\<close>

definition py_float_conv :: "string \<Rightarrow> real py_result" where
  "py_float_conv tok =
     (case py_float tok of
        None \<Rightarrow> Inl (ValueError (''could not convert string to float: '' @ [CHR 0x27] @ tok @ [CHR 0x27]))
      | Some x \<Rightarrow> Inr x)"

text \<open>\<open>float(s)\<close> on an arbitrary string, such as the text of a line edit:
  surrounding whitespace is ignored and the message quotes the string as given.\<close>

definition py_float_str :: "string \<Rightarrow> real py_result" where
  "py_float_str s =
     (case py_float (py_strip s) of
        None \<Rightarrow> Inl (ValueError (''could not convert string to float: '' @ [CHR 0x27] @ s @ [CHR 0x27]))
      | Some x \<Rightarrow> Inr x)"

section \<open>Printing integers\<close>

text \<open>Decimal rendering of integers, as a writer of the VTK text format prints integral coordinates.\<close>

definition digit_char :: "nat \<Rightarrow> char" where
  "digit_char d = char_of (48 + d)"

fun show_nat :: "nat \<Rightarrow> string" where
  "show_nat n = (if n < 10 then [digit_char n] else show_nat (n div 10) @ [digit_char (n mod 10)])"

declare show_nat.simps [simp del]

definition show_int :: "int \<Rightarrow> string" where
  "show_int i = (if i < 0 then CHR ''-'' # show_nat (nat (- i)) else show_nat (nat i))"

fun join_words :: "string list \<Rightarrow> string" where
  "join_words [] = []"
| "join_words [w] = w"
| "join_words (w # v # ws) = w @ CHR '' '' # join_words (v # ws)"

definition write_lines :: "string list \<Rightarrow> string" where
  "write_lines ls = concat (map (\<lambda>l. l @ [LF]) ls)"

text \<open>The evaluation equations of the primitives, for computing them on concrete text.\<close>

declare py_split.simps [py_simps] py_isspace_def [py_simps] py_strip_def [py_simps]
  py_float_conv_def [py_simps] py_float_def [py_simps] take_sign_def [py_simps]
  split_fraction_def [py_simps] parse_exponent_def [py_simps] is_digit_def [py_simps]
  digits_nat_def [py_simps] digit_value_def [py_simps] decimal_value_def [py_simps]

section \<open>Properties of the text primitives\<close>

subsection \<open>strip, split and in\<close>

lemma dropWhile_all_iff: "(\<forall>x\<in>set (dropWhile P xs). P x) \<longleftrightarrow> (\<forall>x\<in>set xs. P x)"
  by (induction xs) auto

lemma py_strip_eq_Nil_iff: "py_strip s = [] \<longleftrightarrow> list_all py_isspace s"
  by (simp add: py_strip_def dropWhile_all_iff list_all_iff)

lemma py_split_eq_Nil_iff: "py_split s = [] \<longleftrightarrow> list_all py_isspace s"
  by (subst py_split.simps) (simp add: Let_def list_all_iff)

text \<open>Every field returned by str.split() is non-empty and contains no whitespace.\<close>

theorem py_split_fields:
  "w \<in> set (py_split s) \<Longrightarrow> w \<noteq> [] \<and> list_all (\<lambda>c. \<not> py_isspace c) w"
proof (induction s rule: py_split.induct)
  case (1 s)
  let ?s' = "dropWhile py_isspace s"
  show ?case
  proof (cases "?s' = []")
    case True
    with "1.prems" show ?thesis by (subst (asm) py_split.simps) simp
  next
    case False
    then obtain c t where ct: "?s' = c # t" by (cases ?s') auto
    then have c: "\<not> py_isspace c"
      by (metis dropWhile_eq_Cons_conv)
    from "1.prems" False
    have "w = takeWhile (\<lambda>c. \<not> py_isspace c) ?s' \<or>
          w \<in> set (py_split (dropWhile (\<lambda>c. \<not> py_isspace c) ?s'))"
      by (subst (asm) py_split.simps) (auto simp: Let_def split: if_splits)
    then show ?thesis
    proof
      assume "w = takeWhile (\<lambda>c. \<not> py_isspace c) ?s'"
      with ct c show ?thesis by (auto simp: list_all_iff dest: set_takeWhileD)
    next
      assume "w \<in> set (py_split (dropWhile (\<lambda>c. \<not> py_isspace c) ?s'))"
      with "1.IH" False show ?thesis by simp
    qed
  qed
qed

theorem py_split_fields_witness:
  "''1.0'' \<noteq> [] \<and> list_all (\<lambda>c. \<not> py_isspace c) ''1.0''"
proof -
  have "''1.0'' \<in> set (py_split ('' 1.0  2'' @ [LF]))"
    by (simp add: py_simps)
  then show ?thesis by (rule py_split_fields)
qed

lemma py_split_space_prefix:
  "list_all py_isspace ws \<Longrightarrow> py_split (ws @ s) = py_split s"
  by (subst (1 2) py_split.simps) (simp add: list_all_iff)

lemma py_split_word:
  assumes "w \<noteq> []" and "list_all (\<lambda>c. \<not> py_isspace c) w"
    and "s = [] \<or> py_isspace (hd s)"
  shows "py_split (w @ s) = w # py_split s"
proof -
  obtain c t where w: "w = c # t" using assms(1) by (cases w) auto
  have tw: "takeWhile (\<lambda>c. \<not> py_isspace c) s = []" and
       dw: "dropWhile (\<lambda>c. \<not> py_isspace c) s = s"
    using assms(3) by (cases s; auto)+
  from assms(2) w have "dropWhile py_isspace (w @ s) = w @ s" by simp
  with assms(2) tw dw show ?thesis
    by (subst py_split.simps) (simp add: Let_def list_all_iff w)
qed

text \<open>The substring test keyword in line is exactly the sublist relation of the library: line = xs @ kw @ ys for some xs, ys.\<close>

theorem py_in_iff_sublist: "py_in kw line \<longleftrightarrow> sublist kw line"
  by (induction line) (simp_all add: sublist_Cons_right)

theorem py_in_iff_sublist_witness:
  "py_in ''POINTS'' ''POINTS 8 float'' \<and> sublist ''POINTS'' ''POINTS 8 float''"
  using py_in_iff_sublist [of "''POINTS''" "''POINTS 8 float''"] by simp

subsection \<open>Line iteration\<close>

lemma concat_lines_acc: "concat (lines_acc cur s) = cur @ s"
  by (induction s arbitrary: cur) auto

lemma lines_acc_line:
  "LF \<notin> set l \<Longrightarrow> lines_acc cur (l @ LF # s) = (cur @ l @ [LF]) # lines_acc [] s"
  by (induction l arbitrary: cur) auto

lemma lines_acc_last:
  "LF \<notin> set l \<Longrightarrow> lines_acc cur l = (if cur @ l = [] then [] else [cur @ l])"
  by (induction l arbitrary: cur) auto

lemma universal_newlines_id: "CR \<notin> set s \<Longrightarrow> universal_newlines s = s"
  by (induction s rule: universal_newlines.induct) auto

text \<open>Round trip of line iteration: the lines yielded by iterating over a file, concatenated, are its text after universal-newline translation; nothing is lost or duplicated.\<close>

theorem file_lines_roundtrip: "concat (file_lines content) = universal_newlines content"
  by (simp add: file_lines_def concat_lines_acc)

theorem file_lines_roundtrip_witness:
  "concat (file_lines (''a'' @ [CR, LF] @ ''b'' @ [CR])) = ''a'' @ [LF] @ ''b'' @ [LF]"
  using file_lines_roundtrip [of "''a'' @ [CR, LF] @ ''b'' @ [CR]"] by simp

subsection \<open>Printing integers and reading them back with \<open>float\<close>\<close>

lemma digit_char_props:
  assumes "d < 10"
  shows "is_digit (digit_char d)" and "digit_value (digit_char d) = d"
  using assms by (simp_all add: digit_char_def is_digit_def digit_value_def)

lemma digits_nat_snoc [simp]: "digits_nat (ds @ [c]) = 10 * digits_nat ds + digit_value c"
  by (simp add: digits_nat_def)

lemma show_nat_digits: "show_nat n \<noteq> [] \<and> list_all is_digit (show_nat n)"
proof (induction n rule: show_nat.induct)
  case (1 n)
  then show ?case
    by (cases "n < 10") (simp_all add: show_nat.simps [of n] digit_char_props)
qed

lemma digits_nat_show_nat: "digits_nat (show_nat n) = n"
proof (induction n rule: show_nat.induct)
  case (1 n)
  then show ?case
    by (cases "n < 10") (simp_all add: show_nat.simps [of n] digit_char_props digits_nat_def)
qed

lemma is_digit_not_sign: "is_digit c \<Longrightarrow> c \<noteq> CHR ''-'' \<and> c \<noteq> CHR ''+'' \<and> c \<noteq> CHR ''.''"
  by (auto simp: is_digit_def)

lemma py_float_digits:
  assumes "ds \<noteq> []" and "list_all is_digit ds"
  shows "py_float ds = Some (real (digits_nat ds))"
    and "py_float (CHR ''-'' # ds) = Some (- real (digits_nat ds))"
proof -
  obtain c t where ct: "ds = c # t" using assms(1) by (cases ds) auto
  have tw: "takeWhile is_digit ds = ds" and dw: "dropWhile is_digit ds = []"
    using assms(2) by (simp_all add: list_all_iff)
  have ts: "take_sign ds = (1, ds)"
    using assms(2) ct by (auto simp: take_sign_def dest: is_digit_not_sign)
  show "py_float ds = Some (real (digits_nat ds))"
    using assms(1) by (simp add: py_float_def ts tw dw split_fraction_def parse_exponent_def decimal_value_def)
  show "py_float (CHR ''-'' # ds) = Some (- real (digits_nat ds))"
    using assms(1) by (simp add: py_float_def take_sign_def tw dw split_fraction_def parse_exponent_def decimal_value_def)
qed

text \<open>Round trip of number text: float() applied to the decimal rendering of any integer returns that integer.\<close>

theorem py_float_show_int: "py_float (show_int i) = Some (of_int i)"
  using show_nat_digits py_float_digits
  by (simp add: show_int_def digits_nat_show_nat)

theorem py_float_show_int_witness: "py_float (show_int (-42)) = Some (-42)"
  using py_float_show_int [of "-42"] by simp

subsection \<open>Printed fields and written lines read back\<close>

lemma show_int_chars: "c \<in> set (show_int i) \<Longrightarrow> is_digit c \<or> c = CHR ''-''"
  using show_nat_digits [of "nat i"] show_nat_digits [of "nat (- i)"]
  by (auto simp: show_int_def list_all_iff split: if_splits)

lemma is_digit_not_special: "is_digit c \<Longrightarrow> \<not> py_isspace c \<and> c \<noteq> LF \<and> c \<noteq> CR"
  by (auto simp: is_digit_def py_isspace_def Let_def)

lemma show_int_word: "show_int i \<noteq> [] \<and> list_all (\<lambda>c. \<not> py_isspace c) (show_int i) \<and>
    LF \<notin> set (show_int i) \<and> CR \<notin> set (show_int i)"
proof -
  have "show_int i \<noteq> []"
    using show_nat_digits by (simp add: show_int_def)
  moreover have "c \<in> set (show_int i) \<Longrightarrow> \<not> py_isspace c \<and> c \<noteq> LF \<and> c \<noteq> CR" for c
    using show_int_chars [of c i] is_digit_not_special [of c] by (auto simp: py_isspace_def)
  ultimately show ?thesis by (auto simp: list_all_iff)
qed

lemma py_split_join_words:
  assumes "\<forall>w\<in>set ws. w \<noteq> [] \<and> list_all (\<lambda>c. \<not> py_isspace c) w"
    and "t = [] \<or> py_isspace (hd t)"
  shows "py_split (join_words ws @ t) = ws @ py_split t"
  using assms(1)
proof (induction ws rule: join_words.induct)
  case 1
  then show ?case by simp
next
  case (2 w)
  then show ?case using assms(2) by (simp add: py_split_word)
next
  case (3 w v ws)
  then have "py_split (join_words (v # ws) @ t) = (v # ws) @ py_split t" by simp
  moreover have "py_split (w @ CHR '' '' # join_words (v # ws) @ t) =
      w # py_split (CHR '' '' # join_words (v # ws) @ t)"
    using "3.prems" py_split_word [of w "CHR '' '' # join_words (v # ws) @ t"]
    by (simp add: py_isspace_def)
  moreover have "py_split (CHR '' '' # join_words (v # ws) @ t) = py_split (join_words (v # ws) @ t)"
    using py_split_space_prefix [of "[CHR '' '']"] by (simp add: py_isspace_def)
  ultimately show ?case by simp
qed

lemma set_join_words: "set (join_words ws) \<subseteq> (\<Union>w\<in>set ws. set w) \<union> {CHR '' ''}"
  by (induction ws rule: join_words.induct) auto

lemma py_float_conv_show_int: "py_float_conv (show_int i) = Inr (of_int i)"
  using show_nat_digits py_float_digits
  by (simp add: py_float_conv_def show_int_def digits_nat_show_nat)

lemma length3_cases: "length p = 3 \<Longrightarrow> \<exists>x y z. p = [x, y, z]"
  by (auto simp: length_Suc_conv numeral_3_eq_3)

lemma lines_acc_write_lines:
  "\<forall>l\<in>set ls. LF \<notin> set l \<Longrightarrow> lines_acc [] (concat (map (\<lambda>l. l @ [LF]) ls)) = map (\<lambda>l. l @ [LF]) ls"
  by (induction ls) (simp_all add: lines_acc_line)

lemma file_lines_write_lines:
  assumes "\<forall>l\<in>set ls. LF \<notin> set l \<and> CR \<notin> set l"
  shows "file_lines (write_lines ls) = map (\<lambda>l. l @ [LF]) ls"
proof -
  have "CR \<notin> set (write_lines ls)" using assms by (auto simp: write_lines_def)
  then have "universal_newlines (write_lines ls) = write_lines ls" by (rule universal_newlines_id)
  with assms show ?thesis by (simp add: file_lines_def write_lines_def lines_acc_write_lines)
qed

end
