(* ===== verification/VtkReader.thy ===== *)
theory VtkReader
  imports PyText
begin

text \<open>
  The two readers of the legacy VTK text format in
  \<open>src/integrated-tests/Test-scripts/test_fierro.py\<close>:
  \<open>extract_vector_data\<close> (lines 46--67) and \<open>extract_scalar_data\<close> (lines 70--87).
  Each opens the file, iterates over its lines with a flag \<open>found_keyword\<close>
  and an accumulator \<open>data\<close>; the loop is a recursive function over the list
  of lines with the flag and the accumulator as arguments, and every
  exception the body can raise (\<open>IndexError\<close> from \<open>fields[k]\<close>,
  \<open>ValueError\<close> from \<open>float\<close>, \<open>FileNotFoundError\<close> from \<open>open\<close>) is an
  \<open>Inl\<close> of the result.

  The abstract specification \<open>section_lines\<close> says which lines the readers
  look at: the non-blank lines right after the first line containing the
  keyword, up to the first blank line.  The refinement lemmas
  \<open>extract_vector_loop_spec\<close> and \<open>extract_scalar_loop_spec\<close> show that the
  streaming loops parse exactly those lines, in order, and stop at the first
  line that fails.
\<close>

type_synonym vec = "real list"

section \<open>extract_vector_data\<close>

text \<open>Lines 55--61: split the line and convert the first three fields.\<close>

definition parse_vector_line :: "string \<Rightarrow> vec py_result" where
  "parse_vector_line line =
     (let fields = py_split line in
      res_bind (res_bind (py_index fields 0) py_float_conv) (\<lambda>xx.
      res_bind (res_bind (py_index fields 1) py_float_conv) (\<lambda>yy.
      res_bind (res_bind (py_index fields 2) py_float_conv) (\<lambda>zz.
      Inr [xx, yy, zz]))))"

text \<open>Lines 51--65: the loop over the lines of the file.\<close>

fun extract_vector_loop :: "string \<Rightarrow> bool \<Rightarrow> vec list \<Rightarrow> string list \<Rightarrow> vec list py_result" where
  "extract_vector_loop keyword found_keyword data [] = Inr data"
| "extract_vector_loop keyword found_keyword data (line # lines) =
     (if found_keyword then
        (if py_strip line \<noteq> [] then
           (case parse_vector_line line of
              Inl e \<Rightarrow> Inl e
            | Inr vec \<Rightarrow> extract_vector_loop keyword True (data @ [vec]) lines)
         else Inr data)
      else if py_in keyword line then extract_vector_loop keyword True data lines
      else extract_vector_loop keyword False data lines)"

definition extract_vector_data :: "filesystem \<Rightarrow> path \<Rightarrow> string \<Rightarrow> vec list py_result" where
  "extract_vector_data fs filename keyword =
     (case fs filename of
        None \<Rightarrow> Inl (FileNotFoundError filename)
      | Some content \<Rightarrow> extract_vector_loop keyword False [] (file_lines content))"

section \<open>extract_scalar_data\<close>

text \<open>
  Lines 78--80: a data line whose first field is \<open>LOOKUP_TABLE\<close> is skipped
  (\<open>Inr None\<close>); otherwise the first field is converted.
\<close>

definition parse_scalar_line :: "string \<Rightarrow> real option py_result" where
  "parse_scalar_line line =
     (let fields = py_split line in
      res_bind (py_index fields 0) (\<lambda>f0.
        if f0 \<noteq> ''LOOKUP_TABLE'' then res_bind (py_float_conv f0) (\<lambda>x. Inr (Some x))
        else Inr None))"

fun extract_scalar_loop :: "string \<Rightarrow> bool \<Rightarrow> real list \<Rightarrow> string list \<Rightarrow> real list py_result" where
  "extract_scalar_loop keyword found_keyword data [] = Inr data"
| "extract_scalar_loop keyword found_keyword data (line # lines) =
     (if found_keyword then
        (if py_strip line \<noteq> [] then
           (case parse_scalar_line line of
              Inl e \<Rightarrow> Inl e
            | Inr None \<Rightarrow> extract_scalar_loop keyword True data lines
            | Inr (Some x) \<Rightarrow> extract_scalar_loop keyword True (data @ [x]) lines)
         else Inr data)
      else if py_in keyword line then extract_scalar_loop keyword True data lines
      else extract_scalar_loop keyword False data lines)"

definition extract_scalar_data :: "filesystem \<Rightarrow> path \<Rightarrow> string \<Rightarrow> real list py_result" where
  "extract_scalar_data fs filename keyword =
     (case fs filename of
        None \<Rightarrow> Inl (FileNotFoundError filename)
      | Some content \<Rightarrow> extract_scalar_loop keyword False [] (file_lines content))"

section \<open>The abstract reader\<close>

definition is_blank :: "string \<Rightarrow> bool" where
  "is_blank line \<longleftrightarrow> py_strip line = []"

definition section_lines :: "string \<Rightarrow> string list \<Rightarrow> string list" where
  "section_lines keyword lines =
     takeWhile (\<lambda>l. \<not> is_blank l) (drop 1 (dropWhile (\<lambda>l. \<not> py_in keyword l) lines))"

definition read_vectors_spec :: "string \<Rightarrow> string list \<Rightarrow> vec list py_result" where
  "read_vectors_spec keyword lines = map_res parse_vector_line (section_lines keyword lines)"

definition read_scalars_spec :: "string \<Rightarrow> string list \<Rightarrow> real list py_result" where
  "read_scalars_spec keyword lines =
     res_bind (map_res parse_scalar_line (section_lines keyword lines)) (\<lambda>xs. Inr (List.map_filter id xs))"

section \<open>A writer of the format\<close>

text \<open>
  How a VTK writer prints a point section with integral coordinates: a
  header line naming the keyword and the count, one line per point with the
  coordinates separated by one space, and a blank line; used to state that
  the reader reads back what was written.
\<close>

definition vec_line :: "int list \<Rightarrow> string" where
  "vec_line p = join_words (map show_int p)"

definition points_header :: "string \<Rightarrow> nat \<Rightarrow> string" where
  "points_header kw n = kw @ '' '' @ show_nat n @ '' float''"

definition vtk_vector_file :: "string list \<Rightarrow> string \<Rightarrow> int list list \<Rightarrow> string list \<Rightarrow> string" where
  "vtk_vector_file pre kw pts post =
     write_lines (pre @ points_header kw (length pts) # map vec_line pts @ [] # post)"

section \<open>Example files\<close>

definition ex_section_file :: string where
  "ex_section_file = write_lines [''# vtk DataFile'', ''FOO 3 float'', ''1 2 3'', ''4 5 6'', ''7 8 9'', '''', ''FOO'', ''0 0 0'']"

definition ex_scalar_file :: string where
  "ex_scalar_file = write_lines [''CELL_DATA 2'', ''SCALARS den float 1'', ''LOOKUP_TABLE default'', ''2.5'', ''-1e1'', '''', ''7'']"

lemmas vtk_eval = parse_vector_line_def parse_scalar_line_def is_blank_def

section \<open>The loops refine the abstract reader\<close>

lemma extract_vector_loop_found:
  "extract_vector_loop kw True data lines =
     res_bind (map_res parse_vector_line (takeWhile (\<lambda>l. \<not> is_blank l) lines)) (\<lambda>vs. Inr (data @ vs))"
  by (induction lines arbitrary: data) (auto simp: is_blank_def res_bind_def split: sum.splits)

lemma extract_vector_loop_search:
  "extract_vector_loop kw False data lines =
     (case dropWhile (\<lambda>l. \<not> py_in kw l) lines of
        [] \<Rightarrow> Inr data
      | _ # rest \<Rightarrow> extract_vector_loop kw True data rest)"
  by (induction lines) auto

theorem extract_vector_loop_spec:
  "extract_vector_loop kw False [] lines = read_vectors_spec kw lines"
proof (cases "dropWhile (\<lambda>l. \<not> py_in kw l) lines")
  case Nil
  then show ?thesis
    by (simp add: extract_vector_loop_search read_vectors_spec_def section_lines_def del: dropWhile_eq_Nil_conv)
next
  case (Cons l rest)
  then show ?thesis
    by (simp add: extract_vector_loop_search extract_vector_loop_found read_vectors_spec_def
        section_lines_def res_bind_def split: sum.splits)
qed

lemma extract_vector_loop_no_keyword:
  "list_all (\<lambda>l. \<not> py_in kw l) lines \<Longrightarrow> extract_vector_loop kw False data lines = Inr data"
  by (induction lines) auto

lemma extract_scalar_loop_found:
  "extract_scalar_loop kw True data lines =
     res_bind (map_res parse_scalar_line (takeWhile (\<lambda>l. \<not> is_blank l) lines))
       (\<lambda>xs. Inr (data @ List.map_filter id xs))"
  by (induction lines arbitrary: data)
     (auto simp: is_blank_def res_bind_def map_filter_simps split: sum.splits option.splits)

lemma extract_scalar_loop_search:
  "extract_scalar_loop kw False data lines =
     (case dropWhile (\<lambda>l. \<not> py_in kw l) lines of
        [] \<Rightarrow> Inr data
      | _ # rest \<Rightarrow> extract_scalar_loop kw True data rest)"
  by (induction lines) auto

theorem extract_scalar_loop_spec:
  "extract_scalar_loop kw False [] lines = read_scalars_spec kw lines"
proof (cases "dropWhile (\<lambda>l. \<not> py_in kw l) lines")
  case Nil
  then show ?thesis
    by (simp add: extract_scalar_loop_search read_scalars_spec_def section_lines_def map_filter_simps del: dropWhile_eq_Nil_conv)
next
  case (Cons l rest)
  then show ?thesis
    by (simp add: extract_scalar_loop_search extract_scalar_loop_found read_scalars_spec_def
        section_lines_def res_bind_def split: sum.splits)
qed

lemma parse_vector_line_length: "parse_vector_line l = Inr v \<Longrightarrow> length v = 3"
  by (auto simp: parse_vector_line_def Let_def res_bind_eq_Inr)

lemma extract_vector_data_shape:
  "extract_vector_data fs f kw = Inr vs \<Longrightarrow> list_all (\<lambda>v. length v = 3) vs"
  by (auto simp: extract_vector_data_def extract_vector_loop_spec read_vectors_spec_def list_all_iff
      dest: map_res_Inr_set parse_vector_line_length split: option.splits)

section \<open>Reading back what was written\<close>

lemma vec_line_chars: "LF \<notin> set (vec_line p) \<and> CR \<notin> set (vec_line p)"
  using set_join_words [of "map show_int p"] show_int_word by (fastforce simp: vec_line_def)

lemma py_split_vec_line: "py_split (vec_line p @ [LF]) = map show_int p"
proof -
  have "py_split [LF] = []" by (simp add: py_split_eq_Nil_iff py_isspace_def)
  then show ?thesis
    using py_split_join_words [of "map show_int p" "[LF]"] show_int_word
    by (simp add: vec_line_def py_isspace_def)
qed

lemma parse_vector_line_vec_line:
  assumes "length p = 3"
  shows "parse_vector_line (vec_line p @ [LF]) = Inr (map real_of_int p)"
proof -
  obtain x y z where p: "p = [x, y, z]" using length3_cases [OF assms] by blast
  have "py_split (vec_line p @ [LF]) = [show_int x, show_int y, show_int z]"
    by (simp only: py_split_vec_line p list.map)
  then show ?thesis
    unfolding parse_vector_line_def Let_def
    by (simp add: p py_index_def py_float_conv_show_int)
qed

lemma is_blank_LF: "is_blank [LF]"
  by (simp add: is_blank_def py_strip_eq_Nil_iff py_isspace_def)

lemma vec_line_not_blank: "p \<noteq> [] \<Longrightarrow> \<not> is_blank (vec_line p @ [LF])"
proof
  assume "p \<noteq> []" and "is_blank (vec_line p @ [LF])"
  then have "py_split (vec_line p @ [LF]) = []"
    by (simp add: is_blank_def py_strip_eq_Nil_iff py_split_eq_Nil_iff)
  with \<open>p \<noteq> []\<close> show False by (simp add: py_split_vec_line)
qed

lemma points_header_chars:
  "LF \<notin> set kw \<Longrightarrow> CR \<notin> set kw \<Longrightarrow> LF \<notin> set (points_header kw n) \<and> CR \<notin> set (points_header kw n)"
  using show_nat_digits [of n] is_digit_not_special
  by (fastforce simp: points_header_def list_all_iff)

lemma py_in_prefix: "py_in kw (kw @ rest)"
proof (cases "kw @ rest")
  case Nil
  then show ?thesis by simp
next
  case (Cons c cs)
  have "prefix kw (kw @ rest)" by simp
  with Cons show ?thesis by simp
qed

lemma read_vectors_spec_section:
  assumes "list_all (\<lambda>l. \<not> py_in kw l) pre" and "py_in kw kwline"
    and "list_all (\<lambda>l. \<not> is_blank l) sec" and "is_blank blank"
  shows "read_vectors_spec kw (pre @ kwline # sec @ blank # post) = map_res parse_vector_line sec"
proof -
  have "dropWhile (\<lambda>l. \<not> py_in kw l) (pre @ kwline # sec @ blank # post) = kwline # sec @ blank # post"
    using assms(1,2) by (simp add: dropWhile_append list_all_iff)
  moreover have "takeWhile (\<lambda>l. \<not> is_blank l) (sec @ blank # post) = sec"
    using assms(3,4) by (simp add: takeWhile_append list_all_iff)
  ultimately show ?thesis by (simp add: read_vectors_spec_def section_lines_def)
qed

text \<open>Claim C8: Round trip: a point section written with integral coordinates (a header naming the keyword, one line per point, a blank line), placed after any lines that do not contain the keyword, is read back by extract_vector_data as exactly the written points.\<close>

theorem vtk_vector_roundtrip:
  assumes pre: "list_all (\<lambda>l. \<not> py_in kw (l @ [LF])) pre"
    and chars: "\<forall>l\<in>set (kw # pre @ post). LF \<notin> set l \<and> CR \<notin> set l"
    and shape: "list_all (\<lambda>p. length p = 3) pts"
  shows "extract_vector_data (fs(f \<mapsto> vtk_vector_file pre kw pts post)) f kw = Inr (map (map real_of_int) pts)"
proof -
  let ?ls = "pre @ points_header kw (length pts) # map vec_line pts @ [] # post"
  have "\<forall>l\<in>set ?ls. LF \<notin> set l \<and> CR \<notin> set l"
    using chars points_header_chars vec_line_chars by auto
  then have lines: "file_lines (vtk_vector_file pre kw pts post) =
      map (\<lambda>l. l @ [LF]) pre @ (points_header kw (length pts) @ [LF]) #
      map (\<lambda>p. vec_line p @ [LF]) pts @ [LF] # map (\<lambda>l. l @ [LF]) post"
    unfolding vtk_vector_file_def by (subst file_lines_write_lines) simp_all
  have hdr: "py_in kw (points_header kw (length pts) @ [LF])"
    unfolding points_header_def append_assoc by (rule py_in_prefix)
  have sec: "list_all (\<lambda>l. \<not> is_blank l) (map (\<lambda>p. vec_line p @ [LF]) pts)"
  proof (unfold list_all_iff, intro ballI)
    fix l assume "l \<in> set (map (\<lambda>p. vec_line p @ [LF]) pts)"
    then obtain p where p: "p \<in> set pts" and l: "l = vec_line p @ [LF]" by auto
    from p shape have "p \<noteq> []" by (auto simp: list_all_iff)
    then show "\<not> is_blank l" unfolding l by (rule vec_line_not_blank)
  qed
  have pre': "list_all (\<lambda>l. \<not> py_in kw l) (map (\<lambda>l. l @ [LF]) pre)"
    using pre by (simp add: list_all_iff)
  have "read_vectors_spec kw (file_lines (vtk_vector_file pre kw pts post)) =
      map_res parse_vector_line (map (\<lambda>p. vec_line p @ [LF]) pts)"
    unfolding lines by (rule read_vectors_spec_section [OF pre' hdr sec is_blank_LF])
  also have "\<dots> = Inr (map (map real_of_int) pts)"
    using shape by (intro map_res_map_comp) (simp add: parse_vector_line_vec_line list_all_iff)
  finally show ?thesis
    by (simp add: extract_vector_data_def extract_vector_loop_spec)
qed

section \<open>Properties of the readers\<close>

theorem vtk_vector_roundtrip_witness:
  "extract_vector_data ([''out.vtk'' \<mapsto> vtk_vector_file [''# vtk DataFile Version 2.0''] ''POINTS''
       [ [1, -2, 30], [0, 0, 7] ] [''CELLS 1 9''] ]) ''out.vtk'' ''POINTS'' = Inr [ [1, -2, 30], [0, 0, 7] ]"
  using vtk_vector_roundtrip [of "''POINTS''" "[''# vtk DataFile Version 2.0'']" "[''CELLS 1 9'']"
      "[ [1, -2, 30], [0, 0, 7] ]" Map.empty "''out.vtk''"]
  by simp

text \<open>Claim C21: The section rule (spec 4.1): after the first line containing the keyword, the reader returns exactly the vectors of the following non-blank lines and reads nothing after the first blank line.\<close>

theorem extract_vector_section:
  assumes "fs f = Some content"
    and "file_lines content = pre @ kwline # sec @ blank # post"
    and "list_all (\<lambda>l. \<not> py_in kw l) pre" and "py_in kw kwline"
    and "list_all (\<lambda>l. \<not> is_blank l) sec" and "is_blank blank"
  shows "extract_vector_data fs f kw = map_res parse_vector_line sec"
  using assms read_vectors_spec_section [OF assms(3-6)]
  by (simp add: extract_vector_data_def extract_vector_loop_spec)

theorem extract_vector_section_witness:
  "extract_vector_data [''out.vtk'' \<mapsto> ex_section_file] ''out.vtk'' ''FOO'' = Inr [ [1, 2, 3], [4, 5, 6], [7, 8, 9] ]"
proof -
  have lines: "file_lines ex_section_file =
      [''# vtk DataFile'' @ [LF] ] @ (''FOO 3 float'' @ [LF]) #
      [''1 2 3'' @ [LF], ''4 5 6'' @ [LF], ''7 8 9'' @ [LF] ] @ [LF] # [''FOO'' @ [LF], ''0 0 0'' @ [LF] ]"
    by (simp add: ex_section_file_def file_lines_write_lines)
  have "extract_vector_data [''out.vtk'' \<mapsto> ex_section_file] ''out.vtk'' ''FOO'' =
      map_res parse_vector_line [''1 2 3'' @ [LF], ''4 5 6'' @ [LF], ''7 8 9'' @ [LF] ]"
    by (rule extract_vector_section [OF _ lines]) (simp_all add: vtk_eval py_simps)
  also have "\<dots> = Inr [ [1, 2, 3], [4, 5, 6], [7, 8, 9] ]"
    by (simp add: vtk_eval py_simps)
  finally show ?thesis .
qed

text \<open>Claim C4: The streaming loop of extract_vector_data refines the abstract reader: it opens the file (FileNotFoundError otherwise) and parses exactly the section lines, in order, stopping at the first failure.\<close>

theorem extract_vector_data_refines:
  "extract_vector_data fs f kw =
     (case fs f of None \<Rightarrow> Inl (FileNotFoundError f) | Some content \<Rightarrow> read_vectors_spec kw (file_lines content))"
  by (simp add: extract_vector_data_def extract_vector_loop_spec split: option.splits)

theorem extract_vector_data_refines_witness:
  "extract_vector_data [''out.vtk'' \<mapsto> ex_section_file] ''out.vtk'' ''FOO'' =
     read_vectors_spec ''FOO'' (file_lines ex_section_file) \<and>
   extract_vector_data Map.empty ''out.vtk'' ''FOO'' = Inl (FileNotFoundError ''out.vtk'')"
  using extract_vector_data_refines [of "[''out.vtk'' \<mapsto> ex_section_file]" "''out.vtk''" "''FOO''"]
    extract_vector_data_refines [of Map.empty "''out.vtk''" "''FOO''"]
  by simp

text \<open>extract_scalar_data refines the abstract scalar reader: the section lines are parsed in order and lines whose first field is LOOKUP_TABLE are skipped without taking a data slot.\<close>

theorem extract_scalar_data_refines:
  "extract_scalar_data fs f kw =
     (case fs f of None \<Rightarrow> Inl (FileNotFoundError f) | Some content \<Rightarrow> read_scalars_spec kw (file_lines content))"
  by (simp add: extract_scalar_data_def extract_scalar_loop_spec split: option.splits)

theorem extract_scalar_data_refines_witness:
  "extract_scalar_data [''s.vtk'' \<mapsto> ex_scalar_file] ''s.vtk'' ''SCALARS'' = Inr [5 / 2, -10]"
proof -
  have lines: "file_lines ex_scalar_file =
      map (\<lambda>l. l @ [LF]) [''CELL_DATA 2'', ''SCALARS den float 1'', ''LOOKUP_TABLE default'', ''2.5'', ''-1e1'', '''', ''7'']"
    by (simp add: ex_scalar_file_def file_lines_write_lines)
  show ?thesis
    using extract_scalar_data_refines [of "[''s.vtk'' \<mapsto> ex_scalar_file]" "''s.vtk''" "''SCALARS''"]
    by (simp add: lines read_scalars_spec_def section_lines_def vtk_eval py_simps map_filter_simps)
qed

text \<open>A file that has no line containing the keyword yields the empty series, not an error, for both readers.\<close>

theorem extract_data_missing_keyword:
  assumes "fs f = Some content" and "list_all (\<lambda>l. \<not> py_in kw l) (file_lines content)"
  shows "extract_vector_data fs f kw = Inr [] \<and> extract_scalar_data fs f kw = Inr []"
proof -
  have "dropWhile (\<lambda>l. \<not> py_in kw l) (file_lines content) = []"
    using assms(2) by (simp add: list_all_iff)
  then show ?thesis
    using assms(1)
    by (simp add: extract_vector_data_def extract_scalar_data_def extract_vector_loop_search
        extract_scalar_loop_search del: dropWhile_eq_Nil_conv)
qed

theorem extract_data_missing_keyword_witness:
  "extract_vector_data [''out.vtk'' \<mapsto> ex_section_file] ''out.vtk'' ''NOPE'' = Inr [] \<and>
   extract_scalar_data [''out.vtk'' \<mapsto> ex_section_file] ''out.vtk'' ''NOPE'' = Inr []"
proof -
  have "file_lines ex_section_file =
      map (\<lambda>l. l @ [LF]) [''# vtk DataFile'', ''FOO 3 float'', ''1 2 3'', ''4 5 6'', ''7 8 9'', '''', ''FOO'', ''0 0 0'']"
    by (simp add: ex_section_file_def file_lines_write_lines)
  then have "list_all (\<lambda>l. \<not> py_in ''NOPE'' l) (file_lines ex_section_file)"
    by simp
  then show ?thesis by (rule extract_data_missing_keyword [rotated]) simp
qed

text \<open>Claim C40: A vector data line with more than three fields is accepted: the fourth and later fields are ignored.\<close>

theorem parse_vector_line_extra_fields:
  assumes "py_split line = tx # ty # tz # rest"
    and "py_float tx = Some x" and "py_float ty = Some y" and "py_float tz = Some z"
  shows "parse_vector_line line = Inr [x, y, z]"
  using assms by (simp add: parse_vector_line_def py_float_conv_def)

theorem parse_vector_line_extra_fields_witness:
  "parse_vector_line (''1 2 3 4'' @ [LF]) = Inr [1, 2, 3]"
  by (rule parse_vector_line_extra_fields [where tx = "''1''" and ty = "''2''" and tz = "''3''" and rest = "[''4'']"])
     (simp_all add: py_simps)

text \<open>A vector data line with fewer than three fields, all numeric, raises IndexError (not a parse error).\<close>

theorem parse_vector_line_short:
  assumes "length (py_split line) < 3" and "list_all (\<lambda>t. py_float t \<noteq> None) (py_split line)"
  shows "parse_vector_line line = Inl IndexError"
proof -
  consider "py_split line = []" | t0 where "py_split line = [t0]" | t0 t1 where "py_split line = [t0, t1]"
    using assms(1) by (cases "py_split line" rule: remdups_adj.cases) auto
  then show ?thesis
    using assms(2) by cases (auto simp: parse_vector_line_def py_float_conv_def)
qed

theorem parse_vector_line_short_witness: "parse_vector_line (''10 -2'' @ [LF]) = Inl IndexError"
  by (rule parse_vector_line_short) (simp_all add: py_simps)

text \<open>A data line whose first field is not a float literal raises ValueError with the message of float().\<close>

theorem parse_vector_line_bad_token:
  assumes "py_split line = tok # rest" and "py_float tok = None"
  shows "parse_vector_line line =
           Inl (ValueError (''could not convert string to float: '' @ [CHR 0x27] @ tok @ [CHR 0x27]))"
  using assms by (simp add: parse_vector_line_def py_float_conv_def)

theorem parse_vector_line_bad_token_witness:
  "parse_vector_line (''1,0 2 3'' @ [LF]) =
     Inl (ValueError (''could not convert string to float: '' @ [CHR 0x27] @ ''1,0'' @ [CHR 0x27]))"
  by (rule parse_vector_line_bad_token [where rest = "[''2'', ''3'']"]) (simp_all add: py_simps)

end
