(* ===== verification/PercentDiff.thy ===== *)
theory PercentDiff
  imports Prelude
begin

text \<open>
  The difference engine of \<open>src/integrated-tests/Test-scripts/test_fierro.py\<close>:
  \<open>percent_difference_scalars\<close> (lines 90--99), \<open>percent_difference_vectors\<close>
  (lines 102--118) and \<open>magnitude\<close> (lines 121--123).  Python floats are read
  as exact reals (rounding is not modelled); the two \<open>raise ValueError\<close> of
  the source are \<open>Inl\<close> results with the source's messages.  The index loops
  \<open>for i in range(len(array1))\<close> are kept as maps over \<open>[0..<length array1]\<close>;
  they are shown equal to the element-wise \<open>map2\<close> of the per-entry rule.
\<close>

section \<open>Definitions\<close>

text \<open>Lines 96--97 and 111--112: the zero-guarded percent difference of one entry.\<close>

definition percent_entry :: "real \<Rightarrow> real \<Rightarrow> real" where
  "percent_entry ref val = (if ref \<noteq> 0 then ((val - ref) / ref) * 100 else 0)"

definition percent_difference_scalars :: "real list \<Rightarrow> real list \<Rightarrow> real list py_result" where
  "percent_difference_scalars array1 array2 =
     (if length array1 \<noteq> length array2 then Inl (ValueError ''Arrays must have the same length'')
      else Inr (map (\<lambda>i. percent_entry (array1 ! i) (array2 ! i)) [0..<length array1]))"

definition magnitude :: "real list \<Rightarrow> real" where
  "magnitude array = sqrt (sum_list (map (\<lambda>x. x ^ 2) array))"

text \<open>Lines 108--112: one iteration of the first loop of \<open>percent_difference_vectors\<close>.\<close>

definition vector_row :: "real list \<Rightarrow> real list \<Rightarrow> real list py_result" where
  "vector_row row1 row2 =
     (if length row1 \<noteq> 3 \<or> length row2 \<noteq> 3 then Inl (ValueError ''Subarrays must have length 3'')
      else Inr (map (\<lambda>j. percent_entry (row1 ! j) (row2 ! j)) [0..<3]))"

definition percent_difference_vectors :: "real list list \<Rightarrow> real list list \<Rightarrow> real list py_result" where
  "percent_difference_vectors array1 array2 =
     (if length array1 \<noteq> length array2 then Inl (ValueError ''Arrays must have the same length'')
      else res_bind (map_res (\<lambda>i. vector_row (array1 ! i) (array2 ! i)) [0..<length array1])
             (\<lambda>percent_diff. Inr (map (\<lambda>i. magnitude (percent_diff ! i)) [0..<length array1])))"

section \<open>Lemmas\<close>

lemma magnitude_nonneg: "0 \<le> magnitude xs"
  by (auto simp: magnitude_def intro!: sum_list_nonneg)

lemma abs_le_magnitude: "x \<in> set xs \<Longrightarrow> \<bar>x\<bar> \<le> magnitude xs"
proof -
  assume x: "x \<in> set xs"
  have "x\<^sup>2 \<le> sum_list (map (\<lambda>x. x ^ 2) xs)"
    using x by (intro member_le_sum_list) auto
  then have "sqrt (x\<^sup>2) \<le> magnitude xs"
    unfolding magnitude_def by (rule real_sqrt_le_mono)
  then show ?thesis by simp
qed

lemma magnitude_eq_0_iff: "magnitude xs = 0 \<longleftrightarrow> (\<forall>x\<in>set xs. x = 0)"
proof -
  have "sum_list (map (\<lambda>x. x ^ 2) xs) = 0 \<longleftrightarrow> (\<forall>y\<in>set (map (\<lambda>x. x ^ 2) xs). y = 0)"
    by (rule sum_list_nonneg_eq_0_iff) auto
  then show ?thesis by (simp add: magnitude_def)
qed

lemma vector_row_3:
  "vector_row [a, b, c] [x, y, z] = Inr [percent_entry a x, percent_entry b y, percent_entry c z]"
  by (simp add: vector_row_def upt_0_3)

lemma magnitude_axis: "magnitude [a, 0, 0] = \<bar>a\<bar>"
  by (simp add: magnitude_def)

lemma vector_row_ok:
  "length r1 = 3 \<Longrightarrow> length r2 = 3 \<Longrightarrow> vector_row r1 r2 = Inr (map2 percent_entry r1 r2)"
  using map_upt_nth2 [of r1 r2 percent_entry] by (simp add: vector_row_def)

lemma vector_row_Inl: "vector_row r1 r2 = Inl e \<Longrightarrow> e = ValueError ''Subarrays must have length 3''"
  by (simp add: vector_row_def split: if_splits)

lemma percent_difference_vectors_map2:
  assumes "length a1 = length a2"
    and "list_all (\<lambda>r. length r = 3) a1" and "list_all (\<lambda>r. length r = 3) a2"
  shows "percent_difference_vectors a1 a2 =
           Inr (map2 (\<lambda>r1 r2. magnitude (map2 percent_entry r1 r2)) a1 a2)"
proof -
  let ?pd = "map (\<lambda>i. map2 percent_entry (a1 ! i) (a2 ! i)) [0..<length a1]"
  have A: "map_res (\<lambda>i. vector_row (a1 ! i) (a2 ! i)) [0..<length a1] = Inr ?pd"
    using assms by (intro map_res_map_Inr) (simp add: vector_row_ok list_all_length)
  have "map (\<lambda>i. magnitude (?pd ! i)) [0..<length a1] =
      map (\<lambda>i. magnitude (map2 percent_entry (a1 ! i) (a2 ! i))) [0..<length a1]"
    by (rule map_cong) auto
  also have "\<dots> = map2 (\<lambda>r1 r2. magnitude (map2 percent_entry r1 r2)) a1 a2"
    by (rule map_upt_nth2 [OF assms(1)])
  finally have B: "map (\<lambda>i. magnitude (?pd ! i)) [0..<length a1] =
      map2 (\<lambda>r1 r2. magnitude (map2 percent_entry r1 r2)) a1 a2" .
  show ?thesis
    unfolding percent_difference_vectors_def A res_bind_Inr B using assms(1) by simp
qed

lemma percent_entry_self: "percent_entry r r = 0"
  by (simp add: percent_entry_def)

lemma percent_entry_scale: "c \<noteq> 0 \<Longrightarrow> percent_entry (c * r) (c * v) = percent_entry r v"
  by (simp add: percent_entry_def right_diff_distrib[symmetric])

lemma vector_rows_shape_error:
  assumes "i < n" and "length (a1 ! i) \<noteq> 3 \<or> length (a2 ! i) \<noteq> 3"
  shows "map_res (\<lambda>i. vector_row (a1 ! i) (a2 ! i)) [0..<n] = Inl (ValueError ''Subarrays must have length 3'')"
proof -
  let ?f = "\<lambda>i. vector_row (a1 ! i) (a2 ! i)"
  have fi: "?f i = Inl (ValueError ''Subarrays must have length 3'')"
    using assms(2) by (simp add: vector_row_def)
  have "i \<in> set [0..<n]" using assms(1) by simp
  from map_res_Inl_if [OF this, of ?f, OF fi]
  obtain e where e: "map_res ?f [0..<n] = Inl e" by blast
  then obtain j where "?f j = Inl e" using map_res_Inl_set by blast
  then have "e = ValueError ''Subarrays must have length 3''" by (rule vector_row_Inl)
  with e show ?thesis by simp
qed

section \<open>Properties of the difference engine\<close>



text \<open>Claim C5: percent_difference_vectors succeeds exactly when the inputs have equal length and every row of both has three entries, and then returns, per point, the Euclidean magnitude of the three per-component percent differences.\<close>

theorem percent_difference_vectors_Inr_iff:
  "percent_difference_vectors a1 a2 = Inr d \<longleftrightarrow>
     length a1 = length a2 \<and> list_all (\<lambda>r. length r = 3) a1 \<and> list_all (\<lambda>r. length r = 3) a2 \<and>
     d = map2 (\<lambda>r1 r2. magnitude (map2 percent_entry r1 r2)) a1 a2"
proof (cases "length a1 = length a2 \<and> list_all (\<lambda>r. length r = 3) a1 \<and> list_all (\<lambda>r. length r = 3) a2")
  case True
  then show ?thesis by (auto simp: percent_difference_vectors_map2)
next
  case False
  show ?thesis
  proof (cases "length a1 = length a2")
    case True
    with False obtain i where i: "i < length a1" "length (a1 ! i) \<noteq> 3 \<or> length (a2 ! i) \<noteq> 3"
      by (auto simp: list_all_length)
    from True vector_rows_shape_error [OF i]
    have "percent_difference_vectors a1 a2 = Inl (ValueError ''Subarrays must have length 3'')"
      by (simp add: percent_difference_vectors_def)
    with False show ?thesis by auto
  next
    case False
    then show ?thesis by (simp add: percent_difference_vectors_def)
  qed
qed

theorem percent_difference_vectors_Inr_iff_witness:
  "percent_difference_vectors [ [1, 0, 0], [2, 2, 2] ] [ [11 / 10, 0, 0], [2, 2, 2] ] =
     Inr (map2 (\<lambda>r1 r2. magnitude (map2 percent_entry r1 r2)) [ [1, 0, 0], [2, 2, 2] ] [ [11 / 10, 0, 0], [2, 2, 2] ])"
  using percent_difference_vectors_Inr_iff [of "[ [1, 0, 0], [2, 2, 2] ]" "[ [11 / 10, 0, 0], [2, 2, 2] ]"]
  by simp

text \<open>Claim C24: Percent differences are signed, not absolute (spec 8): at an entry with a positive reference the difference is positive exactly when the candidate is larger and negative exactly when it is smaller.\<close>

theorem percent_difference_scalars_signed:
  assumes "percent_difference_scalars a b = Inr ds" and "i < length ds" and "0 < a ! i"
  shows "(0 < ds ! i \<longleftrightarrow> a ! i < b ! i) \<and> (ds ! i < 0 \<longleftrightarrow> b ! i < a ! i)"
proof -
  from assms(1,2) have "ds ! i = (b ! i - a ! i) / a ! i * 100"
    using assms(3) by (auto simp: percent_difference_scalars_def percent_entry_def split: if_splits)
  with assms(3) show ?thesis
    by (simp add: zero_less_mult_iff mult_less_0_iff zero_less_divide_iff divide_less_0_iff)
qed

theorem percent_difference_scalars_signed_witness:
  "(0 < [-10 :: real] ! 0 \<longleftrightarrow> [10 :: real] ! 0 < [9 :: real] ! 0) \<and> ([-10 :: real] ! 0 < 0 \<longleftrightarrow> [9 :: real] ! 0 < [10 :: real] ! 0)"
  by (rule percent_difference_scalars_signed)
    (simp_all add: percent_difference_scalars_def percent_entry_def)



text \<open>Vector magnitude (spec 8): comparing [1,0,0] with [1.1,0,0] gives the single value 10.\<close>

theorem percent_difference_vectors_magnitude_example:
  "percent_difference_vectors [ [1, 0, 0] ] [ [11 / 10, 0, 0] ] = Inr [10]"
  by (simp add: percent_difference_vectors_def vector_row_3 percent_entry_def magnitude_axis)

text \<open>Scalar series of unequal lengths raise ValueError, for every pair of lengths.\<close>

theorem percent_difference_scalars_length_mismatch:
  "length a1 \<noteq> length a2 \<Longrightarrow>
     percent_difference_scalars a1 a2 = Inl (ValueError ''Arrays must have the same length'')"
  by (simp add: percent_difference_scalars_def)

theorem percent_difference_scalars_length_mismatch_witness:
  "percent_difference_scalars [1, 2] [1] = Inl (ValueError ''Arrays must have the same length'')"
  by (rule percent_difference_scalars_length_mismatch) simp

text \<open>Vector series of unequal lengths raise ValueError, for every pair of lengths.\<close>

theorem percent_difference_vectors_length_mismatch:
  "length a1 \<noteq> length a2 \<Longrightarrow>
     percent_difference_vectors a1 a2 = Inl (ValueError ''Arrays must have the same length'')"
  by (simp add: percent_difference_vectors_def)

theorem percent_difference_vectors_length_mismatch_witness:
  "percent_difference_vectors [] [ [1, 2, 3] ] = Inl (ValueError ''Arrays must have the same length'')"
  by (rule percent_difference_vectors_length_mismatch) simp

text \<open>Claim C31: Equal-length vector series in which some row of either series does not have three entries raise the shape ValueError.\<close>

theorem percent_difference_vectors_shape_error:
  assumes "length a1 = length a2" and "i < length a1"
    and "length (a1 ! i) \<noteq> 3 \<or> length (a2 ! i) \<noteq> 3"
  shows "percent_difference_vectors a1 a2 = Inl (ValueError ''Subarrays must have length 3'')"
  using assms vector_rows_shape_error [OF assms(2,3)] by (simp add: percent_difference_vectors_def)

theorem percent_difference_vectors_shape_error_witness:
  "percent_difference_vectors [ [1, 2, 3], [1, 2] ] [ [1, 2, 3], [1, 2, 3] ] =
     Inl (ValueError ''Subarrays must have length 3'')"
  by (rule percent_difference_vectors_shape_error [of _ _ 1]) simp_all

text \<open>Comparing a series of 3-vectors with itself gives zero difference at every point.\<close>

theorem percent_difference_vectors_self:
  "list_all (\<lambda>r. length r = 3) a \<Longrightarrow> percent_difference_vectors a a = Inr (replicate (length a) 0)"
proof -
  assume shape: "list_all (\<lambda>r. length r = 3) a"
  have row: "map2 percent_entry r r = replicate (length r) 0" for r
    by (induction r) (simp_all add: percent_entry_self)
  have "map2 (\<lambda>r1 r2. magnitude (map2 percent_entry r1 r2)) a a = replicate (length a) 0"
    by (induction a) (simp_all add: row magnitude_eq_0_iff)
  with shape show ?thesis by (simp add: percent_difference_vectors_map2)
qed

theorem percent_difference_vectors_self_witness:
  "percent_difference_vectors [ [1, 2, 3], [0, 5, -1] ] [ [1, 2, 3], [0, 5, -1] ] = Inr [0, 0]"
  using percent_difference_vectors_self [of "[ [1, 2, 3], [0, 5, -1] ]"] by simp

text \<open>The comparison is independent of the unit: scaling both series by the same non-zero factor does not change the result, errors included.\<close>

theorem percent_difference_vectors_scale:
  assumes "c \<noteq> 0"
  shows "percent_difference_vectors (map (map ((*) c)) a1) (map (map ((*) c)) a2) = percent_difference_vectors a1 a2"
proof -
  have row: "vector_row (map ((*) c) r1) (map ((*) c) r2) = vector_row r1 r2" for r1 r2
    using assms by (simp add: vector_row_def percent_entry_scale)
  have "map_res (\<lambda>i. vector_row (map (map ((*) c)) a1 ! i) (map (map ((*) c)) a2 ! i)) [0..<length a1] =
      map_res (\<lambda>i. vector_row (a1 ! i) (a2 ! i)) [0..<length a1]" if "length a1 = length a2"
    by (rule map_res_cong) (use that in \<open>simp add: row\<close>)
  then show ?thesis by (simp add: percent_difference_vectors_def)
qed

theorem percent_difference_vectors_scale_witness:
  "percent_difference_vectors (map (map ((*) 1000)) [ [1, 0, 0] ]) (map (map ((*) 1000)) [ [11 / 10, 0, 0] ]) =
     percent_difference_vectors [ [1, 0, 0] ] [ [11 / 10, 0, 0] ]"
  by (rule percent_difference_vectors_scale) simp

end
