(* ===== verification/TestDriver.thy ===== *)
theory TestDriver
  imports VtkReader PercentDiff
begin

text \<open>
  The module-level script of \<open>src/integrated-tests/Test-scripts/test_fierro.py\<close>
  (lines 9--43 and 126--146): the pre-flight check that the solver executable
  exists, the construction of the input and reference paths, and the loop
  that, for each scenario, runs the solver through \<open>os.system\<close>, reads the
  reference and the fresh point positions, compares them and removes the
  \<open>vtk\<close> output directory.

  The world the script acts on is a record of the file system and the lines
  printed to standard output.  The solver is external: it is a parameter
  \<open>sys\<close> that maps the command line and the file system to the new file
  system and the exit status (which the script ignores).  \<open>rm -rf vtk\<close> is
  modelled by its effect.  \<open>os.path.exists\<close> is modelled for regular files.
  An exception ends the script: \<open>Raised e w\<close> is the exception with the world
  at that moment, \<open>Finished w\<close> a normal end.
\<close>

section \<open>State and configuration\<close>

record world =
  files :: filesystem
  stdout :: "string list"

datatype outcome = Finished world | Raised py_error world

type_synonym solver = "string \<Rightarrow> filesystem \<Rightarrow> filesystem \<times> int"

definition py_print :: "string \<Rightarrow> world \<Rightarrow> world" where
  "py_print msg w = w\<lparr>stdout := stdout w @ [msg]\<rparr>"

text \<open>\<open>os.system(cmd)\<close>: the command's effect on the file system; the status is dropped.\<close>

definition os_system :: "solver \<Rightarrow> string \<Rightarrow> world \<Rightarrow> world" where
  "os_system sys cmd w = w\<lparr>files := fst (sys cmd (files w))\<rparr>"

text \<open>\<open>os.system('rm -rf  vtk')\<close> (line 146): the directory and everything below it go.\<close>

definition rm_rf :: "path \<Rightarrow> world \<Rightarrow> world" where
  "rm_rf d w = w\<lparr>files := (\<lambda>p. if p = d \<or> prefix (d @ ''/'') p then None else files w p)\<rparr>"

definition sgh_executable :: string where
  "sgh_executable = ''./../../build-fierro-openmp/bin/fierro-parallel-explicit''"

definition sgh_tests :: "string list" where
  "sgh_tests = [''Noh'', ''Sedov'', ''Sod'']"

definition position_keyword :: string where
  "position_keyword = ''POINTS''"

definition results_filename :: path where
  "results_filename = ''vtk/data/VTK0.vtk''"

text \<open>Lines 40--42.\<close>

definition input_path :: "string \<Rightarrow> path" where
  "input_path name = ''Solver-Inputs/SGH_'' @ name @ ''_simple.yaml''"

definition standard_result_path :: "string \<Rightarrow> path" where
  "standard_result_path name = ''standard-results/SGH/'' @ name @ ''/vtk/data/VTK0.vtk''"

text \<open>
  \<open>1.0e-6\<close> (line 142), as an exact real; the double nearest to it differs
  from it by less than \<open>10^-22\<close>.
\<close>

definition tolerance :: real where
  "tolerance = 1 / 10 ^ 6"

section \<open>The tolerance check (lines 141--143)\<close>

text \<open>
  The message of line 143 is built as \<open>"..."+tests[i]+"..."\<close> where \<open>i\<close> is the
  index of the offending point and \<open>tests\<close> is the list of scenario lists:
  evaluating \<open>tests[i]\<close> raises \<open>IndexError\<close> when \<open>i\<close> is out of range, and
  otherwise yields a list, so the concatenation raises \<open>TypeError\<close>.  The
  \<open>ValueError\<close> of line 143 is never constructed.
\<close>

definition concat_list_error :: py_error where
  "concat_list_error =
     TypeError (''can only concatenate str (not '' @ [CHR 0x22] @ ''list'' @ [CHR 0x22] @ '') to str'')"

definition violation_error :: "string list list \<Rightarrow> nat \<Rightarrow> py_error" where
  "violation_error tests i = (case py_index tests i of Inl e \<Rightarrow> e | Inr _ \<Rightarrow> concat_list_error)"

fun check_positions :: "string list list \<Rightarrow> real list \<Rightarrow> nat \<Rightarrow> py_error option" where
  "check_positions tests [] i = None"
| "check_positions tests (d # ds) i =
     (if tolerance \<le> d then Some (violation_error tests i) else check_positions tests ds (Suc i))"

section \<open>One scenario (lines 128--146)\<close>

definition run_one ::
  "solver \<Rightarrow> string list list \<Rightarrow> string \<Rightarrow> path \<Rightarrow> path \<Rightarrow> world \<Rightarrow> outcome" where
  "run_one sys tests name inp std w =
     (let w1 = py_print (''Running '' @ name) w;
          w2 = os_system sys (sgh_executable @ '' '' @ inp) w1
      in case extract_vector_data (files w2) std position_keyword of
           Inl e \<Rightarrow> Raised e w2
         | Inr gt_positions \<Rightarrow>
             (case extract_vector_data (files w2) results_filename position_keyword of
                Inl e \<Rightarrow> Raised e w2
              | Inr results_positions \<Rightarrow>
                  (case percent_difference_vectors gt_positions results_positions of
                     Inl e \<Rightarrow> Raised e w2
                   | Inr position_diff \<Rightarrow>
                       (case check_positions tests position_diff 0 of
                          Some e \<Rightarrow> Raised e w2
                        | None \<Rightarrow> Finished (rm_rf ''vtk'' (py_print ''Removing simulation outputs'' w2))))))"

fun run_tests ::
  "solver \<Rightarrow> string list list \<Rightarrow> (string \<times> path \<times> path) list \<Rightarrow> world \<Rightarrow> outcome" where
  "run_tests sys tests [] w = Finished w"
| "run_tests sys tests ((name, inp, std) # rest) w =
     (case run_one sys tests name inp std w of
        Raised e w' \<Rightarrow> Raised e w'
      | Finished w' \<Rightarrow> run_tests sys tests rest w')"

section \<open>The whole script\<close>

text \<open>Lines 19--23: the pre-flight check.\<close>

definition preflight_messages :: "string list" where
  "preflight_messages =
     [''This test script assumes that the fierro-parallel-explicit code exists '',
      ''and has been build in the build-fierro-openmp directory'',
      ''The executable could not be found'']"

definition run_script_for :: "string list \<Rightarrow> solver \<Rightarrow> world \<Rightarrow> outcome" where
  "run_script_for names sys w =
     (if files w sgh_executable = None then
        Raised (ValueError ''fierro-parallel-explicit executable not found'')
          (w\<lparr>stdout := stdout w @ preflight_messages\<rparr>)
      else
        (let tests = [names];
             inputs = map input_path names;
             standard_results = map standard_result_path names
         in run_tests sys tests (zip names (zip inputs standard_results)) w))"

definition run_script :: "solver \<Rightarrow> world \<Rightarrow> outcome" where
  "run_script sys w = run_script_for sgh_tests sys w"

section \<open>Observable behaviour of the run\<close>

text \<open>
  What a run prints when every scenario passes, and the per-scenario verdict
  rule stated over the point lists the readers return.
\<close>

definition scenario_lines :: "(string \<times> path \<times> path) list \<Rightarrow> string list" where
  "scenario_lines sc = concat (map (\<lambda>(name, _, _). [''Running '' @ name, ''Removing simulation outputs'']) sc)"

definition points_agree :: "vec list \<Rightarrow> vec list \<Rightarrow> bool" where
  "points_agree gt res \<longleftrightarrow>
     length gt = length res \<and> list_all2 (\<lambda>g r. magnitude (map2 percent_entry g r) < tolerance) gt res"

section \<open>Example worlds\<close>

text \<open>Concrete worlds and solvers on which the properties below are instantiated.\<close>

fun outcome_world :: "outcome \<Rightarrow> world" where
  "outcome_world (Finished w) = w"
| "outcome_world (Raised e w) = w"

definition ex_points_file :: "string list \<Rightarrow> string" where
  "ex_points_file rows = write_lines ([''# vtk DataFile Version 2.0'', ''POINTS 2 float''] @ rows @ [''''])"

definition ex_reference :: string where
  "ex_reference = ex_points_file [''0 0 0'', ''1 0 0'']"

definition ex_fresh_bad :: string where
  "ex_fresh_bad = ex_points_file [''0 0 0'', ''1.0000001 0 0'']"

definition ex_world :: world where
  "ex_world = \<lparr>files = [sgh_executable \<mapsto> [], standard_result_path ''Noh'' \<mapsto> ex_reference], stdout = []\<rparr>"

definition ex_solver :: "string \<Rightarrow> solver" where
  "ex_solver out cmd fs = (fs(results_filename \<mapsto> out), 0)"

definition ex_scenario :: "string \<Rightarrow> string \<times> path \<times> path" where
  "ex_scenario name = (name, input_path name, standard_result_path name)"

definition writes_only_vtk :: "solver \<Rightarrow> bool" where
  "writes_only_vtk sys \<longleftrightarrow> (\<forall>cmd fs p. p \<noteq> ''vtk'' \<and> \<not> prefix ''vtk/'' p \<longrightarrow> fst (sys cmd fs) p = fs p)"

lemmas driver_eval = run_one_def Let_def py_print_def os_system_def rm_rf_def extract_vector_data_def
  ex_points_file_def ex_reference_def ex_fresh_bad_def ex_world_def ex_solver_def ex_scenario_def
  results_filename_def standard_result_path_def sgh_executable_def position_keyword_def input_path_def
  file_lines_write_lines vtk_eval py_simps percent_difference_vectors_def vector_row_3 percent_entry_def
  magnitude_axis upt_0_3 tolerance_def violation_error_def

section \<open>Properties\<close>

lemma check_positions_None_iff:
  "check_positions tests ds i = None \<longleftrightarrow> list_all (\<lambda>d. d < tolerance) ds"
  by (induction ds arbitrary: i) auto



lemma run_one_stdout_Finished:
  "run_one sys tests name inp std w = Finished w' \<Longrightarrow>
     stdout w' = stdout w @ [''Running '' @ name, ''Removing simulation outputs'']"
  by (auto simp: run_one_def Let_def py_print_def os_system_def rm_rf_def
      split: sum.splits option.splits)

lemma run_one_Raised_world:
  "run_one sys tests name inp std w = Raised e w' \<Longrightarrow>
     w' = os_system sys (sgh_executable @ '' '' @ inp) (py_print (''Running '' @ name) w)"
  by (auto simp: run_one_def Let_def split: sum.splits option.splits)

lemma run_one_Finished_files:
  "run_one sys tests name inp std w = Finished w' \<Longrightarrow>
     files w' = files (rm_rf ''vtk'' (os_system sys (sgh_executable @ '' '' @ inp) w))"
  by (auto simp: run_one_def Let_def py_print_def os_system_def rm_rf_def
      split: sum.splits option.splits)

lemma scenario_lines_Nil [simp]: "scenario_lines [] = []"
  by (simp add: scenario_lines_def)

lemma scenario_lines_Cons [simp]:
  "scenario_lines ((name, inp, std) # sc) = [''Running '' @ name, ''Removing simulation outputs''] @ scenario_lines sc"
  by (simp add: scenario_lines_def)

lemma scenario_lines_take_Suc:
  "k < length sc \<Longrightarrow> scenario_lines (take (Suc k) sc) =
     scenario_lines (take k sc) @ [''Running '' @ fst (sc ! k), ''Removing simulation outputs'']"
  by (simp add: scenario_lines_def take_Suc_conv_app_nth case_prod_beta)

lemma run_one_stdout_Raised:
  "run_one sys tests name inp std w = Raised e w' \<Longrightarrow> stdout w' = stdout w @ [''Running '' @ name]"
  by (drule run_one_Raised_world) (simp add: os_system_def py_print_def)

text \<open>Claim C10: A run that ends normally has run every scenario in the declared order and each passed: its output is, per scenario, the Running line followed by the cleanup line.\<close>

theorem run_tests_Finished_stdout:
  "run_tests sys tests sc w = Finished w' \<Longrightarrow> stdout w' = stdout w @ scenario_lines sc"
proof (induction sc arbitrary: w)
  case Nil
  then show ?case by (simp add: scenario_lines_def)
next
  case (Cons s sc)
  obtain name inp std where s: "s = (name, inp, std)" by (cases s) auto
  with Cons.prems obtain w1 where w1: "run_one sys tests name inp std w = Finished w1"
      and rest: "run_tests sys tests sc w1 = Finished w'"
    by (auto split: outcome.splits)
  from Cons.IH [OF rest] run_one_stdout_Finished [OF w1] show ?case by (simp add: s)
qed

text \<open>Claim C9: Fail-fast and strict order (spec 4.3): when a run raises, the scenarios before the failing one ran and passed in the declared order, and no scenario after it was started.\<close>

theorem run_tests_Raised_stdout:
  "run_tests sys tests sc w = Raised e w' \<Longrightarrow>
     \<exists>k<length sc. stdout w' = stdout w @ scenario_lines (take k sc) @ [''Running '' @ fst (sc ! k)]"
proof (induction sc arbitrary: w)
  case Nil
  then show ?case by simp
next
  case (Cons s sc)
  obtain name inp std where s: "s = (name, inp, std)" by (cases s) auto
  show ?case
  proof (cases "run_one sys tests name inp std w")
    case (Raised e1 w1)
    with Cons.prems s have "w1 = w'" by simp
    with Raised run_one_stdout_Raised show ?thesis
      by (intro exI [of _ 0]) (auto simp: s)
  next
    case (Finished w1)
    with Cons.prems s have "run_tests sys tests sc w1 = Raised e w'" by simp
    then obtain k where "k < length sc"
        "stdout w' = stdout w1 @ scenario_lines (take k sc) @ [''Running '' @ fst (sc ! k)]"
      using Cons.IH by blast
    with Finished run_one_stdout_Finished show ?thesis
      by (intro exI [of _ "Suc k"]) (auto simp: s)
  qed
qed

lemma rm_rf_vtk_gone: "p = ''vtk'' \<or> prefix ''vtk/'' p \<Longrightarrow> files (rm_rf ''vtk'' w) p = None"
  by (simp add: rm_rf_def)

text \<open>Claim C11: After a successful run of at least one scenario the vtk output directory and everything below it are gone.\<close>

theorem run_tests_Finished_cleanup:
  "run_tests sys tests sc w = Finished w' \<Longrightarrow> sc \<noteq> [] \<Longrightarrow>
     p = ''vtk'' \<or> prefix ''vtk/'' p \<Longrightarrow> files w' p = None"
proof (induction sc arbitrary: w)
  case Nil
  then show ?case by simp
next
  case (Cons s sc)
  obtain name inp std where s: "s = (name, inp, std)" by (cases s) auto
  with Cons.prems obtain w1 where w1: "run_one sys tests name inp std w = Finished w1"
      and rest: "run_tests sys tests sc w1 = Finished w'"
    by (auto split: outcome.splits)
  show ?case
  proof (cases "sc = []")
    case True
    with rest have "w' = w1" by simp
    with run_one_Finished_files [OF w1] Cons.prems(3) show ?thesis
      by (simp add: rm_rf_vtk_gone)
  next
    case False
    from Cons.IH [OF rest False Cons.prems(3)] show ?thesis .
  qed
qed

lemma list_all_map2_iff:
  "length xs = length ys \<Longrightarrow> list_all P (map2 f xs ys) \<longleftrightarrow> list_all2 (\<lambda>x y. P (f x y)) xs ys"
  by (induction xs ys rule: list_induct2) auto

lemma compare_points:
  assumes "list_all (\<lambda>v. length v = 3) gt" and "list_all (\<lambda>v. length v = 3) res"
  shows "(case percent_difference_vectors gt res of
            Inl e \<Rightarrow> False
          | Inr diff \<Rightarrow> check_positions tests diff 0 = None) \<longleftrightarrow> points_agree gt res"
proof (cases "length gt = length res")
  case True
  with assms show ?thesis
    by (simp add: percent_difference_vectors_map2 check_positions_None_iff list_all_map2_iff points_agree_def)
next
  case False
  then show ?thesis by (simp add: percent_difference_vectors_def points_agree_def)
qed

text \<open>Claim C1: The verdict rule (spec 4.3): a scenario passes, printing and then removing the vtk output, exactly when both point sections are read, they have the same number of points, and every point differs from its reference by a percent-difference magnitude below 1.0e-6.\<close>

theorem run_one_Finished_iff:
  "run_one sys tests name inp std w = Finished w' \<longleftrightarrow>
     (let w2 = os_system sys (sgh_executable @ '' '' @ inp) (py_print (''Running '' @ name) w) in
      (\<exists>gt res. extract_vector_data (files w2) std position_keyword = Inr gt \<and>
                extract_vector_data (files w2) results_filename position_keyword = Inr res \<and>
                points_agree gt res) \<and>
      w' = rm_rf ''vtk'' (py_print ''Removing simulation outputs'' w2))"
  (is "?lhs \<longleftrightarrow> (let w2 = ?w2 in ?rhs w2)")
proof -
  let ?fs = "files ?w2"
  show ?thesis
  proof (cases "extract_vector_data ?fs std position_keyword")
    case (Inl e)
    then show ?thesis by (simp add: run_one_def Let_def)
  next
    case gt: (Inr gt)
    show ?thesis
    proof (cases "extract_vector_data ?fs results_filename position_keyword")
      case (Inl e)
      with gt show ?thesis by (simp add: run_one_def Let_def)
    next
      case res: (Inr res)
      have shape: "list_all (\<lambda>v. length v = 3) gt" "list_all (\<lambda>v. length v = 3) res"
        using gt res by (auto dest: extract_vector_data_shape)
      from compare_points [OF shape, of tests] gt res show ?thesis
        by (auto simp: run_one_def Let_def split: sum.splits option.splits)
    qed
  qed
qed

theorem run_one_Finished_iff_witness:
  "\<exists>w'. run_one (ex_solver ex_reference) [ [''Noh''] ] ''Noh'' (input_path ''Noh'') (standard_result_path ''Noh'') ex_world =
     Finished w'"
  using run_one_Finished_iff [of "ex_solver ex_reference" "[ [''Noh''] ]" "''Noh''" "input_path ''Noh''"
      "standard_result_path ''Noh''" ex_world]
  by (simp add: driver_eval points_agree_def)



theorem run_tests_Raised_stdout_witness:
  "\<exists>e w'. run_tests (ex_solver ex_fresh_bad) [ [''Noh'', ''Sod''] ] [ex_scenario ''Noh'', ex_scenario ''Sod''] ex_world =
     Raised e w' \<and>
     (\<exists>k<length [ex_scenario ''Noh'', ex_scenario ''Sod'']. stdout w' = stdout ex_world @ scenario_lines (take k [ex_scenario ''Noh'', ex_scenario ''Sod'']) @
                 [''Running '' @ fst ([ex_scenario ''Noh'', ex_scenario ''Sod''] ! k)])"
proof -
  obtain e w' where r: "run_tests (ex_solver ex_fresh_bad) [ [''Noh'', ''Sod''] ]
      [ex_scenario ''Noh'', ex_scenario ''Sod''] ex_world = Raised e w'"
    by (simp add: driver_eval)
  show ?thesis using r run_tests_Raised_stdout [OF r] by blast
qed

theorem run_tests_Finished_stdout_witness:
  "\<exists>w'. run_tests (ex_solver ex_reference) [ [''Noh''] ] [ex_scenario ''Noh''] ex_world = Finished w' \<and>
     stdout w' = [''Running Noh'', ''Removing simulation outputs'']"
proof -
  obtain w' where r: "run_tests (ex_solver ex_reference) [ [''Noh''] ] [ex_scenario ''Noh''] ex_world = Finished w'"
    by (simp add: driver_eval)
  show ?thesis using r run_tests_Finished_stdout [OF r] by (simp add: ex_world_def ex_scenario_def)
qed

theorem run_tests_Finished_cleanup_witness:
  "\<exists>w'. run_tests (ex_solver ex_reference) [ [''Noh''] ] [ex_scenario ''Noh''] ex_world = Finished w' \<and>
     files w' results_filename = None"
proof -
  obtain w' where r: "run_tests (ex_solver ex_reference) [ [''Noh''] ] [ex_scenario ''Noh''] ex_world = Finished w'"
    by (simp add: driver_eval)
  have "files w' results_filename = None"
    by (rule run_tests_Finished_cleanup [OF r]) (simp_all add: results_filename_def)
  with r show ?thesis by blast
qed

text \<open>Claim C12: No cleanup on failure: when a scenario raises, the file system is exactly what the solver left, so the fresh output is not deleted (the spec asks for unconditional cleanup).\<close>

theorem run_one_failure_keeps_output:
  "run_one sys tests name inp std w = Raised e w' \<Longrightarrow>
     files w' = fst (sys (sgh_executable @ '' '' @ inp) (files w))"
  by (drule run_one_Raised_world) (simp add: os_system_def py_print_def)

theorem run_one_failure_keeps_output_witness:
  "\<exists>e w'. run_one (ex_solver ex_fresh_bad) [ [''Noh''] ] ''Noh'' (input_path ''Noh'') (standard_result_path ''Noh'') ex_world =
     Raised e w' \<and> files w' results_filename = Some ex_fresh_bad"
proof -
  obtain e w' where r: "run_one (ex_solver ex_fresh_bad) [ [''Noh''] ] ''Noh'' (input_path ''Noh'')
      (standard_result_path ''Noh'') ex_world = Raised e w'"
    by (simp add: driver_eval)
  show ?thesis using r run_one_failure_keeps_output [OF r] by (simp add: ex_solver_def)
qed

text \<open>Claim C20: Pre-flight check: when the solver executable does not exist the script raises ValueError after printing its three messages, and no scenario is attempted (the file system is untouched).\<close>

theorem run_script_for_missing_executable:
  assumes "files w sgh_executable = None"
  shows "\<exists>w'. run_script_for names sys w = Raised (ValueError ''fierro-parallel-explicit executable not found'') w' \<and>
           files w' = files w \<and> stdout w' = stdout w @ preflight_messages"
  using assms by (simp add: run_script_for_def)

theorem run_script_for_missing_executable_witness:
  "\<exists>w'. run_script_for sgh_tests (ex_solver ex_reference) \<lparr>files = Map.empty, stdout = []\<rparr> =
     Raised (ValueError ''fierro-parallel-explicit executable not found'') w' \<and>
     files w' = Map.empty \<and> stdout w' = [] @ preflight_messages"
  using run_script_for_missing_executable [of "\<lparr>files = Map.empty, stdout = []\<rparr>"] by simp

lemma run_one_status_irrelevant:
  "(\<And>cmd fs. fst (sys cmd fs) = fst (sys' cmd fs)) \<Longrightarrow> run_one sys tests name inp std w = run_one sys' tests name inp std w"
  by (simp add: run_one_def os_system_def)

lemma run_tests_status_irrelevant:
  "(\<And>cmd fs. fst (sys cmd fs) = fst (sys' cmd fs)) \<Longrightarrow> run_tests sys tests sc w = run_tests sys' tests sc w"
proof (induction sc arbitrary: w)
  case Nil
  then show ?case by simp
next
  case (Cons s sc)
  then show ?case
    by (cases s) (simp add: run_one_status_irrelevant [of sys sys'] split: outcome.splits)
qed

text \<open>Claim C39: The exit status of the solver is ignored: the outcome of the whole script is the same as if every solver call had returned 0 (the spec makes a non-zero exit fatal).\<close>

theorem run_script_ignores_exit_status:
  "run_script_for names sys w = run_script_for names (\<lambda>cmd fs. (fst (sys cmd fs), 0)) w"
  by (simp add: run_script_for_def Let_def run_tests_status_irrelevant [of sys "\<lambda>cmd fs. (fst (sys cmd fs), 0)"])

theorem run_script_ignores_exit_status_witness:
  "run_script_for [''Noh''] (\<lambda>cmd fs. (fst (ex_solver ex_reference cmd fs), 1)) ex_world =
     run_script_for [''Noh''] (\<lambda>cmd fs. (fst (ex_solver ex_reference cmd fs), 0)) ex_world"
  using run_script_ignores_exit_status [of "[''Noh'']" "\<lambda>cmd fs. (fst (ex_solver ex_reference cmd fs), 1)" ex_world]
  by simp

lemma run_one_frame:
  assumes "writes_only_vtk sys" and "p \<noteq> ''vtk''" and "\<not> prefix ''vtk/'' p"
  shows "files (outcome_world (run_one sys tests name inp std w)) p = files w p"
  using assms
  by (auto simp: writes_only_vtk_def run_one_def Let_def os_system_def py_print_def rm_rf_def
      split: sum.splits option.splits)

text \<open>Reference data is safe: if the solver writes only below vtk, every path outside vtk (the reference results among them) is unchanged by a run, whatever its outcome.\<close>

theorem run_tests_preserves_outside_vtk:
  assumes "writes_only_vtk sys" and "p \<noteq> ''vtk''" and "\<not> prefix ''vtk/'' p"
  shows "files (outcome_world (run_tests sys tests sc w)) p = files w p"
proof (induction sc arbitrary: w)
  case Nil
  then show ?case by simp
next
  case (Cons s sc)
  obtain name inp std where s: "s = (name, inp, std)" by (cases s) auto
  have one: "files (outcome_world (run_one sys tests name inp std w)) p = files w p"
    by (rule run_one_frame [OF assms])
  show ?case
  proof (cases "run_one sys tests name inp std w")
    case (Finished w1)
    with one Cons.IH [of w1] show ?thesis by (simp add: s)
  next
    case (Raised e w1)
    with one show ?thesis by (simp add: s)
  qed
qed

theorem run_tests_preserves_outside_vtk_witness:
  "files (outcome_world (run_tests (ex_solver ex_fresh_bad) [ [''Noh''] ] [ex_scenario ''Noh''] ex_world))
      (standard_result_path ''Noh'') = Some ex_reference"
proof -
  have "writes_only_vtk (ex_solver ex_fresh_bad)"
    by (simp add: writes_only_vtk_def ex_solver_def results_filename_def)
  from run_tests_preserves_outside_vtk [OF this, of "standard_result_path ''Noh''"]
  show ?thesis by (simp add: standard_result_path_def ex_world_def)
qed

text \<open>A solver run that leaves no fresh result file makes the scenario raise FileNotFoundError for vtk/data/VTK0.vtk once the reference has been read.\<close>

theorem run_one_missing_output:
  assumes "extract_vector_data (fst (sys (sgh_executable @ '' '' @ inp) (files w))) std position_keyword = Inr gt"
    and "fst (sys (sgh_executable @ '' '' @ inp) (files w)) results_filename = None"
  shows "\<exists>w'. run_one sys tests name inp std w = Raised (FileNotFoundError results_filename) w'"
  using assms by (simp add: run_one_def Let_def os_system_def py_print_def extract_vector_data_def)

theorem run_one_missing_output_witness:
  "\<exists>w'. run_one (\<lambda>cmd fs. (fs, 1)) [ [''Noh''] ] ''Noh'' (input_path ''Noh'') (standard_result_path ''Noh'') ex_world =
     Raised (FileNotFoundError results_filename) w'"
proof (rule run_one_missing_output)
  show "extract_vector_data (fst ((\<lambda>cmd fs. (fs, 1::int)) (sgh_executable @ '' '' @ input_path ''Noh'') (files ex_world)))
      (standard_result_path ''Noh'') position_keyword = Inr [ [0, 0, 0], [1, 0, 0] ]"
    by (simp add: driver_eval)
  show "fst ((\<lambda>cmd fs. (fs, 1::int)) (sgh_executable @ '' '' @ input_path ''Noh'') (files ex_world)) results_filename = None"
    by (simp add: driver_eval)
qed

text \<open>If neither the reference nor the fresh result contains a POINTS line, both readers return empty series and the scenario passes without comparing anything.\<close>

theorem run_one_passes_without_points:
  assumes "fst (sys (sgh_executable @ '' '' @ inp) (files w)) std = Some ref_text"
    and "fst (sys (sgh_executable @ '' '' @ inp) (files w)) results_filename = Some out_text"
    and "list_all (\<lambda>l. \<not> py_in position_keyword l) (file_lines ref_text)"
    and "list_all (\<lambda>l. \<not> py_in position_keyword l) (file_lines out_text)"
  shows "\<exists>w'. run_one sys tests name inp std w = Finished w'"
  using assms
  by (simp add: run_one_def Let_def os_system_def py_print_def extract_vector_data_def
      extract_vector_loop_no_keyword percent_difference_vectors_def)

theorem run_one_passes_without_points_witness:
  "\<exists>w'. run_one (ex_solver (write_lines [''# vtk output without point section'']))
     [ [''Noh''] ] ''Noh'' (input_path ''Noh'') (standard_result_path ''Noh'')
     (ex_world\<lparr>files := (files ex_world)(standard_result_path ''Noh'' \<mapsto> write_lines [''CELLS 0 0''])\<rparr>) =
   Finished w'"
  by (rule run_one_passes_without_points [where ref_text = "write_lines [''CELLS 0 0'']"
        and out_text = "write_lines [''# vtk output without point section'']"])
     (simp_all add: driver_eval)

end
