(* ===== verification/GuiSGH.thy ===== *)
theory GuiSGH
  imports PyText
begin

text \<open>
  The basic-geometry, material, material-assignment and boundary-condition
  editors of the explicit SGH pipeline page of the graphical front end
  (\<open>src/python/FIERRO-GUI/fierro_gui/Explicit_SGH.py\<close>, lines 31--427).
  The Qt widgets they touch are modelled by their observable contents: a
  \<open>QTableWidget\<close> as its column count and rows of optional cells, a
  \<open>QComboBox\<close> as its items and current index, a line edit as its text.
  Each handler is a state transformer on the record \<open>sgh_gui\<close>; a handler
  that can raise returns the state reached at the raise (\<open>Exc\<close>), as a Qt
  slot does.  \<open>gui_step\<close> dispatches the user's events to the handlers the
  code connects them to, and \<open>gui_reachable\<close> is the set of states reachable
  from the initial page.
\<close>

section \<open>Qt widgets\<close>

type_synonym cell = "string option"

record qtable =
  columns :: nat
  rows :: "cell list list"

record combo =
  items :: "string list"
  current :: int

definition rowCount :: "qtable \<Rightarrow> nat" where
  "rowCount t = length (rows t)"

text \<open>\<open>insertRow\<close> adds an empty row at the index (ignored beyond the end),
  \<open>setItem\<close> fills a cell (ignored outside the table), \<open>removeRow\<close> deletes a
  row (ignored out of range), \<open>item(r, c).text()\<close> raises AttributeError on an
  empty cell, since \<open>item\<close> returns \<open>None\<close> there.\<close>

definition insertRow :: "nat \<Rightarrow> qtable \<Rightarrow> qtable" where
  "insertRow r t = (if r \<le> length (rows t)
     then t\<lparr>rows := take r (rows t) @ [replicate (columns t) None] @ drop r (rows t)\<rparr> else t)"

definition setItem :: "nat \<Rightarrow> nat \<Rightarrow> string \<Rightarrow> qtable \<Rightarrow> qtable" where
  "setItem r c s t = (if r < length (rows t) \<and> c < columns t
     then t\<lparr>rows := (rows t)[r := (rows t ! r)[c := Some s] ]\<rparr> else t)"

definition removeRow :: "int \<Rightarrow> qtable \<Rightarrow> qtable" where
  "removeRow r t = (if 0 \<le> r \<and> nat r < length (rows t)
     then t\<lparr>rows := take (nat r) (rows t) @ drop (Suc (nat r)) (rows t)\<rparr> else t)"

definition none_text :: py_error where
  "none_text = AttributeError ([CHR 0x27] @ ''NoneType'' @ [CHR 0x27] @ '' object has no attribute '' @
     [CHR 0x27] @ ''text'' @ [CHR 0x27])"

definition item_text :: "qtable \<Rightarrow> nat \<Rightarrow> nat \<Rightarrow> string py_result" where
  "item_text t r c = (if r < length (rows t) \<and> c < length (rows t ! r)
     then (case rows t ! r ! c of Some s \<Rightarrow> Inr s | None \<Rightarrow> Inl none_text) else Inl none_text)"

fun set_items :: "nat \<Rightarrow> (nat \<times> string) list \<Rightarrow> qtable \<Rightarrow> qtable" where
  "set_items r [] t = t"
| "set_items r ((c, s) # cs) t = set_items r cs (setItem r c s t)"

definition combo_clear :: "combo \<Rightarrow> combo" where
  "combo_clear cb = \<lparr>items = [], current = -1\<rparr>"

definition addItem :: "string \<Rightarrow> combo \<Rightarrow> combo" where
  "addItem s cb = \<lparr>items = items cb @ [s], current = (if items cb = [] then 0 else current cb)\<rparr>"

definition currentText :: "combo \<Rightarrow> string" where
  "currentText cb = (if 0 \<le> current cb \<and> nat (current cb) < length (items cb)
     then items cb ! nat (current cb) else [])"

definition setCurrentIndex :: "int \<Rightarrow> combo \<Rightarrow> combo" where
  "setCurrentIndex i cb = cb\<lparr>current := (if 0 \<le> i \<and> nat i < length (items cb) then i else -1)\<rparr>"

text \<open>The loop \<open>for i in range(t.rowCount()): cb.addItem(t.item(i,0).text())\<close>
  after \<open>cb.clear()\<close>: the combo as far as it got and the exception, if any.\<close>

fun add_names :: "qtable \<Rightarrow> nat list \<Rightarrow> combo \<Rightarrow> combo \<times> py_error option" where
  "add_names t [] cb = (cb, None)"
| "add_names t (i # ns) cb = (case item_text t i 0 of
     Inl e \<Rightarrow> (cb, Some e)
   | Inr s \<Rightarrow> add_names t ns (addItem s cb))"

definition refill_names :: "qtable \<Rightarrow> combo \<Rightarrow> combo \<times> py_error option" where
  "refill_names t cb = add_names t [0..<rowCount t] (combo_clear cb)"

text \<open>Column 0 of a table read as names, and the shape of tables whose rows are named.\<close>

definition material_names :: "qtable \<Rightarrow> string list" where
  "material_names t = map (\<lambda>r. the (r ! 0)) (rows t)"

definition table_wf :: "qtable \<Rightarrow> bool" where
  "table_wf t \<longleftrightarrow> (\<forall>r\<in>set (rows t). length r = columns t)"

definition named_rows :: "qtable \<Rightarrow> bool" where
  "named_rows t \<longleftrightarrow> table_wf t \<and> 0 < columns t \<and> (\<forall>r\<in>set (rows t). r ! 0 \<noteq> None)"

section \<open>The page state\<close>

record material_inputs =
  INMaterialNameSGH :: string
  INEOS :: string
  INq1 :: string
  INq2 :: string
  INq1ex :: string
  INq2ex :: string
  INGamma :: string
  INMinSound :: string
  INSpecificHeat :: string
  INStrengthModel :: string

record assign_inputs =
  INDensity :: string
  INSIE :: string
  INVelocityX :: string
  INVelocityY :: string
  INVelocityZ :: string

record bc_inputs =
  INBoundary :: string
  INPlanePosition :: string
  INType :: string
  INVel0 :: string
  INVel1 :: string
  INVelstart :: string
  INVelend :: string

record geometry_inputs =
  INSelectBasicGeometry :: string
  INBasicGeometryName :: string
  INBoxx1 :: string
  INBoxx2 :: string
  INBoxy1 :: string
  INBoxy2 :: string
  INBoxz1 :: string
  INBoxz2 :: string
  INSphereri :: string
  INSpherero :: string
  INCylinderri :: string
  INCylinderro :: string

text \<open>\<open>eos_enabled\<close> is the enabled state shared by the fourteen widgets
  \<open>Lq1\<close> \dots \<open>INSpecificHeat\<close> that \<open>EOS_Model\<close> switches together,
  \<open>vel_enabled\<close> the one of the eight velocity widgets of \<open>selected_bcs\<close>;
  \<open>messages\<close> are the texts of the message boxes shown, in order;
  \<open>BasicGeometries_page\<close> is the page of the stacked geometry editor.  VTK
  actors are numbered in creation order (\<open>next_actor\<close>); \<open>actor_attrs\<close> holds
  the attributes \<open>threshold_<name>\<close> that \<open>setattr\<close> binds to them and
  \<open>renderer\<close> the actors shown.  \<open>TParts\<close>, the table of imported parts, is
  filled by the import code outside this file and only read here.\<close>

record sgh_gui =
  TMaterialsSGH :: qtable
  Tassignmat :: qtable
  TBoundaryConditions :: qtable
  INMaterial :: combo
  INPartMaterial :: combo
  mat_in :: material_inputs
  assign_in :: assign_inputs
  bc_in :: bc_inputs
  eos_enabled :: bool
  vel_enabled :: bool
  messages :: "string list"
  TBasicGeometries :: qtable
  TParts :: qtable
  geo_in :: geometry_inputs
  BasicGeometries_page :: nat
  actor_attrs :: "string \<rightharpoonup> nat"
  renderer :: "nat list"
  next_actor :: nat

datatype slot_result = Done sgh_gui | Exc py_error sgh_gui

primrec slot_state :: "slot_result \<Rightarrow> sgh_gui" where
  "slot_state (Done g) = g"
| "slot_state (Exc e g) = g"

definition warning_message :: "string \<Rightarrow> sgh_gui \<Rightarrow> sgh_gui" where
  "warning_message msg g = g\<lparr>messages := messages g @ [msg]\<rparr>"

definition incomplete_material :: string where
  "incomplete_material = ''ERROR: Material definition incomplete''"

definition select_record :: string where
  "select_record = ''Please select a record to delete''"

section \<open>Basic geometry (lines 31--178)\<close>

definition basic_geometry :: "sgh_gui \<Rightarrow> sgh_gui" where
  "basic_geometry g = (let sel = INSelectBasicGeometry (geo_in g) in
     if sel = ''box'' then g\<lparr>BasicGeometries_page := 0\<rparr>
     else if sel = ''sphere'' then g\<lparr>BasicGeometries_page := 1\<rparr>
     else if sel = ''cylinder'' then g\<lparr>BasicGeometries_page := 2\<rparr>
     else g)"

definition reset_basic_part :: "sgh_gui \<Rightarrow> sgh_gui" where
  "reset_basic_part g = g\<lparr>geo_in := (geo_in g)\<lparr>INBasicGeometryName := [], INBoxx1 := [], INBoxx2 := [],
     INBoxy1 := [], INBoxy2 := [], INBoxz1 := [], INBoxz2 := [], INSphereri := [], INSpherero := [],
     INCylinderri := [], INCylinderro := []\<rparr>\<rparr>"

definition box_row :: "geometry_inputs \<Rightarrow> (nat \<times> string) list" where
  "box_row m = [(0, INBasicGeometryName m), (1, INSelectBasicGeometry m), (2, INBoxx1 m), (3, INBoxx2 m),
     (4, INBoxy1 m), (5, INBoxy2 m), (6, INBoxz1 m), (7, INBoxz2 m)]"

definition sphere_row :: "geometry_inputs \<Rightarrow> (nat \<times> string) list" where
  "sphere_row m = [(0, INBasicGeometryName m), (1, INSelectBasicGeometry m), (8, INSphereri m),
     (9, INSpherero m)]"

definition cylinder_row :: "geometry_inputs \<Rightarrow> (nat \<times> string) list" where
  "cylinder_row m = [(0, INBasicGeometryName m), (1, INSelectBasicGeometry m), (8, INCylinderri m),
     (9, INCylinderro m)]"

text \<open>The arguments of \<open>SetBounds\<close> (line 60), converted left to right.\<close>

definition box_bounds :: "geometry_inputs \<Rightarrow> real list py_result" where
  "box_bounds m = map_res py_float_str [INBoxx1 m, INBoxx2 m, INBoxy1 m, INBoxy2 m, INBoxz1 m, INBoxz2 m]"

text \<open>\<open>vtkRenderer.AddActor\<close> adds an actor not yet shown; \<open>RemoveActor\<close>
  removes it, and does nothing for \<open>None\<close>.\<close>

definition AddActor :: "nat \<Rightarrow> nat list \<Rightarrow> nat list" where
  "AddActor a rs = (if a \<in> set rs then rs else rs @ [a])"

definition RemoveActor :: "nat option \<Rightarrow> nat list \<Rightarrow> nat list" where
  "RemoveActor a rs = (case a of Some x \<Rightarrow> removeAll x rs | None \<Rightarrow> rs)"

text \<open>\<open>INPartMaterial.clear(); addItem("global")\<close>, then the names in
  column 0 of the given tables, table by table.\<close>

fun add_table_names :: "qtable list \<Rightarrow> combo \<Rightarrow> combo \<times> py_error option" where
  "add_table_names [] cb = (cb, None)"
| "add_table_names (t # ts) cb = (case add_names t [0..<rowCount t] cb of
     (cb', Some e) \<Rightarrow> (cb', Some e)
   | (cb', None) \<Rightarrow> add_table_names ts cb')"

definition refresh_parts :: "sgh_gui \<Rightarrow> (sgh_gui \<Rightarrow> qtable list) \<Rightarrow> (sgh_gui \<Rightarrow> sgh_gui) \<Rightarrow> slot_result" where
  "refresh_parts g tabs k = (case add_table_names (tabs g) (addItem ''global'' (combo_clear (INPartMaterial g))) of
     (cb, Some e) \<Rightarrow> Exc e (g\<lparr>INPartMaterial := cb\<rparr>)
   | (cb, None) \<Rightarrow> Done (k (g\<lparr>INPartMaterial := cb\<rparr>)))"

definition incomplete_part :: string where
  "incomplete_part = ''ERROR: Basic part properties incomplete''"

definition append_geometry :: "(nat \<times> string) list \<Rightarrow> sgh_gui \<Rightarrow> sgh_gui" where
  "append_geometry cells g = (let row = rowCount (TBasicGeometries g)
     in g\<lparr>TBasicGeometries := set_items row cells (insertRow row (TBasicGeometries g))\<rparr>)"

definition box_incomplete :: "geometry_inputs \<Rightarrow> bool" where
  "box_incomplete m \<longleftrightarrow> INBasicGeometryName m = [] \<or> INBoxx1 m = [] \<or> INBoxx2 m = [] \<or> INBoxy1 m = [] \<or>
     INBoxy2 m = [] \<or> INBoxz1 m = [] \<or> INBoxz2 m = []"

definition sphere_incomplete :: "geometry_inputs \<Rightarrow> bool" where
  "sphere_incomplete m \<longleftrightarrow> INBasicGeometryName m = [] \<or> INSphereri m = [] \<or> INSpherero m = []"

definition cylinder_incomplete :: "geometry_inputs \<Rightarrow> bool" where
  "cylinder_incomplete m \<longleftrightarrow> INBasicGeometryName m = [] \<or> INCylinderri m = [] \<or> INCylinderro m = []"

text \<open>The box branch adds the row and then converts the bounds for the VTK cube
  (lines 46--60), so a bound float() rejects raises with the row in place.\<close>

definition add_box_actor :: "geometry_inputs \<Rightarrow> sgh_gui \<Rightarrow> sgh_gui" where
  "add_box_actor m g = (let a = next_actor g in
     g\<lparr>next_actor := Suc a, actor_attrs := (actor_attrs g)(''threshold_'' @ INBasicGeometryName m \<mapsto> a),
       renderer := AddActor a (renderer g)\<rparr>)"

definition generate_basic_geometry :: "sgh_gui \<Rightarrow> slot_result" where
  "generate_basic_geometry g = (let m = geo_in g; sel = INSelectBasicGeometry m in
     if sel = ''box'' then
       (if box_incomplete m then Done (warning_message incomplete_part g)
        else (let g1 = append_geometry (box_row m) g in
              case box_bounds m of
                Inl e \<Rightarrow> Exc e g1
              | Inr _ \<Rightarrow> refresh_parts (add_box_actor m g1) (\<lambda>h. [TBasicGeometries h]) reset_basic_part))
     else if sel = ''sphere'' then
       (if sphere_incomplete m then Done (warning_message incomplete_part g)
        else refresh_parts (append_geometry (sphere_row m) g) (\<lambda>h. [TBasicGeometries h]) reset_basic_part)
     else if sel = ''cylinder'' then
       (if cylinder_incomplete m then Done (warning_message incomplete_part g)
        else refresh_parts (append_geometry (cylinder_row m) g) (\<lambda>h. [TBasicGeometries h, TParts h])
               reset_basic_part)
     else Done g)"

definition delete_basic_part :: "int \<Rightarrow> bool \<Rightarrow> sgh_gui \<Rightarrow> slot_result" where
  "delete_basic_part current_row yes g = (if current_row < 0
     then Done (warning_message select_record g)
     else if yes then
       (case item_text (TBasicGeometries g) (nat current_row) 0 of
          Inl e \<Rightarrow> Exc e g
        | Inr name \<Rightarrow>
            (let g1 = g\<lparr>renderer := RemoveActor (actor_attrs g (''threshold_'' @ name)) (renderer g),
                        TBasicGeometries := removeRow current_row (TBasicGeometries g)\<rparr>
             in refresh_parts g1 (\<lambda>h. [TParts h, TBasicGeometries h]) id))
     else Done g)"

section \<open>Material definition (lines 181--293)\<close>

definition reset_material_SGH :: "sgh_gui \<Rightarrow> sgh_gui" where
  "reset_material_SGH g = g\<lparr>mat_in := (mat_in g)\<lparr>INMaterialNameSGH := [], INq1 := [], INq2 := [],
     INq1ex := [], INq2ex := [], INGamma := [], INMinSound := [], INSpecificHeat := []\<rparr>\<rparr>"

definition material_row :: "material_inputs \<Rightarrow> (nat \<times> string) list" where
  "material_row m = [(0, py_strip (INMaterialNameSGH m)), (1, INEOS m), (2, INq1 m), (3, INq2 m),
     (4, INq1ex m), (5, INq2ex m), (6, INGamma m), (7, INMinSound m), (8, INSpecificHeat m),
     (9, INStrengthModel m)]"

definition material_incomplete :: "material_inputs \<Rightarrow> bool" where
  "material_incomplete m \<longleftrightarrow>
     (INEOS m = ''none'' \<and> INMaterialNameSGH m = []) \<or>
     (INEOS m \<noteq> ''none'' \<and> (INMaterialNameSGH m = [] \<or> INq1 m = [] \<or> INq2 m = [] \<or> INq1ex m = [] \<or>
        INq2ex m = [] \<or> INGamma m = [] \<or> INMinSound m = [] \<or> INSpecificHeat m = []))"

text \<open>Rebuild \<open>INMaterial\<close> from column 0 of the materials table
  (lines 221--223 and 255--257).\<close>

definition refresh_materials :: "sgh_gui \<Rightarrow> (sgh_gui \<Rightarrow> sgh_gui) \<Rightarrow> slot_result" where
  "refresh_materials g k = (case refill_names (TMaterialsSGH g) (INMaterial g) of
     (cb, Some e) \<Rightarrow> Exc e (g\<lparr>INMaterial := cb\<rparr>)
   | (cb, None) \<Rightarrow> Done (k (g\<lparr>INMaterial := cb\<rparr>)))"

definition add_material_SGH :: "sgh_gui \<Rightarrow> slot_result" where
  "add_material_SGH g = (if material_incomplete (mat_in g)
     then Done (warning_message incomplete_material g)
     else (let row = rowCount (TMaterialsSGH g);
               t = set_items row (material_row (mat_in g)) (insertRow row (TMaterialsSGH g))
           in refresh_materials (g\<lparr>TMaterialsSGH := t\<rparr>) reset_material_SGH))"

definition delete_material_SGH :: "int \<Rightarrow> bool \<Rightarrow> sgh_gui \<Rightarrow> slot_result" where
  "delete_material_SGH current_row yes g = (if current_row < 0
     then Done (warning_message select_record g)
     else if yes then refresh_materials (g\<lparr>TMaterialsSGH := removeRow current_row (TMaterialsSGH g)\<rparr>) id
     else Done g)"

definition EOS_Model :: "sgh_gui \<Rightarrow> sgh_gui" where
  "EOS_Model g = (let g1 = (if INEOS (mat_in g) = ''None'' then g\<lparr>eos_enabled := False\<rparr> else g)
     in if INEOS (mat_in g1) = ''ideal_gas'' then g1\<lparr>eos_enabled := True\<rparr> else g1)"

section \<open>Material assignment (lines 296--348)\<close>

definition reset_material_assign_SGH :: "sgh_gui \<Rightarrow> sgh_gui" where
  "reset_material_assign_SGH g = g\<lparr>assign_in := (assign_in g)\<lparr>INDensity := [], INSIE := [],
     INVelocityX := [], INVelocityY := [], INVelocityZ := []\<rparr>\<rparr>"

definition assign_row :: "sgh_gui \<Rightarrow> (nat \<times> string) list" where
  "assign_row g = [(0, currentText (INPartMaterial g)), (1, currentText (INMaterial g)),
     (2, INDensity (assign_in g)), (3, INSIE (assign_in g)), (4, INVelocityX (assign_in g)),
     (5, INVelocityY (assign_in g)), (6, INVelocityZ (assign_in g))]"

definition assign_material_SGH :: "sgh_gui \<Rightarrow> sgh_gui" where
  "assign_material_SGH g = (let a = assign_in g in
     if INDensity a = [] \<or> INSIE a = [] \<or> INVelocityX a = [] \<or> INVelocityY a = [] \<or> INVelocityZ a = []
     then warning_message ''ERROR: Material assignment incomplete'' g
     else (let row = rowCount (Tassignmat g)
           in reset_material_assign_SGH
                (g\<lparr>Tassignmat := set_items row (assign_row g) (insertRow row (Tassignmat g))\<rparr>)))"

definition delete_assign_mat_SGH :: "int \<Rightarrow> bool \<Rightarrow> sgh_gui \<Rightarrow> sgh_gui" where
  "delete_assign_mat_SGH current_row yes g = (if current_row < 0
     then warning_message select_record g
     else if yes then g\<lparr>Tassignmat := removeRow current_row (Tassignmat g)\<rparr>
     else g)"

section \<open>Boundary conditions (lines 351--427)\<close>

definition selected_bcs :: "string \<Rightarrow> sgh_gui \<Rightarrow> sgh_gui" where
  "selected_bcs type_text g = g\<lparr>vel_enabled := (type_text = ''velocity'')\<rparr>"

definition reset_bcs_SGH :: "sgh_gui \<Rightarrow> sgh_gui" where
  "reset_bcs_SGH g = g\<lparr>bc_in := (bc_in g)\<lparr>INPlanePosition := [], INVel0 := [], INVel1 := [],
     INVelstart := [], INVelend := []\<rparr>\<rparr>"

definition bc_row :: "bc_inputs \<Rightarrow> (nat \<times> string) list" where
  "bc_row b = [(0, INBoundary b), (1, INPlanePosition b), (2, INType b), (3, INVel0 b), (4, INVel1 b),
     (5, INVelstart b), (6, INVelend b)]"

definition add_bcs_SGH :: "sgh_gui \<Rightarrow> sgh_gui" where
  "add_bcs_SGH g = (let b = bc_in g in
     if INPlanePosition b = [] then warning_message ''ERROR: Boundary condition incomplete'' g
     else if INType b = ''velocity'' \<and> (INPlanePosition b = [] \<or> INVel0 b = [] \<or> INVel1 b = [] \<or>
               INVelstart b = [] \<or> INVelend b = [])
     then warning_message ''ERROR: Boundary condition incomplete'' g
     else (let row = rowCount (TBoundaryConditions g)
           in reset_bcs_SGH
                (g\<lparr>TBoundaryConditions := set_items row (bc_row b) (insertRow row (TBoundaryConditions g))\<rparr>)))"

definition delete_bcs_SGH :: "int \<Rightarrow> bool \<Rightarrow> sgh_gui \<Rightarrow> sgh_gui" where
  "delete_bcs_SGH current_row yes g = (if current_row < 0
     then warning_message select_record g
     else if yes then g\<lparr>TBoundaryConditions := removeRow current_row (TBoundaryConditions g)\<rparr>
     else g)"

section \<open>Events and reachable states\<close>

text \<open>The user's actions on the page.  Editing the material inputs fires
  \<open>EOS_Model\<close> when the EOS combo changes (line 291), editing the
  boundary-condition inputs fires \<open>selected_bcs\<close> when the type combo's text
  changes (line 370), editing the geometry inputs fires \<open>basic_geometry\<close>
  when the geometry combo changes (line 38); the buttons fire the handlers of
  lines 177--178, 292--293, 347--348 and 426--427, a delete carrying the row the
  user selected and the answer to the confirmation dialog.  \<open>currentRow()\<close> is
  that row when it is a row of the table and -1 (no selection) otherwise.\<close>

definition selected_row :: "qtable \<Rightarrow> int \<Rightarrow> int" where
  "selected_row t r = (if 0 \<le> r \<and> nat r < rowCount t then r else -1)"

datatype sgh_event =
    SetGeometryInputs geometry_inputs
  | GenerateBasicGeometry
  | DeleteBasicGeometry int bool
  | SetMaterialInputs material_inputs
  | AddMaterial
  | DeleteMaterial int bool
  | SetAssignInputs assign_inputs
  | SelectPartMaterial int
  | SelectMaterial int
  | AssignMaterial
  | DeleteAssignment int bool
  | SetBCInputs bc_inputs
  | AddBC
  | DeleteBC int bool

fun gui_step :: "sgh_gui \<Rightarrow> sgh_event \<Rightarrow> slot_result" where
  "gui_step g (SetGeometryInputs m) =
     (let g' = g\<lparr>geo_in := m\<rparr> in
      Done (if INSelectBasicGeometry m \<noteq> INSelectBasicGeometry (geo_in g) then basic_geometry g' else g'))"
| "gui_step g GenerateBasicGeometry = generate_basic_geometry g"
| "gui_step g (DeleteBasicGeometry r yes) = delete_basic_part (selected_row (TBasicGeometries g) r) yes g"
| "gui_step g (SetMaterialInputs m) =
     (let g' = g\<lparr>mat_in := m\<rparr> in Done (if INEOS m \<noteq> INEOS (mat_in g) then EOS_Model g' else g'))"
| "gui_step g AddMaterial = add_material_SGH g"
| "gui_step g (DeleteMaterial r yes) = delete_material_SGH (selected_row (TMaterialsSGH g) r) yes g"
| "gui_step g (SetAssignInputs a) = Done (g\<lparr>assign_in := a\<rparr>)"
| "gui_step g (SelectPartMaterial i) = Done (g\<lparr>INPartMaterial := setCurrentIndex i (INPartMaterial g)\<rparr>)"
| "gui_step g (SelectMaterial i) = Done (g\<lparr>INMaterial := setCurrentIndex i (INMaterial g)\<rparr>)"
| "gui_step g AssignMaterial = Done (assign_material_SGH g)"
| "gui_step g (DeleteAssignment r yes) = Done (delete_assign_mat_SGH (selected_row (Tassignmat g) r) yes g)"
| "gui_step g (SetBCInputs b) =
     (let g' = g\<lparr>bc_in := b\<rparr> in Done (if INType b \<noteq> INType (bc_in g) then selected_bcs (INType b) g' else g'))"
| "gui_step g AddBC = Done (add_bcs_SGH g)"
| "gui_step g (DeleteBC r yes) = Done (delete_bcs_SGH (selected_row (TBoundaryConditions g) r) yes g)"

fun gui_run :: "sgh_gui \<Rightarrow> sgh_event list \<Rightarrow> sgh_gui" where
  "gui_run g [] = g"
| "gui_run g (e # es) = gui_run (slot_state (gui_step g e)) es"

text \<open>The page as the designer file opens it: the tables with the columns the
  handlers fill (10 for geometries and materials, 7 for assignments and
  boundary conditions), no rows, empty combos and inputs, all widgets enabled,
  no actors.\<close>

definition empty_geometry_inputs :: geometry_inputs where
  "empty_geometry_inputs = \<lparr>INSelectBasicGeometry = [], INBasicGeometryName = [], INBoxx1 = [], INBoxx2 = [],
     INBoxy1 = [], INBoxy2 = [], INBoxz1 = [], INBoxz2 = [], INSphereri = [], INSpherero = [],
     INCylinderri = [], INCylinderro = []\<rparr>"

definition empty_material_inputs :: material_inputs where
  "empty_material_inputs = \<lparr>INMaterialNameSGH = [], INEOS = [], INq1 = [], INq2 = [], INq1ex = [],
     INq2ex = [], INGamma = [], INMinSound = [], INSpecificHeat = [], INStrengthModel = []\<rparr>"

definition gui_init :: sgh_gui where
  "gui_init = \<lparr>TMaterialsSGH = \<lparr>columns = 10, rows = []\<rparr>, Tassignmat = \<lparr>columns = 7, rows = []\<rparr>,
     TBoundaryConditions = \<lparr>columns = 7, rows = []\<rparr>,
     INMaterial = \<lparr>items = [], current = -1\<rparr>, INPartMaterial = \<lparr>items = [], current = -1\<rparr>,
     mat_in = empty_material_inputs,
     assign_in = \<lparr>INDensity = [], INSIE = [], INVelocityX = [], INVelocityY = [], INVelocityZ = []\<rparr>,
     bc_in = \<lparr>INBoundary = [], INPlanePosition = [], INType = [], INVel0 = [], INVel1 = [],
              INVelstart = [], INVelend = []\<rparr>,
     eos_enabled = True, vel_enabled = True, messages = [],
     TBasicGeometries = \<lparr>columns = 10, rows = []\<rparr>, TParts = \<lparr>columns = 1, rows = []\<rparr>,
     geo_in = empty_geometry_inputs, BasicGeometries_page = 0, actor_attrs = Map.empty, renderer = [],
     next_actor = 0\<rparr>"

text \<open>The states the page can reach: the initial page, the result of any
  event, and the parts table replaced by the import code (outside this file)
  with any table whose rows are named.\<close>

inductive gui_reachable :: "sgh_gui \<Rightarrow> bool" where
  init: "gui_reachable gui_init"
| step: "gui_reachable g \<Longrightarrow> gui_reachable (slot_state (gui_step g e))"
| import: "gui_reachable g \<Longrightarrow> named_rows ps \<Longrightarrow> gui_reachable (g\<lparr>TParts := ps\<rparr>)"

section \<open>Example session\<close>

definition ex_steel :: material_inputs where
  "ex_steel = \<lparr>INMaterialNameSGH = ''steel'', INEOS = ''ideal_gas'', INq1 = ''1.0'', INq2 = ''1.333'',
     INq1ex = ''1.0'', INq2ex = ''1.333'', INGamma = ''1.4'', INMinSound = ''1.0E-14'',
     INSpecificHeat = ''1.0'', INStrengthModel = ''none''\<rparr>"

definition ex_assign :: assign_inputs where
  "ex_assign = \<lparr>INDensity = ''1.0'', INSIE = ''1.0E-10'', INVelocityX = ''0'', INVelocityY = ''0'',
     INVelocityZ = ''0''\<rparr>"

text \<open>Define a material, assign it, then delete the material.\<close>

text \<open>A box whose second bound is written with a decimal comma, entered on a fresh page.\<close>

definition ex_bad_box :: geometry_inputs where
  "ex_bad_box = \<lparr>INSelectBasicGeometry = ''box'', INBasicGeometryName = ''b'', INBoxx1 = ''0'', INBoxx2 = ''1,5'',
     INBoxy1 = ''0'', INBoxy2 = ''1'', INBoxz1 = ''0'', INBoxz2 = ''1'', INSphereri = [], INSpherero = [],
     INCylinderri = [], INCylinderro = []\<rparr>"

definition ex_bad_box_page :: sgh_gui where
  "ex_bad_box_page = gui_run gui_init [SetGeometryInputs ex_bad_box]"

text \<open>Two boxes given the same name, then both rows deleted.\<close>

definition ex_box_b :: geometry_inputs where
  "ex_box_b = ex_bad_box\<lparr>INBoxx2 := ''1''\<rparr>"

definition ex_box_page :: sgh_gui where
  "ex_box_page = gui_init\<lparr>geo_in := ex_box_b\<rparr>"

definition ex_duplicate_parts :: "sgh_event list" where
  "ex_duplicate_parts = [SetGeometryInputs ex_box_b, GenerateBasicGeometry, SetGeometryInputs ex_box_b,
     GenerateBasicGeometry, DeleteBasicGeometry 0 True, DeleteBasicGeometry 0 True]"

definition ex_dangling :: "sgh_event list" where
  "ex_dangling = [SetMaterialInputs ex_steel, AddMaterial, SetAssignInputs ex_assign, AssignMaterial,
     DeleteMaterial 0 True]"


section \<open>The page invariant\<close>

fun fill_cells :: "nat \<Rightarrow> (nat \<times> string) list \<Rightarrow> cell list \<Rightarrow> cell list" where
  "fill_cells n [] row = row"
| "fill_cells n ((c, s) # cs) row = fill_cells n cs (if c < n then row[c := Some s] else row)"

definition combo_ok :: "combo \<Rightarrow> bool" where
  "combo_ok cb \<longleftrightarrow> -1 \<le> current cb \<and> current cb < int (length (items cb))"

definition gui_inv :: "sgh_gui \<Rightarrow> bool" where
  "gui_inv g \<longleftrightarrow> named_rows (TMaterialsSGH g) \<and> items (INMaterial g) = material_names (TMaterialsSGH g) \<and>
     combo_ok (INMaterial g) \<and> table_wf (Tassignmat g) \<and> table_wf (TBoundaryConditions g) \<and>
     named_rows (TBasicGeometries g) \<and> named_rows (TParts g)"

lemma set_items_at:
  "r < length (rows t) \<Longrightarrow>
   set_items r cs t = t\<lparr>rows := (rows t)[r := fill_cells (columns t) cs (rows t ! r)]\<rparr>"
proof (induction cs arbitrary: t)
  case (Cons cs' css)
  obtain c s where cs': "cs' = (c, s)" by fastforce
  from Cons.prems show ?case
    by (simp add: cs' Cons.IH setItem_def)
qed simp

lemma fill_cells_length [simp]: "length (fill_cells n cs row) = length row"
  by (induction n cs row rule: fill_cells.induct) simp_all

lemma append_row:
  assumes "r = length (rows t)"
  shows "set_items r cs (insertRow r t) =
           t\<lparr>rows := rows t @ [fill_cells (columns t) cs (replicate (columns t) None)]\<rparr>"
  using assms by (simp add: set_items_at insertRow_def)

lemma append_row_rowCount:
  "set_items (rowCount t) cs (insertRow (rowCount t) t) =
     t\<lparr>rows := rows t @ [fill_cells (columns t) cs (replicate (columns t) None)]\<rparr>"
  by (simp add: append_row rowCount_def)

lemma table_wf_append [simp]:
  "table_wf (t\<lparr>rows := rows t @ [fill_cells (columns t) cs (replicate (columns t) None)]\<rparr>) = table_wf t"
  by (simp add: table_wf_def)

lemma table_wf_removeRow [simp]: "table_wf t \<Longrightarrow> table_wf (removeRow r t)"
  by (auto simp: table_wf_def removeRow_def dest: in_set_takeD in_set_dropD)

lemma named_rows_removeRow [simp]: "named_rows t \<Longrightarrow> named_rows (removeRow r t)"
  by (auto simp: named_rows_def table_wf_def removeRow_def dest: in_set_takeD in_set_dropD)

lemma update_keeps_Some:
  "c < length row \<Longrightarrow> row ! c \<noteq> None \<Longrightarrow> row[c' := Some s] ! c \<noteq> None"
  by (cases "c' = c") simp_all

lemma fill_cells_keeps:
  "c < length row \<Longrightarrow> row ! c \<noteq> None \<Longrightarrow> fill_cells n cs row ! c \<noteq> None"
proof (induction cs arbitrary: row)
  case (Cons p cs)
  obtain c' s where p: "p = (c', s)" by fastforce
  let ?row = "if c' < n then row[c' := Some s] else row"
  have "c < length ?row" "?row ! c \<noteq> None"
    using Cons.prems update_keeps_Some [of c row c' s] by simp_all
  then show ?case by (simp add: p Cons.IH)
qed simp

lemma fill_box_row:
  "fill_cells (10 + k) (box_row m) (replicate (10 + k) None) =
     map Some [INBasicGeometryName m, INSelectBasicGeometry m, INBoxx1 m, INBoxx2 m, INBoxy1 m, INBoxy2 m,
       INBoxz1 m, INBoxz2 m] @ replicate (2 + k) None"
  by (simp add: box_row_def numeral_eq_Suc)

lemma fill_material_row:
  "fill_cells (10 + k) (material_row m) (replicate (10 + k) None) =
     map Some [py_strip (INMaterialNameSGH m), INEOS m, INq1 m, INq2 m, INq1ex m, INq2ex m, INGamma m,
       INMinSound m, INSpecificHeat m, INStrengthModel m] @ replicate k None"
  by (simp add: material_row_def numeral_eq_Suc)

lemma item_text_named:
  "named_rows t \<Longrightarrow> i < length (rows t) \<Longrightarrow> item_text t i 0 = Inr (the (rows t ! i ! 0))"
proof -
  assume t: "named_rows t" and i: "i < length (rows t)"
  then have "rows t ! i \<in> set (rows t)" by simp
  with t have "length (rows t ! i) = columns t" "rows t ! i ! 0 \<noteq> None" "0 < columns t"
    unfolding named_rows_def table_wf_def by blast+
  with i show ?thesis by (auto simp: item_text_def)
qed

lemma add_names_named:
  "named_rows t \<Longrightarrow> \<forall>i\<in>set ns. i < length (rows t) \<Longrightarrow>
   add_names t ns cb = (\<lparr>items = items cb @ map (\<lambda>i. the (rows t ! i ! 0)) ns,
                          current = (if items cb = [] \<and> ns \<noteq> [] then 0 else current cb)\<rparr>, None)"
  by (induction ns arbitrary: cb) (simp_all add: item_text_named addItem_def)

lemma names_upt: "map (\<lambda>i. the (rows t ! i ! 0)) [0..<length (rows t)] = material_names t"
  unfolding material_names_def by (rule nth_equalityI) simp_all

lemma refill_names_named:
  "named_rows t \<Longrightarrow>
   refill_names t cb = (\<lparr>items = material_names t, current = (if rows t = [] then -1 else 0)\<rparr>, None)"
proof -
  assume t: "named_rows t"
  with t show ?thesis
    by (simp add: refill_names_def add_names_named rowCount_def combo_clear_def names_upt)
qed

lemma refresh_materials_named:
  "named_rows (TMaterialsSGH g) \<Longrightarrow>
   refresh_materials g k = Done (k (g\<lparr>INMaterial := \<lparr>items = material_names (TMaterialsSGH g),
     current = (if rows (TMaterialsSGH g) = [] then -1 else 0)\<rparr>\<rparr>))"
  by (simp add: refresh_materials_def refill_names_named)

lemma combo_ok_names [simp]:
  "combo_ok \<lparr>items = material_names t, current = c\<rparr> \<longleftrightarrow> -1 \<le> c \<and> c < int (length (rows t))"
  by (simp add: combo_ok_def material_names_def)

lemma combo_ok_setCurrentIndex [simp]: "combo_ok (setCurrentIndex i cb)"
  by (auto simp: combo_ok_def setCurrentIndex_def nat_less_iff)

lemma items_setCurrentIndex [simp]: "items (setCurrentIndex i cb) = items cb"
  by (simp add: setCurrentIndex_def)

lemma named_rows_append_row:
  "named_rows t \<Longrightarrow>
   named_rows (t\<lparr>rows := rows t @ [fill_cells (columns t) ((0, s) # cs) (replicate (columns t) None)]\<rparr>)"
proof -
  assume t: "named_rows t"
  then have "(replicate (columns t) None)[0 := Some s] ! 0 \<noteq> None"
    "0 < length ((replicate (columns t) None)[0 := Some s])"
    by (simp_all add: named_rows_def)
  then have "fill_cells (columns t) ((0, s) # cs) (replicate (columns t) None) ! 0 \<noteq> None"
    using fill_cells_keeps by simp
  with t show ?thesis by (auto simp: named_rows_def table_wf_def)
qed

lemma add_material_inv:
  assumes "gui_inv g"
  shows "\<exists>g'. add_material_SGH g = Done g' \<and> gui_inv g'"
proof -
  let ?t = "TMaterialsSGH g"
  have "named_rows (?t\<lparr>rows := rows ?t @ [fill_cells (columns ?t) (material_row (mat_in g))
          (replicate (columns ?t) None)]\<rparr>)"
    using assms unfolding material_row_def gui_inv_def by (rule named_rows_append_row [OF conjunct1])
  with assms show ?thesis
    by (simp add: add_material_SGH_def append_row rowCount_def refresh_materials_named
        reset_material_SGH_def warning_message_def gui_inv_def)
qed

lemma delete_material_inv:
  "gui_inv g \<Longrightarrow> \<exists>g'. delete_material_SGH r yes g = Done g' \<and> gui_inv g'"
  by (simp add: delete_material_SGH_def refresh_materials_named warning_message_def gui_inv_def)

lemma add_table_names_named:
  "items cb \<noteq> [] \<Longrightarrow> \<forall>t\<in>set ts. named_rows t \<Longrightarrow>
   add_table_names ts cb = (\<lparr>items = items cb @ concat (map material_names ts), current = current cb\<rparr>, None)"
  by (induction ts arbitrary: cb) (simp_all add: add_names_named rowCount_def names_upt)

lemma refresh_parts_named:
  "\<forall>t\<in>set (tabs g). named_rows t \<Longrightarrow>
   refresh_parts g tabs k =
     Done (k (g\<lparr>INPartMaterial := \<lparr>items = ''global'' # concat (map material_names (tabs g)), current = 0\<rparr>\<rparr>))"
  by (simp add: refresh_parts_def add_table_names_named addItem_def combo_clear_def)

lemma gui_inv_parts_combo [simp]: "gui_inv (g\<lparr>INPartMaterial := cb\<rparr>) = gui_inv g"
  by (simp add: gui_inv_def)

lemma gui_inv_reset_basic_part [simp]: "gui_inv (reset_basic_part g) = gui_inv g"
  by (simp add: gui_inv_def reset_basic_part_def)

lemma gui_inv_actors [simp]:
  "gui_inv (g\<lparr>next_actor := a, actor_attrs := f, renderer := rs\<rparr>) = gui_inv g"
  by (simp add: gui_inv_def)

lemma append_geometry_inv:
  assumes "gui_inv g"
  shows "gui_inv (append_geometry ((0, s) # cs) g)"
proof -
  let ?t = "TBasicGeometries g"
  have "named_rows (?t\<lparr>rows := rows ?t @ [fill_cells (columns ?t) ((0, s) # cs) (replicate (columns ?t) None)]\<rparr>)"
    using assms unfolding gui_inv_def by (intro named_rows_append_row) simp
  with assms show ?thesis
    by (simp add: gui_inv_def append_geometry_def Let_def append_row rowCount_def
        del: set_items.simps fill_cells.simps)
qed

lemma append_geometry_fields [simp]:
  "TParts (append_geometry cs g) = TParts g" "geo_in (append_geometry cs g) = geo_in g"
  "actor_attrs (append_geometry cs g) = actor_attrs g" "renderer (append_geometry cs g) = renderer g"
  "next_actor (append_geometry cs g) = next_actor g"
  by (simp_all add: append_geometry_def Let_def)

lemma refresh_parts_inv:
  assumes "gui_inv h" and "set (tabs h) \<subseteq> {TBasicGeometries h, TParts h}" and "\<And>h'. gui_inv (k h') = gui_inv h'"
  shows "\<exists>h'. refresh_parts h tabs k = Done h' \<and> gui_inv h'"
proof -
  have "\<forall>t\<in>set (tabs h). named_rows t" using assms(1,2) by (auto simp: gui_inv_def)
  with assms show ?thesis by (simp add: refresh_parts_named)
qed

lemma box_bounds_error: "box_bounds m = Inl e \<Longrightarrow> \<exists>msg. e = ValueError msg"
  unfolding box_bounds_def
  by (drule map_res_Inl_set) (auto simp: py_float_str_def split: option.splits)

lemma generate_inv:
  assumes "gui_inv g"
  shows "gui_inv (slot_state (generate_basic_geometry g)) \<and>
    (\<forall>err g'. generate_basic_geometry g = Exc err g' \<longrightarrow>
       INSelectBasicGeometry (geo_in g) = ''box'' \<and> (\<exists>msg. err = ValueError msg))"
proof -
  let ?m = "geo_in g"
  let ?g1 = "append_geometry (box_row ?m) g"
  let ?g2 = "add_box_actor ?m ?g1"
  have warn: "gui_inv (warning_message incomplete_part g)"
    using assms by (simp add: gui_inv_def warning_message_def)
  have app: "gui_inv (append_geometry cells g)" if "cells \<in> {box_row ?m, sphere_row ?m, cylinder_row ?m}" for cells
    using that append_geometry_inv [OF assms] by (auto simp: box_row_def sphere_row_def cylinder_row_def)
  have refresh: "\<exists>h'. refresh_parts h tabs reset_basic_part = Done h' \<and> gui_inv h'"
    if "gui_inv h" "set (tabs h) \<subseteq> {TBasicGeometries h, TParts h}" for h tabs
    using that by (rule refresh_parts_inv) simp
  have box: "\<exists>h'. refresh_parts ?g2 (\<lambda>h. [TBasicGeometries h]) reset_basic_part = Done h' \<and> gui_inv h'"
    using app [of "box_row ?m"] by (intro refresh) (simp_all add: add_box_actor_def Let_def)
  have sphere: "\<exists>h'. refresh_parts (append_geometry (sphere_row ?m) g) (\<lambda>h. [TBasicGeometries h])
      reset_basic_part = Done h' \<and> gui_inv h'"
    using app [of "sphere_row ?m"] by (intro refresh) simp_all
  have cylinder: "\<exists>h'. refresh_parts (append_geometry (cylinder_row ?m) g) (\<lambda>h. [TBasicGeometries h, TParts h])
      reset_basic_part = Done h' \<and> gui_inv h'"
    using app [of "cylinder_row ?m"] by (intro refresh) auto
  show ?thesis
    using warn app [of "box_row ?m"] box sphere cylinder assms box_bounds_error [of ?m]
    unfolding generate_basic_geometry_def Let_def
    by (auto split: sum.split)
qed

lemma selected_row_cases:
  "selected_row t r = -1 \<or> (0 \<le> selected_row t r \<and> nat (selected_row t r) < length (rows t))"
  by (simp add: selected_row_def rowCount_def)

lemma delete_basic_inv:
  assumes "gui_inv g"
  shows "\<exists>g'. delete_basic_part (selected_row (TBasicGeometries g) r) yes g = Done g' \<and> gui_inv g'"
proof -
  let ?r = "selected_row (TBasicGeometries g) r"
  let ?h = "\<lambda>name. g\<lparr>renderer := RemoveActor (actor_attrs g (''threshold_'' @ name)) (renderer g),
              TBasicGeometries := removeRow ?r (TBasicGeometries g)\<rparr>"
  have inv_h: "gui_inv (?h name)" for name
    using assms by (simp add: gui_inv_def)
  have ex: "\<exists>h'. refresh_parts (?h name) (\<lambda>h. [TParts h, TBasicGeometries h]) id = Done h' \<and> gui_inv h'" for name
    using inv_h by (rule refresh_parts_inv) auto
  show ?thesis
  proof (cases "?r < 0")
    case True
    with assms show ?thesis by (simp add: delete_basic_part_def warning_message_def gui_inv_def)
  next
    case False
    with selected_row_cases [of "TBasicGeometries g" r] assms
    have "item_text (TBasicGeometries g) (nat ?r) 0 = Inr (the (rows (TBasicGeometries g) ! nat ?r ! 0))"
      by (auto simp: gui_inv_def intro: item_text_named)
    with False ex [of "the (rows (TBasicGeometries g) ! nat ?r ! 0)"] assms show ?thesis
      by (simp add: delete_basic_part_def)
  qed
qed

lemma gui_step_inv:
  assumes "gui_inv g"
  shows "gui_inv (slot_state (gui_step g e)) \<and>
    (\<forall>err g'. gui_step g e = Exc err g' \<longrightarrow>
       e = GenerateBasicGeometry \<and> INSelectBasicGeometry (geo_in g) = ''box'' \<and> (\<exists>msg. err = ValueError msg))"
proof (cases e)
  case GenerateBasicGeometry
  then show ?thesis using generate_inv [OF assms] by simp
next
  case (DeleteBasicGeometry r yes)
  then show ?thesis using delete_basic_inv [OF assms, of r yes] by auto
next
  case (SetGeometryInputs m)
  then show ?thesis using assms by (simp add: gui_inv_def basic_geometry_def Let_def)
next
  case AddMaterial
  then show ?thesis using add_material_inv [OF assms] by auto
next
  case (DeleteMaterial r yes)
  then show ?thesis using delete_material_inv [OF assms, of "selected_row (TMaterialsSGH g) r" yes] by auto
next
  case AssignMaterial
  then show ?thesis using assms
    by (simp add: assign_material_SGH_def append_row rowCount_def reset_material_assign_SGH_def
        warning_message_def gui_inv_def Let_def)
next
  case AddBC
  then show ?thesis using assms
    by (simp add: add_bcs_SGH_def append_row rowCount_def reset_bcs_SGH_def
        warning_message_def gui_inv_def Let_def)
qed (use assms in \<open>simp_all add: gui_inv_def EOS_Model_def selected_bcs_def Let_def
  delete_assign_mat_SGH_def delete_bcs_SGH_def warning_message_def\<close>)

lemma fill_assign_row:
  "fill_cells (7 + k) (assign_row g) (replicate (7 + k) None) =
     map Some [currentText (INPartMaterial g), currentText (INMaterial g), INDensity (assign_in g),
       INSIE (assign_in g), INVelocityX (assign_in g), INVelocityY (assign_in g), INVelocityZ (assign_in g)] @
     replicate k None"
  by (simp add: assign_row_def numeral_eq_Suc)

lemma fill_cells_at:
  "distinct (map fst cs) \<Longrightarrow> (c, s) \<in> set cs \<Longrightarrow> c < n \<Longrightarrow> c < length row \<Longrightarrow>
   fill_cells n cs row ! c = Some s"
proof (induction cs arbitrary: row)
  case (Cons p cs)
  obtain c' s' where p: "p = (c', s')" by fastforce
  have other: "fill_cells n cs row' ! c = row' ! c" if "c \<notin> fst ` set cs" for row'
    using that by (induction cs arbitrary: row') (auto simp: nth_list_update_neq)
  show ?case
  proof (cases "c' = c")
    case True
    with Cons.prems p have "c \<notin> fst ` set cs" "s' = s"
      by (auto simp: rev_image_eqI)
    with True p Cons.prems show ?thesis by (simp add: other)
  next
    case False
    with Cons.prems p show ?thesis by (simp add: Cons.IH)
  qed
qed simp

lemma gui_reachable_inv: "gui_reachable g \<Longrightarrow> gui_inv g"
proof (induction rule: gui_reachable.induct)
  case init
  show ?case by (simp add: gui_inv_def gui_init_def named_rows_def table_wf_def combo_ok_def material_names_def)
next
  case (step g e)
  from gui_step_inv [OF step.IH, of e] show ?case by blast
next
  case (import g ps)
  then show ?case by (simp add: gui_inv_def)
qed

lemma gui_reachable_run: "gui_reachable g \<Longrightarrow> gui_reachable (gui_run g es)"
  by (induction g es rule: gui_run.induct) (simp_all add: gui_reachable.step)

lemma add_material_Done:
  assumes "gui_inv g" and "\<not> material_incomplete (mat_in g)"
  shows "add_material_SGH g = Done (reset_material_SGH (g\<lparr>
           TMaterialsSGH := (TMaterialsSGH g)\<lparr>rows := rows (TMaterialsSGH g) @
             [fill_cells (columns (TMaterialsSGH g)) (material_row (mat_in g))
               (replicate (columns (TMaterialsSGH g)) None)]\<rparr>,
           INMaterial := \<lparr>items = items (INMaterial g) @
             [py_strip (INMaterialNameSGH (mat_in g))], current = 0\<rparr>\<rparr>))"
proof -
  let ?t = "TMaterialsSGH g"
  let ?row = "fill_cells (columns ?t) (material_row (mat_in g)) (replicate (columns ?t) None)"
  have named: "named_rows ?t" "items (INMaterial g) = material_names ?t"
    using assms(1) by (simp_all add: gui_inv_def)
  have "named_rows (?t\<lparr>rows := rows ?t @ [?row]\<rparr>)"
    using named(1) unfolding material_row_def by (rule named_rows_append_row)
  moreover have "?row ! 0 = Some (py_strip (INMaterialNameSGH (mat_in g)))"
    using named(1) by (intro fill_cells_at) (auto simp: material_row_def named_rows_def)
  ultimately show ?thesis using assms(2) named(2)
    by (simp add: add_material_SGH_def append_row rowCount_def refresh_materials_named material_names_def)
qed

lemmas gui_handler_defs = add_material_SGH_def delete_material_SGH_def assign_material_SGH_def
  delete_assign_mat_SGH_def add_bcs_SGH_def delete_bcs_SGH_def EOS_Model_def selected_bcs_def
  reset_material_SGH_def reset_material_assign_SGH_def reset_bcs_SGH_def warning_message_def
  basic_geometry_def reset_basic_part_def

lemmas gui_geometry_eval = ex_box_page_def generate_basic_geometry_def box_incomplete_def add_box_actor_def delete_basic_part_def append_geometry_def
  box_bounds_def refresh_parts_def AddActor_def RemoveActor_def ex_box_b_def ex_bad_box_def
  ex_duplicate_parts_def fill_box_row [where k = 0, simplified] py_float_str_def

lemmas gui_eval = gui_handler_defs gui_init_def empty_material_inputs_def empty_geometry_inputs_def ex_steel_def ex_assign_def
  ex_dangling_def refresh_materials_def refill_names_def item_text_def removeRow_def
  currentText_def addItem_def combo_clear_def material_incomplete_def material_names_def Let_def
  selected_row_def
  rowCount_def append_row fill_material_row [where k = 0, simplified] fill_assign_row [where k = 0, simplified]

section \<open>Properties of the page\<close>

text \<open>Claim C19: Shape of the page's tables: in every reachable state every row of each of the five
  tables has exactly as many cells as the table has columns, and the geometry, material and imported-part
  tables have a name in column 0 of every row.\<close>

theorem reachable_tables_rectangular:
  "gui_reachable g \<Longrightarrow>
   list_all (\<lambda>t. \<forall>r\<in>set (rows t). length r = columns t)
     [TBasicGeometries g, TParts g, TMaterialsSGH g, Tassignmat g, TBoundaryConditions g] \<and>
   list_all (\<lambda>t. \<forall>r\<in>set (rows t). r ! 0 \<noteq> None) [TBasicGeometries g, TParts g, TMaterialsSGH g]"
  by (drule gui_reachable_inv) (simp add: gui_inv_def named_rows_def table_wf_def)

theorem reachable_tables_rectangular_witness:
  "list_all (\<lambda>t. \<forall>r\<in>set (rows t). length r = columns t)
     [TBasicGeometries (gui_run gui_init ex_dangling), TParts (gui_run gui_init ex_dangling),
      TMaterialsSGH (gui_run gui_init ex_dangling), Tassignmat (gui_run gui_init ex_dangling),
      TBoundaryConditions (gui_run gui_init ex_dangling)] \<and>
   list_all (\<lambda>t. \<forall>r\<in>set (rows t). r ! 0 \<noteq> None)
     [TBasicGeometries (gui_run gui_init ex_dangling), TParts (gui_run gui_init ex_dangling),
      TMaterialsSGH (gui_run gui_init ex_dangling)]"
  by (rule reachable_tables_rectangular) (rule gui_reachable_run [OF gui_reachable.init])

text \<open>Claim C6: In every reachable state of the page the material combo box INMaterial, from which
  material assignments are made, lists exactly the names in column 0 of the materials table, in
  table order.\<close>

theorem reachable_material_combo:
  "gui_reachable g \<Longrightarrow> items (INMaterial g) = material_names (TMaterialsSGH g)"
  using gui_reachable_inv by (simp add: gui_inv_def)

theorem reachable_material_combo_witness:
  "items (INMaterial (gui_run gui_init ex_dangling)) = material_names (TMaterialsSGH (gui_run gui_init ex_dangling))"
  by (rule reachable_material_combo) (rule gui_reachable_run [OF gui_reachable.init])

text \<open>Claim C7: In a reachable state the only exception a handler of the page raises is the
  ValueError of float() on a box bound (line 60); in particular the AttributeError of reading the
  text of an empty cell while rebuilding the material or part combo (lines 89, 109, 129--131,
  173--175, 223, 257) never occurs, whatever the user and the import code do.\<close>

theorem reachable_no_exception:
  assumes "gui_reachable g" and "gui_step g e = Exc err g'"
  shows "e = GenerateBasicGeometry \<and> INSelectBasicGeometry (geo_in g) = ''box'' \<and> (\<exists>msg. err = ValueError msg)"
  using gui_step_inv [OF gui_reachable_inv [OF assms(1)], of e] assms(2) by blast

theorem reachable_no_exception_witness:
  "GenerateBasicGeometry = GenerateBasicGeometry \<and> INSelectBasicGeometry (geo_in ex_bad_box_page) = ''box'' \<and>
   (\<exists>msg. ValueError (''could not convert string to float: '' @ [CHR 0x27] @ ''1,5'' @ [CHR 0x27]) = ValueError msg)"
proof (rule reachable_no_exception)
  show "gui_reachable ex_bad_box_page"
    unfolding ex_bad_box_page_def by (rule gui_reachable_run [OF gui_reachable.init])
  show "gui_step ex_bad_box_page GenerateBasicGeometry =
      Exc (ValueError (''could not convert string to float: '' @ [CHR 0x27] @ ''1,5'' @ [CHR 0x27]))
        (slot_state (gui_step ex_bad_box_page GenerateBasicGeometry))"
    by (simp add: ex_bad_box_page_def ex_bad_box_def gui_eval generate_basic_geometry_def box_bounds_def
        box_incomplete_def
        append_geometry_def py_float_str_def py_simps)
qed

text \<open>Claim C13: Adding a complete material definition (lines 186--226) appends one row holding
  the stripped name, the EOS, the seven numeric fields and the strength model, appends the stripped
  name to the material combo, clears the name and numeric inputs (not the two combos) and leaves
  the other tables alone.\<close>

theorem add_material_appends:
  assumes "gui_inv g" and "\<not> material_incomplete (mat_in g)" and "columns (TMaterialsSGH g) = 10 + k"
  shows "\<exists>g'. add_material_SGH g = Done g' \<and>
    rows (TMaterialsSGH g') = rows (TMaterialsSGH g) @
      [map Some [py_strip (INMaterialNameSGH (mat_in g)), INEOS (mat_in g), INq1 (mat_in g), INq2 (mat_in g),
        INq1ex (mat_in g), INq2ex (mat_in g), INGamma (mat_in g), INMinSound (mat_in g),
        INSpecificHeat (mat_in g), INStrengthModel (mat_in g)] @ replicate k None] \<and>
    items (INMaterial g') = items (INMaterial g) @ [py_strip (INMaterialNameSGH (mat_in g))] \<and>
    mat_in g' = (mat_in g)\<lparr>INMaterialNameSGH := [], INq1 := [], INq2 := [], INq1ex := [], INq2ex := [],
      INGamma := [], INMinSound := [], INSpecificHeat := []\<rparr> \<and>
    Tassignmat g' = Tassignmat g \<and> TBoundaryConditions g' = TBoundaryConditions g"
  using add_material_Done [OF assms(1,2)] assms(3) by (simp add: fill_material_row reset_material_SGH_def)

theorem add_material_appends_witness:
  "\<exists>g'. add_material_SGH (gui_init\<lparr>mat_in := ex_steel\<rparr>) = Done g' \<and>
    rows (TMaterialsSGH g') = rows (TMaterialsSGH (gui_init\<lparr>mat_in := ex_steel\<rparr>)) @
      [map Some [py_strip (INMaterialNameSGH ex_steel), INEOS ex_steel, INq1 ex_steel, INq2 ex_steel,
        INq1ex ex_steel, INq2ex ex_steel, INGamma ex_steel, INMinSound ex_steel,
        INSpecificHeat ex_steel, INStrengthModel ex_steel] @ replicate 0 None] \<and>
    items (INMaterial g') = items (INMaterial (gui_init\<lparr>mat_in := ex_steel\<rparr>)) @ [py_strip (INMaterialNameSGH ex_steel)] \<and>
    mat_in g' = ex_steel\<lparr>INMaterialNameSGH := [], INq1 := [], INq2 := [], INq1ex := [], INq2ex := [],
      INGamma := [], INMinSound := [], INSpecificHeat := []\<rparr> \<and>
    Tassignmat g' = Tassignmat (gui_init\<lparr>mat_in := ex_steel\<rparr>) \<and>
    TBoundaryConditions g' = TBoundaryConditions (gui_init\<lparr>mat_in := ex_steel\<rparr>)"
  using add_material_appends [of "gui_init\<lparr>mat_in := ex_steel\<rparr>" 0]
  by (simp add: gui_inv_def gui_init_def named_rows_def table_wf_def combo_ok_def material_names_def
      material_incomplete_def ex_steel_def)

text \<open>Claim C25: The guard of add_material_SGH (lines 182--185): the click only shows the
  "Material definition incomplete" message exactly when the name is empty or, for an EOS other than
  "none", one of the seven numeric fields is empty; with EOS "none" the numeric fields are not
  required.\<close>

theorem add_material_guard:
  assumes "gui_inv g"
  shows "add_material_SGH g = Done (warning_message incomplete_material g) \<longleftrightarrow>
    \<not> (INMaterialNameSGH (mat_in g) \<noteq> [] \<and>
       (INEOS (mat_in g) \<noteq> ''none'' \<longrightarrow> INq1 (mat_in g) \<noteq> [] \<and> INq2 (mat_in g) \<noteq> [] \<and>
          INq1ex (mat_in g) \<noteq> [] \<and> INq2ex (mat_in g) \<noteq> [] \<and> INGamma (mat_in g) \<noteq> [] \<and>
          INMinSound (mat_in g) \<noteq> [] \<and> INSpecificHeat (mat_in g) \<noteq> []))"
proof (cases "material_incomplete (mat_in g)")
  case True
  then show ?thesis by (auto simp: add_material_SGH_def material_incomplete_def)
next
  case False
  from add_material_Done [OF assms False]
  have "rows (TMaterialsSGH (slot_state (add_material_SGH g))) \<noteq> rows (TMaterialsSGH g)"
    by (simp add: reset_material_SGH_def)
  then have "add_material_SGH g \<noteq> Done (warning_message incomplete_material g)"
    by (auto simp: warning_message_def)
  with False show ?thesis by (auto simp: material_incomplete_def)
qed

theorem add_material_guard_witness:
  "add_material_SGH (gui_init\<lparr>mat_in := ex_steel\<lparr>INEOS := ''none'', INq1 := []\<rparr>\<rparr>) =
     Done (warning_message incomplete_material (gui_init\<lparr>mat_in := ex_steel\<lparr>INEOS := ''none'', INq1 := []\<rparr>\<rparr>)) \<longleftrightarrow>
   \<not> (INMaterialNameSGH (ex_steel\<lparr>INEOS := ''none'', INq1 := []\<rparr>) \<noteq> [] \<and>
      (INEOS (ex_steel\<lparr>INEOS := ''none'', INq1 := []\<rparr>) \<noteq> ''none'' \<longrightarrow>
         INq1 (ex_steel\<lparr>INEOS := ''none'', INq1 := []\<rparr>) \<noteq> [] \<and> INq2 ex_steel \<noteq> [] \<and>
         INq1ex ex_steel \<noteq> [] \<and> INq2ex ex_steel \<noteq> [] \<and> INGamma ex_steel \<noteq> [] \<and>
         INMinSound ex_steel \<noteq> [] \<and> INSpecificHeat ex_steel \<noteq> []))"
  using add_material_guard [of "gui_init\<lparr>mat_in := ex_steel\<lparr>INEOS := ''none'', INq1 := []\<rparr>\<rparr>"]
  by (simp add: gui_inv_def gui_init_def named_rows_def table_wf_def combo_ok_def material_names_def)

text \<open>Claim C36: The guard tests the raw name but the table stores it stripped (line 190): with
  EOS "none", a name of only blanks passes the guard and adds a material whose name in the table and
  in the material combo is the empty string.\<close>

theorem blank_material_name_accepted:
  assumes "gui_inv g" and "INEOS (mat_in g) = ''none''" and "INMaterialNameSGH (mat_in g) \<noteq> []"
    and "py_strip (INMaterialNameSGH (mat_in g)) = []"
  shows "\<exists>g'. add_material_SGH g = Done g' \<and> items (INMaterial g') = items (INMaterial g) @ [ [] ]"
proof -
  have "\<not> material_incomplete (mat_in g)"
    using assms(2,3) by (simp add: material_incomplete_def)
  from add_material_Done [OF assms(1) this] assms(4) show ?thesis
    by (simp add: reset_material_SGH_def)
qed

theorem blank_material_name_accepted_witness:
  "\<exists>g'. add_material_SGH (gui_init\<lparr>mat_in := ex_steel\<lparr>INMaterialNameSGH := ''  '', INEOS := ''none''\<rparr>\<rparr>) = Done g' \<and>
     items (INMaterial g') = items (INMaterial (gui_init\<lparr>mat_in := ex_steel\<lparr>INMaterialNameSGH := ''  '', INEOS := ''none''\<rparr>\<rparr>)) @ [ [] ]"
  by (rule blank_material_name_accepted)
    (simp_all add: gui_inv_def gui_init_def named_rows_def table_wf_def combo_ok_def material_names_def py_simps)

text \<open>Claim C37: EOS_Model (lines 259--289) disables the EOS parameter fields only for the text
  'None', while add_material_SGH exempts the text "none": with EOS "none" the handler leaves the
  fields as they were, and only the name is required.\<close>

theorem eos_none_keeps_fields:
  "INEOS (mat_in g) = ''none'' \<Longrightarrow>
   EOS_Model g = g \<and> (material_incomplete (mat_in g) \<longleftrightarrow> INMaterialNameSGH (mat_in g) = [])"
  by (simp add: EOS_Model_def material_incomplete_def)

theorem eos_none_keeps_fields_witness:
  "EOS_Model (gui_init\<lparr>mat_in := ex_steel\<lparr>INEOS := ''none''\<rparr>\<rparr>) = gui_init\<lparr>mat_in := ex_steel\<lparr>INEOS := ''none''\<rparr>\<rparr> \<and>
   (material_incomplete (ex_steel\<lparr>INEOS := ''none''\<rparr>) \<longleftrightarrow> INMaterialNameSGH (ex_steel\<lparr>INEOS := ''none''\<rparr>) = [])"
  using eos_none_keeps_fields [of "gui_init\<lparr>mat_in := ex_steel\<lparr>INEOS := ''none''\<rparr>\<rparr>"] by simp


text \<open>Claim C38: assign_material_SGH (lines 296--323) does not check that a material exists:
  with the materials table empty, a complete assignment is recorded with the empty string as its
  material.\<close>

theorem assign_without_materials:
  assumes "gui_inv g" and "rows (TMaterialsSGH g) = []" and "1 < columns (Tassignmat g)"
    and "INDensity (assign_in g) \<noteq> []" and "INSIE (assign_in g) \<noteq> []"
    and "INVelocityX (assign_in g) \<noteq> []" and "INVelocityY (assign_in g) \<noteq> []"
    and "INVelocityZ (assign_in g) \<noteq> []"
  shows "rows (Tassignmat (assign_material_SGH g)) ! length (rows (Tassignmat g)) ! 1 = Some []"
proof -
  have "currentText (INMaterial g) = []"
    using assms(1,2) by (simp add: gui_inv_def material_names_def currentText_def)
  then have "fill_cells (columns (Tassignmat g)) (assign_row g) (replicate (columns (Tassignmat g)) None) ! 1 = Some []"
    using assms(3) by (intro fill_cells_at) (simp_all add: assign_row_def)
  with assms(4-8) show ?thesis
    by (simp add: assign_material_SGH_def append_row rowCount_def reset_material_assign_SGH_def)
qed

theorem assign_without_materials_witness:
  "rows (Tassignmat (assign_material_SGH (gui_init\<lparr>assign_in := ex_assign\<rparr>))) !
     length (rows (Tassignmat (gui_init\<lparr>assign_in := ex_assign\<rparr>))) ! 1 = Some []"
  by (rule assign_without_materials)
    (simp_all add: gui_inv_def gui_init_def named_rows_def table_wf_def combo_ok_def material_names_def ex_assign_def)

text \<open>Claim C14: Confirmed deletion of a selected material removes exactly that row from the
  materials table and that name from the material combo, and leaves the assignment table as it
  was.\<close>

theorem delete_material_removes:
  assumes "gui_inv g" and "0 \<le> r" and "nat r < length (rows (TMaterialsSGH g))"
  shows "\<exists>g'. delete_material_SGH r True g = Done g' \<and>
    rows (TMaterialsSGH g') = take (nat r) (rows (TMaterialsSGH g)) @ drop (Suc (nat r)) (rows (TMaterialsSGH g)) \<and>
    items (INMaterial g') = take (nat r) (items (INMaterial g)) @ drop (Suc (nat r)) (items (INMaterial g)) \<and>
    Tassignmat g' = Tassignmat g"
proof -
  have "named_rows (removeRow r (TMaterialsSGH g))" "items (INMaterial g) = material_names (TMaterialsSGH g)"
    using assms(1) by (simp_all add: gui_inv_def)
  with assms(2,3) show ?thesis
    by (simp add: delete_material_SGH_def refresh_materials_named material_names_def,
        simp add: removeRow_def take_map drop_map)
qed

theorem delete_material_removes_witness:
  "\<exists>g'. delete_material_SGH 0 True (gui_run gui_init (take 4 ex_dangling)) = Done g' \<and>
    rows (TMaterialsSGH g') = take (nat 0) (rows (TMaterialsSGH (gui_run gui_init (take 4 ex_dangling)))) @
      drop (Suc (nat 0)) (rows (TMaterialsSGH (gui_run gui_init (take 4 ex_dangling)))) \<and>
    items (INMaterial g') = take (nat 0) (items (INMaterial (gui_run gui_init (take 4 ex_dangling)))) @
      drop (Suc (nat 0)) (items (INMaterial (gui_run gui_init (take 4 ex_dangling)))) \<and>
    Tassignmat g' = Tassignmat (gui_run gui_init (take 4 ex_dangling))"
proof (rule delete_material_removes)
  show "gui_inv (gui_run gui_init (take 4 ex_dangling))"
    by (rule gui_reachable_inv [OF gui_reachable_run [OF gui_reachable.init]])
  show "nat 0 < length (rows (TMaterialsSGH (gui_run gui_init (take 4 ex_dangling))))"
    by (simp add: gui_eval py_simps)
qed simp

text \<open>Claim C26: The guard of add_bcs_SGH (lines 373--376): a boundary condition is added exactly
  when the plane position is given and, for the type "velocity" only, the four velocity fields are
  given too; otherwise only the "Boundary condition incomplete" message is shown.\<close>

theorem add_bcs_guard:
  "length (rows (TBoundaryConditions (add_bcs_SGH g))) = Suc (length (rows (TBoundaryConditions g))) \<longleftrightarrow>
   INPlanePosition (bc_in g) \<noteq> [] \<and>
   (INType (bc_in g) = ''velocity'' \<longrightarrow> INVel0 (bc_in g) \<noteq> [] \<and> INVel1 (bc_in g) \<noteq> [] \<and>
      INVelstart (bc_in g) \<noteq> [] \<and> INVelend (bc_in g) \<noteq> [])"
  by (auto simp: add_bcs_SGH_def append_row rowCount_def reset_bcs_SGH_def warning_message_def Let_def)

theorem add_bcs_guard_witness:
  "length (rows (TBoundaryConditions (add_bcs_SGH (gui_init\<lparr>bc_in := \<lparr>INBoundary = ''x'', INPlanePosition = ''0.0'',
      INType = ''reflected'', INVel0 = [], INVel1 = [], INVelstart = [], INVelend = []\<rparr>\<rparr>)))) =
     Suc (length (rows (TBoundaryConditions gui_init))) \<longleftrightarrow>
   ''0.0'' \<noteq> [] \<and> (''reflected'' = ''velocity'' \<longrightarrow> ([]::string) \<noteq> [] \<and> ([]::string) \<noteq> [] \<and>
      ([]::string) \<noteq> [] \<and> ([]::string) \<noteq> [])"
  using add_bcs_guard [of "gui_init\<lparr>bc_in := \<lparr>INBoundary = ''x'', INPlanePosition = ''0.0'',
      INType = ''reflected'', INVel0 = [], INVel1 = [], INVelstart = [], INVelend = []\<rparr>\<rparr>"]
  by simp

text \<open>Claim C18: The part combo INPartMaterial, from which material assignments pick their part, is
  rebuilt differently by each handler: after adding a box or a sphere it holds "global" and the basic
  geometries only, dropping every imported part; after adding a cylinder, the geometries and then the
  imported parts; after deleting a geometry (lines 170--175), the imported parts first.\<close>

theorem part_combo_after_edits:
  assumes "gui_inv g"
  shows "(generate_basic_geometry g = Done g' \<and> TBasicGeometries g' \<noteq> TBasicGeometries g \<longrightarrow>
      items (INPartMaterial g') = ''global'' # material_names (TBasicGeometries g') @
        (if INSelectBasicGeometry (geo_in g) = ''cylinder'' then material_names (TParts g) else [])) \<and>
    (delete_basic_part r True g = Done g'' \<and> 0 \<le> r \<longrightarrow>
      items (INPartMaterial g'') = ''global'' # material_names (TParts g) @ material_names (TBasicGeometries g''))"
proof (intro conjI impI; elim conjE)
  let ?m = "geo_in g"
  have named: "named_rows (TBasicGeometries (append_geometry cells g))" "named_rows (TParts g)"
    if "cells \<in> {box_row ?m, sphere_row ?m, cylinder_row ?m}" for cells
    using append_geometry_inv [OF assms] assms that
    by (auto simp: gui_inv_def box_row_def sphere_row_def cylinder_row_def)
  have items: "items (INPartMaterial h') = ''global'' # concat (map material_names (tabs h)) \<and>
      TBasicGeometries h' = TBasicGeometries h"
    if "\<forall>t\<in>set (tabs h). named_rows t" "refresh_parts h tabs reset_basic_part = Done h'" for h h' tabs
    using that by (auto simp: refresh_parts_named reset_basic_part_def)
  assume d: "generate_basic_geometry g = Done g'" and ch: "TBasicGeometries g' \<noteq> TBasicGeometries g"
  show "items (INPartMaterial g') = ''global'' # material_names (TBasicGeometries g') @
      (if INSelectBasicGeometry ?m = ''cylinder'' then material_names (TParts g) else [])"
  proof (cases "INSelectBasicGeometry ?m = ''box''")
    case True
    with d ch have r: "refresh_parts (add_box_actor ?m (append_geometry (box_row ?m) g)) (\<lambda>h. [TBasicGeometries h])
        reset_basic_part = Done g'"
      by (auto simp: generate_basic_geometry_def Let_def warning_message_def split: if_splits sum.splits)
    have "named_rows (TBasicGeometries (add_box_actor ?m (append_geometry (box_row ?m) g)))"
      using named [of "box_row ?m"] by (simp add: add_box_actor_def Let_def)
    with items [OF _ r] True show ?thesis by (simp add: add_box_actor_def Let_def)
  next
    case nb: False
    show ?thesis
    proof (cases "INSelectBasicGeometry ?m = ''sphere''")
      case True
      with nb d ch have r: "refresh_parts (append_geometry (sphere_row ?m) g) (\<lambda>h. [TBasicGeometries h])
          reset_basic_part = Done g'"
        by (auto simp: generate_basic_geometry_def Let_def warning_message_def split: if_splits)
      from items [OF _ r] named [of "sphere_row ?m"] True show ?thesis by simp
    next
      case ns: False
      with nb d ch have c: "INSelectBasicGeometry ?m = ''cylinder''"
        and r: "refresh_parts (append_geometry (cylinder_row ?m) g) (\<lambda>h. [TBasicGeometries h, TParts h])
           reset_basic_part = Done g'"
        by (auto simp: generate_basic_geometry_def Let_def warning_message_def split: if_splits)
      from items [OF _ r] named [of "cylinder_row ?m"] c show ?thesis by simp
    qed
  qed
next
  assume "delete_basic_part r True g = Done g''" and "0 \<le> r"
  with assms show "items (INPartMaterial g'') = ''global'' # material_names (TParts g) @ material_names (TBasicGeometries g'')"
    by (auto simp: delete_basic_part_def refresh_parts_named gui_inv_def split: sum.splits)
qed

theorem part_combo_after_edits_witness:
  "items (INPartMaterial (slot_state (generate_basic_geometry ex_box_page))) =
     ''global'' # material_names (TBasicGeometries (slot_state (generate_basic_geometry ex_box_page))) \<and>
   items (INPartMaterial (slot_state (delete_basic_part 0 True (slot_state (generate_basic_geometry ex_box_page))))) =
     ''global'' # material_names (TParts (slot_state (generate_basic_geometry ex_box_page))) @
       material_names (TBasicGeometries (slot_state (delete_basic_part 0 True (slot_state (generate_basic_geometry ex_box_page)))))"
proof
  have inv: "gui_inv ex_box_page"
    by (simp add: ex_box_page_def gui_inv_def gui_init_def named_rows_def table_wf_def combo_ok_def material_names_def)
  have gen: "generate_basic_geometry ex_box_page = Done (slot_state (generate_basic_geometry ex_box_page))"
    "TBasicGeometries (slot_state (generate_basic_geometry ex_box_page)) \<noteq> TBasicGeometries ex_box_page"
    by (simp_all add: ex_box_page_def gui_eval gui_geometry_eval py_simps)
  then show "items (INPartMaterial (slot_state (generate_basic_geometry ex_box_page))) =
     ''global'' # material_names (TBasicGeometries (slot_state (generate_basic_geometry ex_box_page)))"
    using part_combo_after_edits [OF inv] by (simp add: ex_box_page_def gui_init_def ex_box_b_def ex_bad_box_def)
  have inv2: "gui_inv (slot_state (generate_basic_geometry ex_box_page))"
    using generate_inv [OF inv] by blast
  have "delete_basic_part 0 True (slot_state (generate_basic_geometry ex_box_page)) =
      Done (slot_state (delete_basic_part 0 True (slot_state (generate_basic_geometry ex_box_page))))"
    by (simp add: ex_box_page_def gui_eval gui_geometry_eval py_simps)
  then show "items (INPartMaterial (slot_state (delete_basic_part 0 True (slot_state (generate_basic_geometry ex_box_page))))) =
     ''global'' # material_names (TParts (slot_state (generate_basic_geometry ex_box_page))) @
       material_names (TBasicGeometries (slot_state (delete_basic_part 0 True (slot_state (generate_basic_geometry ex_box_page)))))"
    using part_combo_after_edits [OF inv2, where r = 0
        and g'' = "slot_state (delete_basic_part 0 True (slot_state (generate_basic_geometry ex_box_page)))"]
    by simp
qed

text \<open>Claim C29: A box with a bound that float() rejects (line 60) is half added: the ValueError is
  raised after the row has been inserted into the table, so the part is listed in the table but not in
  the part combo, has no actor in the render view, and the inputs are not cleared.\<close>

theorem box_bad_bound_half_added:
  assumes "INSelectBasicGeometry (geo_in g) = ''box''" and "\<not> box_incomplete (geo_in g)"
    and "box_bounds (geo_in g) = Inl e"
  shows "\<exists>g'. generate_basic_geometry g = Exc e g' \<and>
    length (rows (TBasicGeometries g')) = Suc (length (rows (TBasicGeometries g))) \<and>
    INPartMaterial g' = INPartMaterial g \<and> renderer g' = renderer g \<and> geo_in g' = geo_in g"
  using assms
  by (simp add: generate_basic_geometry_def append_geometry_def append_row rowCount_def
      del: set_items.simps fill_cells.simps)

theorem box_bad_bound_half_added_witness:
  "\<exists>g'. generate_basic_geometry (gui_init\<lparr>geo_in := ex_bad_box\<rparr>) =
      Exc (ValueError (''could not convert string to float: '' @ [CHR 0x27] @ ''1,5'' @ [CHR 0x27])) g' \<and>
    length (rows (TBasicGeometries g')) = Suc (length (rows (TBasicGeometries (gui_init\<lparr>geo_in := ex_bad_box\<rparr>)))) \<and>
    INPartMaterial g' = INPartMaterial (gui_init\<lparr>geo_in := ex_bad_box\<rparr>) \<and>
    renderer g' = renderer (gui_init\<lparr>geo_in := ex_bad_box\<rparr>) \<and> geo_in g' = geo_in (gui_init\<lparr>geo_in := ex_bad_box\<rparr>)"
  by (rule box_bad_bound_half_added)
    (simp_all add: ex_bad_box_def box_incomplete_def box_bounds_def py_float_str_def py_simps)


end
