(* ===== verification/GuiProcess.thy ===== *)
theory GuiProcess
  imports PyText
begin

text \<open>
  The solver run of the explicit SGH page of the graphical front end
  (\<open>src/python/FIERRO-GUI/fierro_gui/Explicit_SGH.py\<close>, lines 429--472):
  \<open>run_explicit_SGH\<close> starts the solver in a \<open>QProcess\<close> unless one is already
  held in \<open>self.explicit_sgh\<close>; the process's signals call \<open>handle_state\<close>,
  \<open>handle_stdout\<close>, \<open>handle_stderr\<close> and \<open>process_finished\<close>.  The page state
  is the record \<open>run_page\<close>; the process is its state and the command it was
  started with.  Qt's signal order is modelled as the code relies on it:
  \<open>start\<close> emits \<open>stateChanged(Starting)\<close> at once; a process that starts emits
  \<open>stateChanged(Running)\<close>; at exit it emits \<open>stateChanged(NotRunning)\<close> and
  then \<open>finished\<close>; a process that fails to start emits
  \<open>stateChanged(NotRunning)\<close> and no \<open>finished\<close> signal.
\<close>

section \<open>State\<close>

datatype proc_state = NotRunning | Starting | Running

record qprocess =
  pstate :: proc_state
  program :: string
  arguments :: "string list"

record run_page =
  explicit_sgh :: "qprocess option"
  run_cnt :: nat
  progress_value :: real
  output_window :: "string list"
  INTime :: string
  state_name :: string

datatype run_result = RDone run_page | RExc py_error run_page

primrec run_state :: "run_result \<Rightarrow> run_page" where
  "run_state (RDone p) = p"
| "run_state (RExc e p) = p"

definition appendPlainText :: "string \<Rightarrow> run_page \<Rightarrow> run_page" where
  "appendPlainText s p = p\<lparr>output_window := output_window p @ [s]\<rparr>"

definition setValue :: "real \<Rightarrow> run_page \<Rightarrow> run_page" where
  "setValue v p = p\<lparr>progress_value := v\<rparr>"

section \<open>Handlers\<close>

text \<open>Line 434: the solver path is fixed to one developer's build tree.\<close>

definition executable_path :: string where
  "executable_path = ''/Users/shankins/Documents/FY24/Github/XcodeFierro/Fierro/build-fierro-serial/bin/fierro-parallel-explicit''"

definition handle_state :: "proc_state \<Rightarrow> run_page \<Rightarrow> run_page" where
  "handle_state st p = (let name = (case st of NotRunning \<Rightarrow> ''Finished''
       | Starting \<Rightarrow> ''Starting EVPFFT'' | Running \<Rightarrow> ''Running EVPFFT'')
     in appendPlainText name (p\<lparr>state_name := name\<rparr>))"

text \<open>Lines 431--443.  \<open>deck\<close> is the input file that \<open>Explicit_SGH_WInput\<close>
  (not part of the repository) writes and stores in \<open>self.EXPLICIT_SGH_INPUT\<close>.\<close>

definition run_explicit_SGH :: "string \<Rightarrow> run_page \<Rightarrow> run_page" where
  "run_explicit_SGH deck p = (if explicit_sgh p = None
     then (let p1 = p\<lparr>explicit_sgh := Some \<lparr>pstate = Starting, program = executable_path, arguments = [deck]\<rparr>\<rparr>;
               p2 = handle_state Starting p1
           in p2\<lparr>run_cnt := Suc (run_cnt p2)\<rparr>)
     else p)"

text \<open>\<open>re.search("Writing outputs to file at (\d+)", output)\<close>: the leftmost
  occurrence of the phrase followed by at least one digit, and its digits.\<close>

definition progress_phrase :: string where
  "progress_phrase = ''Writing outputs to file at ''"

fun progress_search :: "string \<Rightarrow> string option" where
  "progress_search [] = None"
| "progress_search (c # cs) =
     (let ds = takeWhile is_digit (drop (length progress_phrase) (c # cs)) in
      if take (length progress_phrase) (c # cs) = progress_phrase \<and> ds \<noteq> []
      then Some ds else progress_search cs)"

definition simple_percent_parser :: "string \<Rightarrow> real option" where
  "simple_percent_parser output = map_option (\<lambda>ds. real (digits_nat ds)) (progress_search output)"

text \<open>Lines 453--459.  \<open>if progress:\<close> is false for \<open>None\<close> and for \<open>0.0\<close>.\<close>

definition handle_stdout :: "string \<Rightarrow> run_page \<Rightarrow> run_result" where
  "handle_stdout out p = (case simple_percent_parser out of
     Some progress \<Rightarrow>
       (if progress \<noteq> 0 then
          (case py_float_str (INTime p) of
             Inl e \<Rightarrow> RExc e p
           | Inr t \<Rightarrow> if t = 0 then RExc (ZeroDivisionError ''float division by zero'') p
                      else RDone (appendPlainText out (setValue ((progress / t) * 100) p)))
        else RDone (appendPlainText out p))
   | None \<Rightarrow> RDone (appendPlainText out p))"

definition handle_stderr :: "string \<Rightarrow> run_page \<Rightarrow> run_page" where
  "handle_stderr err p = appendPlainText err p"

definition process_finished :: "run_page \<Rightarrow> run_page" where
  "process_finished p = (setValue 100 p)\<lparr>explicit_sgh := None\<rparr>"

section \<open>Events\<close>

text \<open>The Run button and what the operating system does with the process.
  An event of the process when no process in the matching state is held emits
  no signal.\<close>

datatype run_event =
    ClickRun string
  | ProcStarted
  | ProcFailedToStart
  | ProcStdout string
  | ProcStderr string
  | ProcExit

definition set_pstate :: "proc_state \<Rightarrow> run_page \<Rightarrow> run_page" where
  "set_pstate st p = p\<lparr>explicit_sgh := map_option (\<lambda>q. q\<lparr>pstate := st\<rparr>) (explicit_sgh p)\<rparr>"

definition proc_in :: "proc_state \<Rightarrow> run_page \<Rightarrow> bool" where
  "proc_in st p \<longleftrightarrow> (case explicit_sgh p of Some q \<Rightarrow> pstate q = st | None \<Rightarrow> False)"

fun run_step :: "run_page \<Rightarrow> run_event \<Rightarrow> run_result" where
  "run_step p (ClickRun deck) = RDone (run_explicit_SGH deck p)"
| "run_step p ProcStarted =
     RDone (if proc_in Starting p then handle_state Running (set_pstate Running p) else p)"
| "run_step p ProcFailedToStart =
     RDone (if proc_in Starting p then handle_state NotRunning (set_pstate NotRunning p) else p)"
| "run_step p (ProcStdout out) = (if proc_in Running p then handle_stdout out p else RDone p)"
| "run_step p (ProcStderr err) = RDone (if proc_in Running p then handle_stderr err p else p)"
| "run_step p ProcExit =
     RDone (if proc_in Running p then process_finished (handle_state NotRunning (set_pstate NotRunning p)) else p)"

fun run_steps :: "run_page \<Rightarrow> run_event list \<Rightarrow> run_page" where
  "run_steps p [] = p"
| "run_steps p (e # es) = run_steps (run_state (run_step p e)) es"

definition run_init :: run_page where
  "run_init = \<lparr>explicit_sgh = None, run_cnt = 0, progress_value = 0, output_window = [],
     INTime = [], state_name = []\<rparr>"

inductive run_reachable :: "run_page \<Rightarrow> bool" where
  init: "run_reachable run_init"
| step: "run_reachable p \<Longrightarrow> run_reachable (run_state (run_step p e))"

section \<open>Properties of the solver run\<close>

lemma progress_search_skip:
  "CHR ''W'' \<notin> set xs \<Longrightarrow> progress_search (xs @ ys) = progress_search ys"
proof (induction xs)
  case (Cons c cs)
  have "length progress_phrase = Suc (length progress_phrase - 1)" "hd progress_phrase = CHR ''W''"
    by (simp_all add: progress_phrase_def)
  then have "take (length progress_phrase) (c # cs @ ys) \<noteq> progress_phrase"
    using Cons.prems by (metis list.sel(1) take_Suc_Cons list.set_intros(1))
  with Cons show ?case by (simp add: Let_def)
qed simp

lemma progress_search_phrase:
  assumes "ds \<noteq> []" and "list_all is_digit ds" and "ys = [] \<or> \<not> is_digit (hd ys)"
  shows "progress_search (progress_phrase @ ds @ ys) = Some ds"
proof -
  have "takeWhile is_digit (ds @ ys) = ds"
    using assms(2,3) by (cases ys) (simp_all add: takeWhile_append2 list_all_iff)
  then show ?thesis using assms(1)
    by (simp add: progress_phrase_def Let_def)
qed

lemma run_reachable_steps: "run_reachable p \<Longrightarrow> run_reachable (run_steps p es)"
  by (induction p es rule: run_steps.induct) (simp_all add: run_reachable.step)

lemma run_step_Starting_ignored: "explicit_sgh p = Some q \<Longrightarrow> pstate q = NotRunning \<Longrightarrow>
  run_state (run_step p e) = p"
  by (cases e) (simp_all add: run_explicit_SGH_def proc_in_def)

lemma run_steps_frozen:
  "explicit_sgh p = Some q \<Longrightarrow> pstate q = NotRunning \<Longrightarrow> run_steps p es = p"
  by (induction es) (simp_all add: run_step_Starting_ignored)

text \<open>Claim C16: A normal run: from a page with no process, clicking Run, the
  process starting and the process exiting leave the page with no process, one
  more run counted, the progress bar at 100 and the three state lines
  "Starting EVPFFT", "Running EVPFFT", "Finished" appended to the output window.\<close>

theorem run_lifecycle:
  assumes "explicit_sgh p = None"
  shows "run_steps p [ClickRun deck, ProcStarted, ProcExit] =
    p\<lparr>explicit_sgh := None, run_cnt := Suc (run_cnt p), progress_value := 100,
      output_window := output_window p @ [''Starting EVPFFT'', ''Running EVPFFT'', ''Finished''],
      state_name := ''Finished''\<rparr>"
  using assms
  by (simp add: run_explicit_SGH_def handle_state_def appendPlainText_def proc_in_def set_pstate_def
      process_finished_def setValue_def Let_def)

theorem run_lifecycle_witness:
  "run_steps run_init [ClickRun ''input.yaml'', ProcStarted, ProcExit] =
    run_init\<lparr>explicit_sgh := None, run_cnt := Suc (run_cnt run_init), progress_value := 100,
      output_window := output_window run_init @ [''Starting EVPFFT'', ''Running EVPFFT'', ''Finished''],
      state_name := ''Finished''\<rparr>"
  by (rule run_lifecycle) (simp add: run_init_def)

text \<open>Claim C15: A solver that fails to start blocks the page for good: Qt emits
  no finished signal then, so self.explicit_sgh is never reset, and from that
  state no sequence of events changes the page; every later Run click is
  ignored.  With the executable path of line 434 fixed to one developer's
  machine this is what happens on any other machine.\<close>

theorem failed_start_blocks_runs:
  assumes "explicit_sgh p = Some q" and "pstate q = NotRunning"
  shows "run_steps p es = p"
  using assms by (rule run_steps_frozen)

theorem failed_start_blocks_runs_witness:
  "run_reachable (run_steps run_init [ClickRun ''input.yaml'', ProcFailedToStart]) \<and>
   run_steps (run_steps run_init [ClickRun ''input.yaml'', ProcFailedToStart])
     [ClickRun ''input.yaml'', ProcStarted, ProcExit, ClickRun ''input.yaml''] =
   run_steps run_init [ClickRun ''input.yaml'', ProcFailedToStart]"
proof
  show "run_reachable (run_steps run_init [ClickRun ''input.yaml'', ProcFailedToStart])"
    by (rule run_reachable_steps [OF run_reachable.init])
  show "run_steps (run_steps run_init [ClickRun ''input.yaml'', ProcFailedToStart])
     [ClickRun ''input.yaml'', ProcStarted, ProcExit, ClickRun ''input.yaml''] =
   run_steps run_init [ClickRun ''input.yaml'', ProcFailedToStart]"
    by (rule failed_start_blocks_runs
        [where q = "\<lparr>pstate = NotRunning, program = executable_path, arguments = [''input.yaml'']\<rparr>"])
      (simp_all add: run_init_def run_explicit_SGH_def handle_state_def appendPlainText_def proc_in_def
        set_pstate_def Let_def)
qed



text \<open>Claim C28: The progress parser reads back what the solver prints: after any
  text without a capital W, the phrase "Writing outputs to file at " followed by
  the decimal digits of n (and then no further digit) parses to n.\<close>

theorem simple_percent_parser_roundtrip:
  assumes "CHR ''W'' \<notin> set xs" and "ys = [] \<or> \<not> is_digit (hd ys)"
  shows "simple_percent_parser (xs @ progress_phrase @ show_nat n @ ys) = Some (real n)"
  using progress_search_skip [OF assms(1)] progress_search_phrase [OF _ _ assms(2)] show_nat_digits [of n]
  by (simp add: simple_percent_parser_def digits_nat_show_nat)

theorem simple_percent_parser_roundtrip_witness:
  "simple_percent_parser (''t = 0.5: '' @ progress_phrase @ show_nat 37 @ ''\<newline>'') = Some (real 37)"
  by (rule simple_percent_parser_roundtrip) (simp_all add: is_digit_def)

text \<open>Claim C17: Liveness of the Run button: from a page state, some sequence of process events
  brings the page back to idle (no process held, so that Run starts the solver again) exactly when the
  page does not hold a process that failed to start.\<close>

theorem run_returns_to_idle_iff:
  "(\<exists>es. explicit_sgh (run_steps p es) = None) \<longleftrightarrow>
   (\<forall>q. explicit_sgh p = Some q \<longrightarrow> pstate q \<noteq> NotRunning)"
proof
  assume "\<exists>es. explicit_sgh (run_steps p es) = None"
  then obtain es where es: "explicit_sgh (run_steps p es) = None" by blast
  show "\<forall>q. explicit_sgh p = Some q \<longrightarrow> pstate q \<noteq> NotRunning"
  proof (intro allI impI notI)
    fix q assume "explicit_sgh p = Some q" "pstate q = NotRunning"
    with es show False by (simp add: run_steps_frozen)
  qed
next
  assume idle: "\<forall>q. explicit_sgh p = Some q \<longrightarrow> pstate q \<noteq> NotRunning"
  show "\<exists>es. explicit_sgh (run_steps p es) = None"
  proof (cases "explicit_sgh p")
    case None
    then show ?thesis by (metis run_steps.simps(1))
  next
    case (Some q)
    with idle have "pstate q = Starting \<or> pstate q = Running" by (cases "pstate q") simp_all
    then show ?thesis
    proof
      assume "pstate q = Starting"
      with Some have "explicit_sgh (run_steps p [ProcStarted, ProcExit]) = None"
        by (simp add: proc_in_def set_pstate_def handle_state_def appendPlainText_def process_finished_def
            setValue_def Let_def)
      then show ?thesis by blast
    next
      assume "pstate q = Running"
      with Some have "explicit_sgh (run_steps p [ProcExit]) = None"
        by (simp add: proc_in_def set_pstate_def handle_state_def appendPlainText_def process_finished_def
            setValue_def Let_def)
      then show ?thesis by blast
    qed
  qed
qed

theorem run_returns_to_idle_iff_witness:
  "(\<exists>es. explicit_sgh (run_steps (run_steps run_init [ClickRun ''input.yaml'']) es) = None) \<and>
   (\<nexists>es. explicit_sgh (run_steps (run_steps run_init [ClickRun ''input.yaml'', ProcFailedToStart]) es) = None)"
proof
  show "\<exists>es. explicit_sgh (run_steps (run_steps run_init [ClickRun ''input.yaml'']) es) = None"
    by (rule run_returns_to_idle_iff [THEN iffD2])
      (simp add: run_init_def run_explicit_SGH_def handle_state_def appendPlainText_def Let_def)
  show "\<nexists>es. explicit_sgh (run_steps (run_steps run_init [ClickRun ''input.yaml'', ProcFailedToStart]) es) = None"
    by (subst run_returns_to_idle_iff)
      (simp add: run_init_def run_explicit_SGH_def handle_state_def appendPlainText_def proc_in_def
        set_pstate_def Let_def)
qed

end
