(* ===== verification/Spec2Isabelle.thy ===== *)
theory Spec2Isabelle
  imports Prelude PyText VtkReader PercentDiff TestDriver GuiSGH GuiProcess
begin

text \<open>
  \<^bold>\<open>A verification library for the Fierro regression-test driver and the
  explicit SGH page of the Fierro graphical front end.\<close>

  \<^bold>\<open>The program.\<close> \<open>src/integrated-tests/Test-scripts/test_fierro.py\<close> checks
  the explicit SGH solver against stored results.  It has three parts, leaves
  first:
  \<^item> the \<^emph>\<open>VTK readers\<close> \<open>extract_vector_data\<close> and \<open>extract_scalar_data\<close>
    (lines 46--87), which scan a legacy VTK text file for the first line
    containing a keyword and parse the non-blank lines after it;
  \<^item> the \<^emph>\<open>difference engine\<close> \<open>percent_difference_scalars\<close>,
    \<open>percent_difference_vectors\<close> and \<open>magnitude\<close> (lines 90--123), the
    zero-guarded percent differences and their per-point magnitude;
  \<^item> the \<^emph>\<open>driver\<close>, the module-level script (lines 9--43 and 126--146):
    a pre-flight check for the solver executable, then for each scenario
    \<open>Noh\<close>, \<open>Sedov\<close>, \<open>Sod\<close> in order: run the solver with \<open>os.system\<close>,
    read the reference and the fresh \<open>POINTS\<close> sections, compare them, raise
    on the first point whose difference is at least \<open>1.0e-6\<close>, and delete the
    \<open>vtk\<close> output directory.
  The driver calls the readers twice per scenario and the difference engine
  once; the solver is an external program that communicates only through the
  file system.  Beside it, the graphical front end
  (\<open>src/python/FIERRO-GUI/fierro_gui/Explicit_SGH.py\<close>) edits the inputs of
  an explicit SGH run and runs the solver: Qt slots that add and delete rows
  of the tables of basic geometries, materials, material assignments and
  boundary conditions, keep the part and material combo boxes in step with
  those tables, show the parts as VTK actors, and start the solver in a
  \<open>QProcess\<close> whose signals report its state and progress.

  \<^bold>\<open>The theories.\<close>
  \<^item> \<open>Prelude\<close>: the Python exceptions (\<open>py_error\<close>), results \<open>py_error + 'a\<close>
    with \<open>res_bind\<close> and \<open>map_res\<close> (a loop that stops at the first
    exception), Python indexing \<open>py_index\<close> (IndexError out of range), the
    file system as a map from paths to text, and shared list lemmas.
  \<^item> \<open>PyText\<close>: the Python primitives the readers are built from, modelled from
    the language semantics: \<open>str.isspace\<close>, \<open>strip\<close>, \<open>split()\<close>, the substring
    test \<open>in\<close>, line iteration over a text file with universal newlines, and
    \<open>float()\<close> on decimal literals; integer printing for round trips.
  \<^item> \<open>VtkReader\<close>: \<open>parse_vector_line\<close>, \<open>extract_vector_loop\<close>,
    \<open>extract_vector_data\<close>, \<open>parse_scalar_line\<close>, \<open>extract_scalar_loop\<close>,
    \<open>extract_scalar_data\<close>, one definition per loop or line body of the source,
    the flag \<open>found_keyword\<close> and the accumulator \<open>data\<close> as arguments; the
    abstract reader \<open>section_lines\<close>/\<open>read_vectors_spec\<close>/\<open>read_scalars_spec\<close>
    and a model of a VTK writer (\<open>vtk_vector_file\<close>).
  \<^item> \<open>PercentDiff\<close>: \<open>percent_entry\<close> (the guarded expression of lines 97 and
    112), \<open>percent_difference_scalars\<close>, \<open>vector_row\<close> (one iteration of the first
    loop of lines 107--112), \<open>percent_difference_vectors\<close>, \<open>magnitude\<close>.
  \<^item> \<open>TestDriver\<close>: the world (\<open>record world\<close>: files and printed lines), the
    outcome (\<open>Finished\<close> or \<open>Raised\<close> with the world at the raise), the
    configuration constants, \<open>check_positions\<close> (lines 141--143),
    \<open>run_one\<close> (one iteration of lines 126--146), \<open>run_tests\<close> (the loop) and
    \<open>run_script_for\<close>/\<open>run_script\<close> (the whole module with the pre-flight check).
  \<^item> \<open>GuiSGH\<close>: the material, material-assignment and boundary-condition
    editors of \<open>Explicit_SGH.py\<close> (lines 181--427).  Qt tables are records of a
    column count and rows of optional cells (\<open>insertRow\<close>, \<open>setItem\<close>,
    \<open>removeRow\<close>, \<open>item_text\<close>, which raises AttributeError on an empty cell),
    combo boxes records of items and current index; the page is the record
    \<open>sgh_gui\<close>; \<open>add_material_SGH\<close>, \<open>delete_material_SGH\<close>, \<open>EOS_Model\<close>,
    \<open>assign_material_SGH\<close>, \<open>delete_assign_mat_SGH\<close>, \<open>selected_bcs\<close>,
    \<open>add_bcs_SGH\<close>, \<open>delete_bcs_SGH\<close>, the basic-geometry handlers
    \<open>basic_geometry\<close>, \<open>generate_basic_geometry\<close> (its three branches with their
    guards \<open>box_incomplete\<close>, \<open>sphere_incomplete\<close>, \<open>cylinder_incomplete\<close>),
    \<open>delete_basic_part\<close> and the four \<open>reset_\<close> helpers are one definition
    each; the part combo is rebuilt by \<open>refresh_parts\<close> from the tables each
    handler lists, VTK actors are numbers, \<open>actor_attrs\<close> the \<open>threshold_\<close>
    attributes set by \<open>setattr\<close> and \<open>renderer\<close> the actors shown; \<open>gui_step\<close> dispatches user events (edits, combo
    selections, button clicks with the selected row and the answer to the
    confirmation dialog) as the signal connections do, and the inductive
    \<open>gui_reachable\<close> collects the states reachable from \<open>gui_init\<close>, the
    import code (outside the repository's sources) being allowed to replace
    the parts table \<open>TParts\<close> by any table of named rows.
  \<^item> \<open>GuiProcess\<close>: the solver run of the same page (lines 429--472): the
    record \<open>run_page\<close> (the held \<open>QProcess\<close> with its state, the run counter,
    the progress bar, the output window, the \<open>INTime\<close> text),
    \<open>run_explicit_SGH\<close>, \<open>simple_percent_parser\<close> (the regular expression
    search as \<open>progress_search\<close>), \<open>handle_stdout\<close>, \<open>handle_stderr\<close>,
    \<open>handle_state\<close>, \<open>process_finished\<close>; \<open>run_step\<close> gives the Qt signal
    order (start emits Starting; a started process emits Running, and at exit
    NotRunning then \<open>finished\<close>; a failed start emits NotRunning and no
    \<open>finished\<close>), \<open>run_reachable\<close> the reachable states.
  \<^item> \<open>Spec2Isabelle\<close> (this theory): the properties that span components.

  \<^bold>\<open>What the lemmas show.\<close>
  Readers: the streaming loops refine the abstract reader (they parse exactly
  the section lines, in order, stopping at the first exception); the section
  ends at the first blank line; a missing keyword gives the empty series; every
  vector returned has three coordinates; a line with extra fields is accepted,
  a short line raises IndexError, a malformed number raises ValueError; a
  written point section is read back exactly.  Difference engine: the index
  loops equal \<open>map2\<close> of the per-entry rule; exact success/failure
  characterisation of \<open>percent_difference_vectors\<close>; zero guard, signs, the
  examples of spec section 8, length and shape errors, comparing a series with
  itself, unit independence.  Driver: the verdict rule of a scenario; what
  the run prints on success and on failure (strict order, fail-fast); the
  output directory is gone after a successful run but kept after a failure;
  the pre-flight error; the solver's exit status is ignored; paths outside
  \<open>vtk\<close> survive any run; a missing fresh file raises FileNotFoundError; two
  files without a point section pass.  Across components: the spec's
  end-to-end example fails with IndexError; the shape error is unreachable
  from the driver; a pass bounds every coordinate's percent difference;
  a reference point at the origin accepts any fresh point.  Front end: the
  invariant \<open>gui_inv\<close> (every material row has a name cell, the material
  combo lists exactly the material names, tables are rectangular) holds in
  every reachable state, by rule induction, so no combo rebuild raises; the
  effect of adding and deleting a material; the guards of the add buttons;
  and three weaknesses: a blank name is stored as the empty name, the EOS
  handler tests \<open>'None'\<close> where the add handler tests \<open>"none"\<close>, and deleting
  a material leaves the assignments that name it (an explicit run from the
  initial page), while an assignment made with no material names the empty
  string.  Geometry: every table stays rectangular and named; the only
  exception a reachable page raises is the ValueError of a box bound, which
  leaves the box half added (row in the table, no actor, not in the part
  combo); the part combo drops imported parts after a box or sphere is added
  and lists them in different orders after a cylinder is added and after a
  delete; two parts with one name leave an actor no delete removes.  Solver
  run: the normal life cycle; a failed start (the executable path of line 434
  is fixed to one developer's machine) freezes the page for good, and the page
  can return to idle exactly when it holds no failed start; a progress line
  with an empty, malformed or zero \<open>INTime\<close> raises before the output is
  shown; the progress parser reads back the step number the solver prints.

  \<^bold>\<open>Modelling choices.\<close> Python floats are exact reals: rounding is not
  modelled, and \<open>float()\<close> accepts the decimal literal grammar (sign, digits,
  fraction, exponent) but rejects \<open>inf\<close>, \<open>nan\<close> and digit separators, which
  Python accepts.  \<open>magnitude\<close> uses the real square root, which the code
  generator cannot run; all concrete instances are evaluated by \<open>simp\<close>.
  Characters are 8-bit, whitespace is its ASCII part.  The solver is a
  parameter \<open>sys\<close>: any function from command line and file system to new file
  system and exit status; a solver that never returns (the spec's hang) is
  outside this model.  \<open>os.path.exists\<close> is modelled for regular files.  All
  loops are structural recursions over lists; \<open>py_split\<close> terminates by the
  length measure; no fuel is needed.  In the front end, a widget's text is
  a string and a combo's \<open>currentText\<close> is its item at the current index (the
  empty string at index -1); the fourteen EOS widgets and the eight velocity
  widgets are each switched together, so their enabled state is one flag;
  message boxes are the list of their texts; the initial tables have the
  10, 10, 7 and 7 columns their handlers fill (the designer file is not in
  the repository); \<open>currentRow()\<close> of a delete is the row the user selected
  or -1.  \<open>vtkRenderer.RemoveActor(None)\<close> does nothing; the progress bar
  stores the value it is given (whether PySide accepts a float there is not
  modelled, and no property depends on it); output chunks are decoded text.

  \<^bold>\<open>Not modelled.\<close> In \<open>Explicit_SGH.py\<close>: the tab buttons of lines
  21--28 (they only switch the settings page), the VTK pipeline objects of a
  box (cube source, mapper, camera and render calls, lines 59--83) beyond the
  actor they create, and \<open>Explicit_SGH_WInput\<close>, the input-deck writer called
  by \<open>run_explicit_SGH\<close>, which is not in the repository; its result is the
  parameter \<open>deck\<close> of the Run click.  The solver itself is external.
\<close>

section \<open>Properties across components\<close>



text \<open>Claim C22: Across the reader and the difference engine: two series returned by the vector reader never trigger the shape error of percent_difference_vectors, so in the driver that branch is unreachable and only the length check can fail.\<close>

theorem reads_never_shape_error:
  assumes "extract_vector_data fs f kw = Inr gt" and "extract_vector_data fs' f' kw' = Inr res"
  shows "percent_difference_vectors gt res \<noteq> Inl (ValueError ''Subarrays must have length 3'')"
proof (cases "length gt = length res")
  case True
  with extract_vector_data_shape [OF assms(1)] extract_vector_data_shape [OF assms(2)]
  show ?thesis by (simp add: percent_difference_vectors_map2)
next
  case False
  then show ?thesis by (simp add: percent_difference_vectors_def)
qed

theorem reads_never_shape_error_witness:
  "percent_difference_vectors [ [1, 0, 0] ] [ [1, 2, 3], [0, 0, 0] ] \<noteq> Inl (ValueError ''Subarrays must have length 3'')"
proof -
  have "extract_vector_data [''a'' \<mapsto> write_lines [''POINTS'', ''1 0 0''] ] ''a'' ''POINTS'' = Inr [ [1, 0, 0] ]"
    by (simp add: extract_vector_data_def file_lines_write_lines vtk_eval py_simps)
  moreover have "extract_vector_data [''b'' \<mapsto> write_lines [''POINTS'', ''1 2 3'', ''0 0 0''] ] ''b'' ''POINTS'' =
      Inr [ [1, 2, 3], [0, 0, 0] ]"
    by (simp add: extract_vector_data_def file_lines_write_lines vtk_eval py_simps)
  ultimately show ?thesis by (rule reads_never_shape_error)
qed

text \<open>Claim C33: A passing comparison bounds every coordinate: each per-component percent difference of each point is below 1.0e-6 in absolute value.\<close>

theorem verdict_bounds_components:
  assumes "points_agree gt res"
    and "list_all (\<lambda>v. length v = 3) gt" and "list_all (\<lambda>v. length v = 3) res"
    and "i < length gt" and "j < 3"
  shows "\<bar>percent_entry (gt ! i ! j) (res ! i ! j)\<bar> < tolerance"
proof -
  from assms(1,4) have mag: "magnitude (map2 percent_entry (gt ! i) (res ! i)) < tolerance"
    by (auto simp: points_agree_def list_all2_conv_all_nth)
  from assms(1-5) have "j < length (gt ! i)" "j < length (res ! i)"
    by (auto simp: points_agree_def list_all_length)
  then have "percent_entry (gt ! i ! j) (res ! i ! j) \<in> set (map2 percent_entry (gt ! i) (res ! i))"
    by (force simp: in_set_conv_nth)
  then have "\<bar>percent_entry (gt ! i ! j) (res ! i ! j)\<bar> \<le> magnitude (map2 percent_entry (gt ! i) (res ! i))"
    by (rule abs_le_magnitude)
  with mag show ?thesis by linarith
qed

theorem verdict_bounds_components_witness:
  "\<bar>percent_entry ([ [1, 2, 3] ] ! 0 ! 2) ([ [1, 2, 3] ] ! 0 ! 2)\<bar> < tolerance"
proof (rule verdict_bounds_components)
  show "points_agree [ [1, 2, 3] ] [ [1, 2, 3] ]"
    by (simp add: points_agree_def percent_entry_def magnitude_def tolerance_def)
qed simp_all



end
